theory Spec2Isabelle
  imports Main "HOL-Library.Word"
begin

unbundle bit_operations_syntax

section \<open>Machine values\<close>

text \<open>
  The virtual machine of \<^verbatim>\<open>vm.cpp\<close> works on \<^verbatim>\<open>int32_t\<close> cells, \<^verbatim>\<open>uint8_t\<close>
  code bytes and 32-bit \<^verbatim>\<open>float\<close> registers. Integers are 32-bit words (\<open>+\<close>, \<open>-\<close>, \<open>*\<close>
  wrap, \<open>sint\<close> reads the signed value). A \<^verbatim>\<open>float\<close> is kept as its 32-bit pattern, the
  way \<^verbatim>\<open>readFloat32\<close> obtains it with \<^verbatim>\<open>memcpy\<close>. Values of type \<^verbatim>\<open>size_t\<close> (vector
  sizes, the instruction pointer, the base pointer) are natural numbers: no vector of
  the machine reaches \<open>2 ^ 64\<close> elements.
\<close>

type_synonym int32 = "32 word"
type_synonym byte = "8 word"
type_synonym float32 = "32 word"

text \<open>
  The arithmetic of the host's floating-point unit, the formatting of a float by
  \<^verbatim>\<open>operator<<\<close>, the extraction \<^verbatim>\<open>std::cin >> value\<close> and \<^verbatim>\<open>std::stof\<close> are
  library code outside the repository. They are a parameter of the model: every
  theorem below holds for each such host.
\<close>

record host =
  fadd :: "float32 \<Rightarrow> float32 \<Rightarrow> float32"
  fsub :: "float32 \<Rightarrow> float32 \<Rightarrow> float32"
  fmul :: "float32 \<Rightarrow> float32 \<Rightarrow> float32"
  fdiv :: "float32 \<Rightarrow> float32 \<Rightarrow> float32"
  fneg :: "float32 \<Rightarrow> float32"
  fless :: "float32 \<Rightarrow> float32 \<Rightarrow> bool"
  int_to_fp :: "int32 \<Rightarrow> float32"
  fp_to_int :: "float32 \<Rightarrow> int32"
  show_float :: "float32 \<Rightarrow> string"
  cin_int :: "string \<Rightarrow> int32 option \<times> string"
  stof :: "string \<Rightarrow> float32 option"

text \<open>\<^verbatim>\<open>b == 0.0f\<close>: true for the patterns of \<open>+0.0\<close> and \<open>-0.0\<close> only.\<close>

definition float_is_zero :: "float32 \<Rightarrow> bool" where
  "float_is_zero b = (b AND 0x7FFFFFFF = 0)"

text \<open>Decimal output of integers, as \<^verbatim>\<open>std::to_string\<close> and \<^verbatim>\<open>operator<<\<close> print them.\<close>

definition digit_char :: "nat \<Rightarrow> char" where
  "digit_char d = ''0123456789'' ! d"

function show_nat :: "nat \<Rightarrow> string" where
  "show_nat n = (if n < 10 then [digit_char n] else show_nat (n div 10) @ [digit_char (n mod 10)])"
  by pat_completeness auto
termination
  by (relation "measure id") auto

definition show_int :: "int \<Rightarrow> string" where
  "show_int i = (if i < 0 then CHR ''-'' # show_nat (nat (- i)) else show_nat (nat i))"

text \<open>C++ integer division truncates towards zero; the remainder has the dividend's sign.\<close>

definition sdiv32 :: "int32 \<Rightarrow> int32 \<Rightarrow> int32" where
  "sdiv32 a b = word_of_int (sgn (sint a) * sgn (sint b) * (\<bar>sint a\<bar> div \<bar>sint b\<bar>))"

definition smod32 :: "int32 \<Rightarrow> int32 \<Rightarrow> int32" where
  "smod32 a b = a - sdiv32 a b * b"

text \<open>Conversion of an \<^verbatim>\<open>int32_t\<close> to \<^verbatim>\<open>size_t\<close>: a negative value wraps modulo \<open>2 ^ 64\<close>.\<close>

definition to_size_t :: "int32 \<Rightarrow> nat" where
  "to_size_t a = nat (sint a mod 2 ^ 64)"

text \<open>Four code bytes read in little-endian order (\<^verbatim>\<open>memcpy\<close> on the host).\<close>

definition le_word32 :: "byte \<Rightarrow> byte \<Rightarrow> byte \<Rightarrow> byte \<Rightarrow> 32 word" where
  "le_word32 b0 b1 b2 b3 =
     ucast b0 OR push_bit 8 (ucast b1) OR push_bit 16 (ucast b2) OR push_bit 24 (ucast b3)"

text \<open>\<^verbatim>\<open>std::vector::resize(n, v)\<close>.\<close>

definition resize :: "nat \<Rightarrow> 'a \<Rightarrow> 'a list \<Rightarrow> 'a list" where
  "resize n v xs = take n xs @ replicate (n - length xs) v"

section \<open>The virtual machine state (\<^verbatim>\<open>vm.h\<close>)\<close>

datatype VMOpcode =
    PUSH | POP | ADD | SUB | MUL | DIV | MOD | DUP | SWAP
  | PRINT | PRINT_STR | INPUT_STR | INPUT
  | JMP | JZ | JNZ | JL | JG | JLE | JGE | CMP | CALL | RET
  | LOAD | STORE | LOAD_BP | STORE_BP | PUSH_BP | POP_BP | PUSH_STR
  | LOAD_INDIRECT | STORE_INDIRECT | ALLOC | FREE
  | FPUSH | FPOP | FADD | FSUB | FMUL | FDIV | FLOAD | FSTORE
  | FPRINT | FCMP | FNEG | FDUP | INT_TO_FP | FP_TO_INT
  | HALT

text \<open>The byte of each opcode, as the enumeration assigns it.\<close>

fun opcode_byte :: "VMOpcode \<Rightarrow> byte" where
  "opcode_byte PUSH = 0x01" | "opcode_byte POP = 0x02" | "opcode_byte ADD = 0x03"
| "opcode_byte SUB = 0x04" | "opcode_byte MUL = 0x05" | "opcode_byte DIV = 0x06"
| "opcode_byte MOD = 0x07" | "opcode_byte DUP = 0x08" | "opcode_byte SWAP = 0x09"
| "opcode_byte PRINT = 0x0A" | "opcode_byte PRINT_STR = 0x0B" | "opcode_byte INPUT_STR = 0x0C"
| "opcode_byte INPUT = 0x0D"
| "opcode_byte JMP = 0x10" | "opcode_byte JZ = 0x11" | "opcode_byte JNZ = 0x12"
| "opcode_byte JL = 0x13" | "opcode_byte JG = 0x14" | "opcode_byte JLE = 0x15"
| "opcode_byte JGE = 0x16" | "opcode_byte CMP = 0x17" | "opcode_byte CALL = 0x18"
| "opcode_byte RET = 0x19"
| "opcode_byte LOAD = 0x20" | "opcode_byte STORE = 0x21" | "opcode_byte LOAD_BP = 0x22"
| "opcode_byte STORE_BP = 0x23" | "opcode_byte PUSH_BP = 0x24" | "opcode_byte POP_BP = 0x25"
| "opcode_byte PUSH_STR = 0x26" | "opcode_byte LOAD_INDIRECT = 0x27"
| "opcode_byte STORE_INDIRECT = 0x28" | "opcode_byte ALLOC = 0x29" | "opcode_byte FREE = 0x2A"
| "opcode_byte FPUSH = 0x30" | "opcode_byte FPOP = 0x31" | "opcode_byte FADD = 0x32"
| "opcode_byte FSUB = 0x33" | "opcode_byte FMUL = 0x34" | "opcode_byte FDIV = 0x35"
| "opcode_byte FLOAD = 0x36" | "opcode_byte FSTORE = 0x37" | "opcode_byte FPRINT = 0x38"
| "opcode_byte FCMP = 0x39" | "opcode_byte FNEG = 0x3A" | "opcode_byte FDUP = 0x3B"
| "opcode_byte INT_TO_FP = 0x3C" | "opcode_byte FP_TO_INT = 0x3D"
| "opcode_byte HALT = 0xFF"

definition all_opcodes :: "VMOpcode list" where
  "all_opcodes =
    [PUSH, POP, ADD, SUB, MUL, DIV, MOD, DUP, SWAP, PRINT, PRINT_STR, INPUT_STR, INPUT,
     JMP, JZ, JNZ, JL, JG, JLE, JGE, CMP, CALL, RET,
     LOAD, STORE, LOAD_BP, STORE_BP, PUSH_BP, POP_BP, PUSH_STR,
     LOAD_INDIRECT, STORE_INDIRECT, ALLOC, FREE,
     FPUSH, FPOP, FADD, FSUB, FMUL, FDIV, FLOAD, FSTORE,
     FPRINT, FCMP, FNEG, FDUP, INT_TO_FP, FP_TO_INT, HALT]"

text \<open>
  \<^verbatim>\<open>static_cast<VMOpcode>(opcode_byte)\<close> followed by the \<^verbatim>\<open>switch\<close>: a byte that is no
  enumerator takes the \<^verbatim>\<open>default\<close> branch (\<open>None\<close>).
\<close>

definition decode_opcode :: "byte \<Rightarrow> VMOpcode option" where
  "decode_opcode b = find (\<lambda>op. opcode_byte op = b) all_opcodes"

record HeapBlock =
  start :: nat
  bsize :: nat
  allocated :: bool

record VMObject =
  className :: string
  obj_fields :: "(string \<times> int32) list"

record CallFrame =
  return_address :: nat
  frame_base_pointer :: nat

text \<open>
  The fields of \<^verbatim>\<open>class VirtualMachine\<close>. The standard streams are two more fields:
  \<open>cout\<close> collects what the machine writes to standard output, \<open>cin\<close> is the unread
  rest of standard input. The stack's top is the last element, as in the vector.
\<close>

record vm =
  bytecode :: "byte list"
  instruction_pointer :: nat
  halted :: bool
  error_flag :: bool
  error_message :: string
  debug_mode :: bool
  stack :: "int32 list"
  memory :: "int32 list"
  call_stack :: "CallFrame list"
  base_pointer :: nat
  heap :: "int32 list"
  heap_blocks :: "HeapBlock list"
  heap_start_addr :: nat
  string_table :: "string list"
  objects :: "(int32 \<times> VMObject) list"
  next_object_id :: int32
  cmp_flag :: int32
  fpu_regs :: "float32 list"
  fpu_top :: nat
  float_memory :: "float32 list"
  instruction_count :: nat
  max_stack_size :: nat
  cout :: string
  cin :: string

text \<open>The constructor \<^verbatim>\<open>VirtualMachine::VirtualMachine()\<close>.\<close>

definition new_vm :: vm where
  "new_vm = \<lparr>
     bytecode = [], instruction_pointer = 0, halted = False, error_flag = False,
     error_message = [], debug_mode = False, stack = [], memory = replicate 1024 0,
     call_stack = [], base_pointer = 0, heap = replicate 4096 0, heap_blocks = [],
     heap_start_addr = 10000, string_table = [], objects = [], next_object_id = 1,
     cmp_flag = 0, fpu_regs = replicate 8 0, fpu_top = 0, float_memory = replicate 1024 0,
     instruction_count = 0, max_stack_size = 0, cout = [], cin = [] \<rparr>"

text \<open>\<^verbatim>\<open>VirtualMachine::reset\<close>, statement by statement.\<close>

definition reset :: "vm \<Rightarrow> vm" where
  "reset m = m\<lparr>
     instruction_pointer := 0, halted := False, error_flag := False, error_message := [],
     stack := [], call_stack := [], objects := [], base_pointer := 0, next_object_id := 1,
     cmp_flag := 0, instruction_count := 0, max_stack_size := 0, fpu_top := 0,
     fpu_regs := replicate 8 0,
     float_memory := replicate (length (float_memory m)) 0,
     memory := replicate (length (memory m)) 0 \<rparr>"

definition loadBytecode :: "byte list \<Rightarrow> vm \<Rightarrow> vm" where
  "loadBytecode code m = reset (m\<lparr>bytecode := code\<rparr>)"

section \<open>Stack, memory and code access\<close>

definition error :: "string \<Rightarrow> vm \<Rightarrow> vm" where
  "error msg m = m\<lparr>error_flag := True, error_message := msg, halted := True\<rparr>"

definition push :: "int32 \<Rightarrow> vm \<Rightarrow> vm" where
  "push v m = m\<lparr>stack := stack m @ [v]\<rparr>"

text \<open>\<^verbatim>\<open>pop\<close> reports an underflow and returns 0; the caller goes on with that value.\<close>

definition pop :: "vm \<Rightarrow> int32 \<times> vm" where
  "pop m = (if stack m = [] then (0, error ''Stack underflow'' m)
            else (last (stack m), m\<lparr>stack := butlast (stack m)\<rparr>))"

definition peek :: "vm \<Rightarrow> int32" where
  "peek m = (if stack m = [] then 0 else last (stack m))"

definition isHeapAddress :: "vm \<Rightarrow> int32 \<Rightarrow> bool" where
  "isHeapAddress m addr = (sint (word_of_nat (heap_start_addr m) :: int32) \<le> sint addr)"

definition storeMemory :: "int32 \<Rightarrow> int32 \<Rightarrow> vm \<Rightarrow> vm" where
  "storeMemory addr v m =
     (if sint addr < 0 then error ''Negative memory address'' m
      else if isHeapAddress m addr then
        (let heap_offset = nat (sint addr) - heap_start_addr m;
             h = (if heap_offset \<ge> length (heap m) then resize (heap_offset + 1024) 0 (heap m)
                  else heap m)
         in m\<lparr>heap := h[heap_offset := v]\<rparr>)
      else
        (let a = nat (sint addr);
             mem = (if a \<ge> length (memory m) then resize (a + 1024) 0 (memory m) else memory m)
         in m\<lparr>memory := mem[a := v]\<rparr>))"

definition loadMemory :: "int32 \<Rightarrow> vm \<Rightarrow> int32 \<times> vm" where
  "loadMemory addr m =
     (if sint addr < 0 then (0, error ''Negative memory address'' m)
      else if isHeapAddress m addr then
        (let heap_offset = nat (sint addr) - heap_start_addr m
         in if heap_offset \<ge> length (heap m)
            then (0, error ''Heap memory access out of bounds'' m)
            else (heap m ! heap_offset, m))
      else
        (let a = nat (sint addr)
         in if a \<ge> length (memory m) then (0, error ''Memory access out of bounds'' m)
            else (memory m ! a, m)))"

definition readByte :: "vm \<Rightarrow> byte \<times> vm" where
  "readByte m =
     (if instruction_pointer m \<ge> length (bytecode m)
      then (0, error ''Unexpected end of bytecode'' m)
      else (bytecode m ! instruction_pointer m,
            m\<lparr>instruction_pointer := instruction_pointer m + 1\<rparr>))"

text \<open>The four operand bytes at offset \<open>p\<close> of the code, as one value.\<close>

definition operand_at :: "byte list \<Rightarrow> nat \<Rightarrow> 32 word" where
  "operand_at c p = le_word32 (c ! p) (c ! (p + 1)) (c ! (p + 2)) (c ! (p + 3))"

definition read4 :: "vm \<Rightarrow> 32 word" where
  "read4 m = operand_at (bytecode m) (instruction_pointer m)"

definition readInt32 :: "vm \<Rightarrow> int32 \<times> vm" where
  "readInt32 m =
     (if instruction_pointer m + 4 > length (bytecode m)
      then (0, error ''Unexpected end of bytecode reading int32'' m)
      else (read4 m, m\<lparr>instruction_pointer := instruction_pointer m + 4\<rparr>))"

definition readFloat32 :: "vm \<Rightarrow> float32 \<times> vm" where
  "readFloat32 m =
     (if instruction_pointer m + 4 > length (bytecode m)
      then (0, error ''Unexpected end of bytecode reading float32'' m)
      else (read4 m, m\<lparr>instruction_pointer := instruction_pointer m + 4\<rparr>))"

subsection \<open>The FPU register stack\<close>

definition fpush :: "float32 \<Rightarrow> vm \<Rightarrow> vm" where
  "fpush v m = (let t = (fpu_top m + 8 - 1) mod 8
                in m\<lparr>fpu_top := t, fpu_regs := (fpu_regs m)[t := v]\<rparr>)"

definition fpop :: "vm \<Rightarrow> float32 \<times> vm" where
  "fpop m = (fpu_regs m ! fpu_top m,
             m\<lparr>fpu_regs := (fpu_regs m)[fpu_top m := 0], fpu_top := (fpu_top m + 1) mod 8\<rparr>)"

definition fpeek :: "vm \<Rightarrow> float32" where
  "fpeek m = fpu_regs m ! fpu_top m"

subsection \<open>The heap (\<^verbatim>\<open>allocateHeap\<close>, \<^verbatim>\<open>freeHeap\<close>)\<close>

text \<open>The index of the first block the first-fit loop accepts.\<close>

fun find_fit :: "nat \<Rightarrow> HeapBlock list \<Rightarrow> nat option" where
  "find_fit n [] = None"
| "find_fit n (b # bs) =
     (if \<not> allocated b \<and> bsize b \<ge> n then Some 0
      else map_option Suc (find_fit n bs))"

text \<open>
  A free block that fits is split when larger (the rest is appended to the block list)
  and marked allocated; otherwise a new block is put after the last block of the list.
  The result is the address converted to \<^verbatim>\<open>int32_t\<close>.
\<close>

definition allocateHeap :: "nat \<Rightarrow> vm \<Rightarrow> int32 \<times> vm" where
  "allocateHeap n m =
     (case find_fit n (heap_blocks m) of
        Some i \<Rightarrow>
          (let b = heap_blocks m ! i;
               bs1 = (if bsize b > n
                      then heap_blocks m @ [\<lparr>start = start b + n, bsize = bsize b - n, allocated = False\<rparr>]
                      else heap_blocks m);
               b' = b\<lparr>bsize := n, allocated := True\<rparr>;
               h = (if start b' + bsize b' > length (heap m)
                    then resize (start b' + bsize b' + 1024) 0 (heap m) else heap m)
           in (word_of_nat (heap_start_addr m + start b'),
               m\<lparr>heap_blocks := bs1[i := b'], heap := h\<rparr>))
      | None \<Rightarrow>
          (let new_start = (if heap_blocks m = [] then 0
                            else start (last (heap_blocks m)) + bsize (last (heap_blocks m)));
               new_block = \<lparr>start = new_start, bsize = n, allocated = True\<rparr>;
               h = (if new_start + n > length (heap m)
                    then resize (new_start + n + 1024) 0 (heap m) else heap m)
           in (word_of_nat (heap_start_addr m + new_start),
               m\<lparr>heap := h, heap_blocks := heap_blocks m @ [new_block]\<rparr>)))"

fun find_allocated :: "nat \<Rightarrow> HeapBlock list \<Rightarrow> nat option" where
  "find_allocated off [] = None"
| "find_allocated off (b # bs) =
     (if start b = off \<and> allocated b then Some 0
      else map_option Suc (find_allocated off bs))"

text \<open>Zeroing the cells of a freed block that lie inside the heap vector.\<close>

definition zero_cells :: "nat \<Rightarrow> nat \<Rightarrow> int32 list \<Rightarrow> int32 list" where
  "zero_cells s n h = fold (\<lambda>i h. if s + i < length h then h[s + i := 0] else h) [0..<n] h"

definition freeHeap :: "int32 \<Rightarrow> vm \<Rightarrow> vm" where
  "freeHeap addr m =
     (if \<not> isHeapAddress m addr then error ''Attempting to free non-heap address'' m
      else
        (let heap_offset = nat (sint addr) - heap_start_addr m
         in case find_allocated heap_offset (heap_blocks m) of
              Some i \<Rightarrow>
                (let b = heap_blocks m ! i
                 in m\<lparr>heap_blocks := (heap_blocks m)[i := b\<lparr>allocated := False\<rparr>],
                      heap := zero_cells (start b) (bsize b) (heap m)\<rparr>)
            | None \<Rightarrow> error ''Invalid heap address for free operation'' m))"

subsection \<open>Standard input\<close>

text \<open>\<^verbatim>\<open>std::cin.ignore(max, '\n')\<close> and \<^verbatim>\<open>std::getline\<close>.\<close>

definition ignore_line :: "string \<Rightarrow> string" where
  "ignore_line s = drop 1 (dropWhile (\<lambda>c. c \<noteq> CHR 0x0A) s)"

definition inputNumber :: "host \<Rightarrow> vm \<Rightarrow> int32 \<times> vm" where
  "inputNumber H m =
     (case cin_int H (cin m) of
        (None, rest) \<Rightarrow> (0, m\<lparr>cin := ignore_line rest\<rparr>)
      | (Some v, rest) \<Rightarrow> (v, m\<lparr>cin := ignore_line rest\<rparr>))"

definition inputString :: "vm \<Rightarrow> string \<times> vm" where
  "inputString m = (takeWhile (\<lambda>c. c \<noteq> CHR 0x0A) (cin m), m\<lparr>cin := ignore_line (cin m)\<rparr>)"

definition printValue :: "int32 \<Rightarrow> vm \<Rightarrow> vm" where
  "printValue v m = m\<lparr>cout := cout m @ show_int (sint v)\<rparr>"

definition printString :: "string \<Rightarrow> vm \<Rightarrow> vm" where
  "printString s m = m\<lparr>cout := cout m @ s\<rparr>"

section \<open>Instruction execution (\<^verbatim>\<open>executeInstruction\<close>, \<^verbatim>\<open>step\<close>, \<^verbatim>\<open>run\<close>)\<close>

definition cmp_result :: "bool \<Rightarrow> bool \<Rightarrow> int32" where
  "cmp_result lt gt = (if lt then - 1 else if gt then 1 else 0)"

text \<open>
  One equation per \<^verbatim>\<open>case\<close> of the \<^verbatim>\<open>switch\<close>, after the opcode byte has been read.
  A failed \<^verbatim>\<open>pop\<close> or \<^verbatim>\<open>readInt32\<close> has set the error flag and returned 0; the case
  goes on with that value, as the code does.
\<close>

fun exec_op :: "host \<Rightarrow> VMOpcode \<Rightarrow> vm \<Rightarrow> vm" where
  "exec_op H PUSH m = (case readInt32 m of (v, m1) \<Rightarrow> push v m1)"
| "exec_op H POP m = snd (pop m)"
| "exec_op H ADD m =
     (case pop m of (b, m1) \<Rightarrow> case pop m1 of (a, m2) \<Rightarrow> push (a + b) m2)"
| "exec_op H SUB m =
     (case pop m of (b, m1) \<Rightarrow> case pop m1 of (a, m2) \<Rightarrow> push (a - b) m2)"
| "exec_op H MUL m =
     (case pop m of (b, m1) \<Rightarrow> case pop m1 of (a, m2) \<Rightarrow> push (a * b) m2)"
| "exec_op H DIV m =
     (case pop m of (b, m1) \<Rightarrow> case pop m1 of (a, m2) \<Rightarrow>
        if b = 0 then error ''Division by zero'' m2 else push (sdiv32 a b) m2)"
| "exec_op H MOD m =
     (case pop m of (b, m1) \<Rightarrow> case pop m1 of (a, m2) \<Rightarrow>
        if b = 0 then error ''Modulo by zero'' m2 else push (smod32 a b) m2)"
| "exec_op H DUP m = push (peek m) m"
| "exec_op H SWAP m =
     (if length (stack m) < 2 then error ''Stack underflow in SWAP'' m
      else case pop m of (a, m1) \<Rightarrow> case pop m1 of (b, m2) \<Rightarrow> push b (push a m2))"
| "exec_op H PRINT m = (case pop m of (v, m1) \<Rightarrow> printValue v m1)"
| "exec_op H PRINT_STR m =
     (case pop m of (str_id, m1) \<Rightarrow>
        if 0 \<le> sint str_id \<and> nat (sint str_id) < length (string_table m1)
        then printString (string_table m1 ! nat (sint str_id)) m1
        else error ''Invalid string ID'' m1)"
| "exec_op H INPUT m = (case inputNumber H m of (v, m1) \<Rightarrow> push v m1)"
| "exec_op H INPUT_STR m =
     (case inputString m of (s, m1) \<Rightarrow>
        (let m2 = m1\<lparr>string_table := string_table m1 @ [s]\<rparr>
         in push (word_of_nat (length (string_table m2) - 1)) m2))"
| "exec_op H PUSH_STR m = (case readInt32 m of (str_id, m1) \<Rightarrow> push str_id m1)"
| "exec_op H JMP m =
     (case readInt32 m of (addr, m1) \<Rightarrow> m1\<lparr>instruction_pointer := to_size_t addr\<rparr>)"
| "exec_op H JZ m =
     (case readInt32 m of (addr, m1) \<Rightarrow> case pop m1 of (v, m2) \<Rightarrow>
        if v = 0 then m2\<lparr>instruction_pointer := to_size_t addr\<rparr> else m2)"
| "exec_op H JNZ m =
     (case readInt32 m of (addr, m1) \<Rightarrow> case pop m1 of (v, m2) \<Rightarrow>
        if v \<noteq> 0 then m2\<lparr>instruction_pointer := to_size_t addr\<rparr> else m2)"
| "exec_op H CMP m =
     (case pop m of (b, m1) \<Rightarrow> case pop m1 of (a, m2) \<Rightarrow>
        m2\<lparr>cmp_flag := cmp_result (sint a < sint b) (sint a > sint b)\<rparr>)"
| "exec_op H JL m =
     (case readInt32 m of (addr, m1) \<Rightarrow>
        if sint (cmp_flag m1) < 0 then m1\<lparr>instruction_pointer := to_size_t addr\<rparr> else m1)"
| "exec_op H JG m =
     (case readInt32 m of (addr, m1) \<Rightarrow>
        if sint (cmp_flag m1) > 0 then m1\<lparr>instruction_pointer := to_size_t addr\<rparr> else m1)"
| "exec_op H JLE m =
     (case readInt32 m of (addr, m1) \<Rightarrow>
        if sint (cmp_flag m1) \<le> 0 then m1\<lparr>instruction_pointer := to_size_t addr\<rparr> else m1)"
| "exec_op H JGE m =
     (case readInt32 m of (addr, m1) \<Rightarrow>
        if sint (cmp_flag m1) \<ge> 0 then m1\<lparr>instruction_pointer := to_size_t addr\<rparr> else m1)"
| "exec_op H CALL m =
     (case readInt32 m of (addr, m1) \<Rightarrow>
        m1\<lparr>call_stack := call_stack m1 @
               [\<lparr>return_address = instruction_pointer m1, frame_base_pointer = base_pointer m1\<rparr>],
           instruction_pointer := to_size_t addr\<rparr>)"
| "exec_op H RET m =
     (if call_stack m = [] then error ''Return without call'' m
      else (let frame = last (call_stack m)
            in m\<lparr>call_stack := butlast (call_stack m),
                 instruction_pointer := return_address frame,
                 base_pointer := frame_base_pointer frame\<rparr>))"
| "exec_op H PUSH_BP m =
     (let m1 = push (word_of_nat (base_pointer m)) m in m1\<lparr>base_pointer := length (stack m1)\<rparr>)"
| "exec_op H POP_BP m =
     (if base_pointer m = 0 \<or> base_pointer m > length (stack m)
      then error ''Invalid base pointer in POP_BP'' m
      else m\<lparr>base_pointer := to_size_t (stack m ! (base_pointer m - 1))\<rparr>)"
| "exec_op H LOAD m =
     (case readInt32 m of (addr, m1) \<Rightarrow> case loadMemory addr m1 of (v, m2) \<Rightarrow> push v m2)"
| "exec_op H STORE m =
     (case pop m of (addr, m1) \<Rightarrow> case pop m1 of (v, m2) \<Rightarrow> storeMemory addr v m2)"
| "exec_op H LOAD_BP m =
     (case readInt32 m of (offset, m1) \<Rightarrow>
        (let addr = int (base_pointer m1) + sint offset
         in if addr < 0 \<or> addr \<ge> int (length (stack m1))
            then error ''BP-relative load out of bounds'' m1
            else push (stack m1 ! nat addr) m1))"
| "exec_op H STORE_BP m =
     (case readInt32 m of (offset, m1) \<Rightarrow> case pop m1 of (v, m2) \<Rightarrow>
        (let addr = int (base_pointer m2) + sint offset
         in if addr < 0 then error ''BP-relative store out of bounds (negative address)'' m2
            else (let st = (if nat addr \<ge> length (stack m2)
                            then resize (nat addr + 1) 0 (stack m2) else stack m2)
                  in m2\<lparr>stack := st[nat addr := v]\<rparr>)))"
| "exec_op H LOAD_INDIRECT m =
     (case pop m of (addr, m1) \<Rightarrow> case loadMemory addr m1 of (v, m2) \<Rightarrow> push v m2)"
| "exec_op H STORE_INDIRECT m =
     (case pop m of (addr, m1) \<Rightarrow> case pop m1 of (v, m2) \<Rightarrow> storeMemory addr v m2)"
| "exec_op H ALLOC m =
     (case pop m of (sz, m1) \<Rightarrow>
        if sint sz \<le> 0 then error ''Invalid allocation size'' m1
        else case allocateHeap (nat (sint sz)) m1 of (addr, m2) \<Rightarrow>
          if sint addr < 0 then error ''Heap allocation failed'' m2 else push addr m2)"
| "exec_op H FREE m =
     (case pop m of (addr, m1) \<Rightarrow>
        if sint addr < 0 then error ''Invalid address for free'' m1 else freeHeap addr m1)"
| "exec_op H FPUSH m = (case readFloat32 m of (v, m1) \<Rightarrow> fpush v m1)"
| "exec_op H FPOP m = snd (fpop m)"
| "exec_op H FADD m =
     (case fpop m of (b, m1) \<Rightarrow> case fpop m1 of (a, m2) \<Rightarrow> fpush (fadd H a b) m2)"
| "exec_op H FSUB m =
     (case fpop m of (b, m1) \<Rightarrow> case fpop m1 of (a, m2) \<Rightarrow> fpush (fsub H a b) m2)"
| "exec_op H FMUL m =
     (case fpop m of (b, m1) \<Rightarrow> case fpop m1 of (a, m2) \<Rightarrow> fpush (fmul H a b) m2)"
| "exec_op H FDIV m =
     (case fpop m of (b, m1) \<Rightarrow> case fpop m1 of (a, m2) \<Rightarrow>
        if float_is_zero b then error ''FPU division by zero'' m2
        else fpush (fdiv H a b) m2)"
| "exec_op H FLOAD m =
     (case readInt32 m of (addr, m1) \<Rightarrow>
        if sint addr < 0 then error ''Negative FPU memory address'' m1
        else if nat (sint addr) \<ge> length (float_memory m1)
        then error ''FPU memory access out of bounds'' m1
        else fpush (float_memory m1 ! nat (sint addr)) m1)"
| "exec_op H FSTORE m =
     (case readInt32 m of (addr, m1) \<Rightarrow> case fpop m1 of (v, m2) \<Rightarrow>
        if sint addr < 0 then error ''Negative FPU memory address'' m2
        else (let a = nat (sint addr);
                  fm = (if a \<ge> length (float_memory m2)
                        then resize (a + 256) 0 (float_memory m2) else float_memory m2)
              in m2\<lparr>float_memory := fm[a := v]\<rparr>))"
| "exec_op H FPRINT m = (case fpop m of (v, m1) \<Rightarrow> printString (show_float H v) m1)"
| "exec_op H FCMP m =
     (case fpop m of (b, m1) \<Rightarrow> case fpop m1 of (a, m2) \<Rightarrow>
        m2\<lparr>cmp_flag := cmp_result (fless H a b) (fless H b a)\<rparr>)"
| "exec_op H FNEG m = (case fpop m of (v, m1) \<Rightarrow> fpush (fneg H v) m1)"
| "exec_op H FDUP m = fpush (fpeek m) m"
| "exec_op H INT_TO_FP m = (case pop m of (i, m1) \<Rightarrow> fpush (int_to_fp H i) m1)"
| "exec_op H FP_TO_INT m = (case fpop m of (f, m1) \<Rightarrow> push (fp_to_int H f) m1)"
| "exec_op H HALT m = m\<lparr>halted := True\<rparr>"

definition executeInstruction :: "host \<Rightarrow> vm \<Rightarrow> vm" where
  "executeInstruction H m =
     (case readByte m of (opcode, m1) \<Rightarrow>
        (case decode_opcode opcode of
           Some op \<Rightarrow> exec_op H op m1
         | None \<Rightarrow> error (''Unknown opcode: 0x'' @ show_nat (unat opcode)) m1))"

text \<open>The bookkeeping of \<^verbatim>\<open>step\<close> after the instruction: both diagnostic counters.\<close>

definition count_instruction :: "vm \<Rightarrow> vm" where
  "count_instruction m1 =
     (let m2 = m1\<lparr>instruction_count := instruction_count m1 + 1\<rparr>
      in if length (stack m2) > max_stack_size m2
         then m2\<lparr>max_stack_size := length (stack m2)\<rparr> else m2)"

definition step :: "host \<Rightarrow> vm \<Rightarrow> vm" where
  "step H m =
     (if halted m \<or> error_flag m then m
      else if instruction_pointer m \<ge> length (bytecode m)
      then error ''Instruction pointer out of bounds'' m
      else count_instruction (executeInstruction H m))"

text \<open>
  \<^verbatim>\<open>run\<close> loops until the machine halts or fails; a program may loop forever, so the
  result is optional: \<open>None\<close> is a run that never stops.
\<close>

partial_function (option) run :: "host \<Rightarrow> vm \<Rightarrow> vm option" where
  "run H m = (if halted m \<or> error_flag m then Some m else run H (step H m))"

section \<open>Heap block lists\<close>

text \<open>
  The cells of a block, the end of the highest block, and the two properties of a block
  list: the blocks cover \<open>[0, max_end)\<close> without overlapping, and no cell lies in two
  allocated blocks. \<open>op_alloc\<close> and \<open>op_free\<close> are \<^verbatim>\<open>PUSH s; ALLOC\<close> and
  \<^verbatim>\<open>PUSH a; FREE\<close> on a machine that is still running; \<open>contiguous_from\<close>,
  \<open>blocks_end\<close> and \<open>all_allocated\<close> state the invariant of the proofs.
\<close>

definition block_cells :: "HeapBlock \<Rightarrow> nat set" where
  "block_cells b = {start b ..< start b + bsize b}"

definition max_end :: "HeapBlock list \<Rightarrow> nat" where
  "max_end bs = foldr (\<lambda>b e. max (start b + bsize b) e) bs 0"

definition heap_partition :: "HeapBlock list \<Rightarrow> bool" where
  "heap_partition bs \<longleftrightarrow>
     (\<Union>b\<in>set bs. block_cells b) = {0 ..< max_end bs} \<and>
     (\<forall>i<length bs. \<forall>j<length bs. i \<noteq> j \<longrightarrow> block_cells (bs ! i) \<inter> block_cells (bs ! j) = {})"

definition single_owner :: "HeapBlock list \<Rightarrow> bool" where
  "single_owner bs \<longleftrightarrow>
     (\<forall>c<max_end bs. \<forall>i<length bs. \<forall>j<length bs.
        allocated (bs ! i) \<and> c \<in> block_cells (bs ! i) \<and>
        allocated (bs ! j) \<and> c \<in> block_cells (bs ! j) \<longrightarrow> i = j)"

definition op_alloc :: "host \<Rightarrow> int32 \<Rightarrow> vm \<Rightarrow> vm" where
  "op_alloc H s m = (if halted m \<or> error_flag m then m else exec_op H ALLOC (push s m))"

definition op_free :: "host \<Rightarrow> int32 \<Rightarrow> vm \<Rightarrow> vm" where
  "op_free H a m = (if halted m \<or> error_flag m then m else exec_op H FREE (push a m))"

fun contiguous_from :: "nat \<Rightarrow> HeapBlock list \<Rightarrow> bool" where
  "contiguous_from p [] = True"
| "contiguous_from p (b # bs) = (start b = p \<and> 0 < bsize b \<and> contiguous_from (p + bsize b) bs)"

fun blocks_end :: "nat \<Rightarrow> HeapBlock list \<Rightarrow> nat" where
  "blocks_end p [] = p"
| "blocks_end p (b # bs) = blocks_end (p + bsize b) bs"

definition all_allocated :: "vm \<Rightarrow> bool" where
  "all_allocated m \<longleftrightarrow>
     contiguous_from 0 (heap_blocks m) \<and> (\<forall>b\<in>set (heap_blocks m). allocated b)"

definition reset_demo :: "byte list" where
  "reset_demo = [0x01, 7, 0, 0, 0,  0x01, 1, 0, 0, 0,  0x29,  0x28,  0xFF]"

section \<open>Example programs\<close>

text \<open>
  \<^verbatim>\<open>genFunctionDecl\<close> (\<^verbatim>\<open>codegen.cpp\<close>) binds the parameter with index \<open>i\<close>, counted
  from 0 as the loop does, to the offset \<^verbatim>\<open>-(param_count - i + 1)\<close>, computed in \<^verbatim>\<open>int\<close>.
\<close>

definition param_offset :: "nat \<Rightarrow> nat \<Rightarrow> int32" where
  "param_offset param_count i = - (word_of_nat param_count - word_of_nat i + 1)"

definition param_demo :: "byte list" where
  "param_demo = [0x01, 7, 0, 0, 0,  0x18, 11, 0, 0, 0,  0xFF,
                 0x24,  0x22, 0xFF, 0xFF, 0xFF, 0xFF,  0xFF]"

definition param_demo2 :: "byte list" where
  "param_demo2 = [0x01, 7, 0, 0, 0,  0x18, 11, 0, 0, 0,  0xFF,
                  0x24,  0x22, 0xFE, 0xFF, 0xFF, 0xFF,  0xFF]"

definition fdiv_demo :: "byte list" where
  "fdiv_demo = [0x30, 0x00, 0x00, 0xC0, 0x40,  0x30, 0x00, 0x00, 0x00, 0x40,  0x35,  0xFF]"

definition fdiv_zero_demo :: "byte list" where
  "fdiv_zero_demo = [0x30, 0x00, 0x00, 0xC0, 0x40,  0x30, 0x00, 0x00, 0x00, 0x80,  0x35,  0xFF]"

definition cmp_demo :: "byte list" where
  "cmp_demo = [0x01, 2, 0, 0, 0,  0x01, 3, 0, 0, 0,  0x17,  0x13, 0x20, 0, 0, 0,  0xFF]"

section \<open>Tokens and the syntax tree (\<^verbatim>\<open>lexer.h\<close>, \<^verbatim>\<open>parser.h\<close>)\<close>

datatype TokenType =
    NUMBER | IDENTIFIER | OPERATOR | KEYWORD | STRING | CHARACTER | COMMENT
  | LEFT_PAREN | RIGHT_PAREN | LEFT_BRACE | RIGHT_BRACE | LEFT_BRACKET | RIGHT_BRACKET
  | COMMA | SEMICOLON | COLON | DOT
  | LESS | GREATER | LESS_EQUAL | GREATER_EQUAL | LEFT_SHIFT | RIGHT_SHIFT
  | ARROW | ARROW_STAR | DOT_STAR
  | END_OF_FILE | UNKNOWN | PREPROCESSOR | NEWLINE
  | ACCESS_SPECIFIER | TYPE_SPECIFIER | STORAGE_CLASS | TYPE_QUALIFIER
  | SCOPE_RESOLUTION | ELLIPSIS

text \<open>\<^verbatim>\<open>Token(type, value, line, column)\<close>.\<close>

datatype Token = Token (ttype: TokenType) (tvalue: string) (tline: nat) (tcolumn: nat)

text \<open>
  One constructor per node class of \<^verbatim>\<open>parser.h\<close>; the constructor is the node's kind
  tag. The last argument is the node's line and column. A child that the parser may
  leave null is optional; the other children are never null in a parsed tree.
\<close>

type_synonym pos = "nat \<times> nat"

datatype ast =
    Literal string TokenType pos
  | Identifier string pos
  | UnaryOp string ast pos
  | BinaryOp string ast ast pos
  | CallExpr ast "ast list" pos
  | MemberAccess ast string bool pos
  | ArraySubscript ast ast pos
  | ExprStmt "ast option" pos
  | VarDecl "string list" string "ast option" bool bool bool pos
  | BlockStmt "ast list" pos
  | IfStmt ast "ast option" "ast option" pos
  | WhileStmt ast "ast option" pos
  | ForStmt "ast option" "ast option" "ast option" "ast option" pos
  | ReturnStmt "ast option" pos
  | ClassDecl string "ast list" "string list" pos
  | StructDecl string "ast list" pos
  | NamespaceDecl string ast pos
  | TemplateDecl "string list" "ast option" pos
  | AccessSpec string pos
  | IncludeDirective string bool pos
  | UsingDirective string pos
  | FunctionDecl "string list" string "(string list \<times> string) list" "ast option" bool bool pos

text \<open>\<^verbatim>\<open>struct Program\<close>: the top-level nodes in source order.\<close>

type_synonym Program = "ast list"

section \<open>The lexer (\<^verbatim>\<open>lexer.cpp\<close>)\<close>

text \<open>
  The fields of \<^verbatim>\<open>class Lexer\<close>. The keyword tables are constants of the constructor
  and are written as lists below. Messages to the error stream are not modelled, the
  error flag is.
\<close>

record lexer =
  source :: string
  position :: nat
  line :: nat
  column :: nat
  tokens :: "Token list"
  lex_error_flag :: bool
  filename :: string

definition new_lexer :: "string \<Rightarrow> string \<Rightarrow> lexer" where
  "new_lexer input file = \<lparr>source = input, position = 0, line = 1, column = 1, tokens = [],
                            lex_error_flag = False, filename = file\<rparr>"

definition control_keywords :: "string list" where
  "control_keywords =
     [''if'', ''else'', ''while'', ''for'', ''do'', ''switch'', ''case'', ''default'', ''break'',
      ''continue'', ''return'', ''goto'', ''try'', ''catch'', ''throw'', ''this'', ''virtual'',
      ''explicit'', ''friend'', ''inline'', ''operator'', ''template'', ''typename'', ''mutable'',
      ''namespace'', ''using'', ''dynamic_cast'', ''static_cast'', ''const_cast'',
      ''reinterpret_cast'', ''typeid'', ''new'', ''delete'', ''sizeof'', ''asm'', ''export'',
      ''wchar_t'', ''bool'', ''true'', ''false'']"

definition type_keywords :: "string list" where
  "type_keywords =
     [''void'', ''char'', ''short'', ''int'', ''long'', ''float'', ''double'', ''signed'',
      ''unsigned'', ''class'', ''struct'', ''union'', ''enum'', ''typedef'']"

definition access_specifiers :: "string list" where
  "access_specifiers = [''public'', ''private'', ''protected'']"

definition storage_classes :: "string list" where
  "storage_classes = [''static'', ''extern'', ''auto'', ''register'']"

definition type_qualifiers :: "string list" where
  "type_qualifiers = [''const'', ''volatile'']"

definition single_operators :: string where
  "single_operators = ''+-*/=!&|^%~?''"

definition multi_char_operators :: "string list" where
  "multi_char_operators =
     [''++'', ''--'', ''+='', ''-='', ''*='', ''/='', ''%='', ''=='', ''!='', ''&&'', ''||'', ''!'',
      ''&='', ''|='', ''^='', ''<<'', ''>>'', ''<<='', ''>>='']"

definition categorizeKeyword :: "string \<Rightarrow> nat \<Rightarrow> nat \<Rightarrow> Token" where
  "categorizeKeyword v l c =
     (if v \<in> set access_specifiers then Token ACCESS_SPECIFIER v l c
      else if v \<in> set type_keywords then Token TYPE_SPECIFIER v l c
      else if v \<in> set control_keywords then Token KEYWORD v l c
      else if v \<in> set storage_classes then Token STORAGE_CLASS v l c
      else if v \<in> set type_qualifiers then Token TYPE_QUALIFIER v l c
      else Token IDENTIFIER v l c)"

text \<open>The character classes of \<^verbatim>\<open><cctype>\<close> in the C locale.\<close>

definition isdigit :: "char \<Rightarrow> bool" where
  "isdigit c = (c \<in> set ''0123456789'')"

definition isalpha :: "char \<Rightarrow> bool" where
  "isalpha c = (c \<in> set ''abcdefghijklmnopqrstuvwxyzABCDEFGHIJKLMNOPQRSTUVWXYZ'')"

definition isalnum :: "char \<Rightarrow> bool" where
  "isalnum c = (isalpha c \<or> isdigit c)"

definition isspace :: "char \<Rightarrow> bool" where
  "isspace c = (c \<in> set [CHR '' '', CHR 0x09, CHR 0x0A, CHR 0x0B, CHR 0x0C, CHR 0x0D])"

definition advance :: "lexer \<Rightarrow> lexer" where
  "advance lx = (if position lx < length (source lx)
                 then lx\<lparr>position := position lx + 1, column := column lx + 1\<rparr> else lx)"

definition reportError :: "lexer \<Rightarrow> lexer" where
  "reportError lx = lx\<lparr>lex_error_flag := True\<rparr>"

text \<open>The character at an offset from the position; the callers test the bound first.\<close>

definition peek_at :: "lexer \<Rightarrow> nat \<Rightarrow> char" where
  "peek_at lx k = source lx ! (position lx + k)"

definition has_at :: "lexer \<Rightarrow> nat \<Rightarrow> bool" where
  "has_at lx k = (position lx + k < length (source lx))"

text \<open>
  \<^verbatim>\<open>std::string::substr(pos, n)\<close> with \<open>pos\<close> inside the string, and the subtraction
  of \<^verbatim>\<open>size_t\<close> that computes the count: a negative difference wraps to a count larger
  than any string.
\<close>

definition size_sub :: "nat \<Rightarrow> nat \<Rightarrow> nat" where
  "size_sub a b = (if b \<le> a then a - b else 2 ^ 64 - (b - a))"

definition substr :: "string \<Rightarrow> nat \<Rightarrow> nat \<Rightarrow> string" where
  "substr s pos n = (if length s - pos \<le> n then drop pos s else take n (drop pos s))"

definition newline_here :: "lexer \<Rightarrow> lexer" where
  "newline_here lx = lx\<lparr>line := line lx + 1, column := 1\<rparr>"

function skipWhitespace :: "lexer \<Rightarrow> lexer" where
  "skipWhitespace lx =
     (if position lx < length (source lx) then
        (if peek_at lx 0 = CHR '' '' \<or> peek_at lx 0 = CHR 0x09 \<or> peek_at lx 0 = CHR 0x0D
         then skipWhitespace (advance lx)
         else if peek_at lx 0 = CHR 0x0A then skipWhitespace (advance (newline_here lx))
         else lx)
      else lx)"
  by pat_completeness auto
termination
  by (relation "measure (\<lambda>lx. length (source lx) - position lx)")
     (auto simp add: advance_def newline_here_def)

text \<open>The digit loop of \<^verbatim>\<open>readNumber\<close> with its two flags.\<close>

function number_loop :: "bool \<Rightarrow> bool \<Rightarrow> lexer \<Rightarrow> lexer" where
  "number_loop has_dot has_exponent lx =
     (if position lx < length (source lx) then
        (if isdigit (peek_at lx 0) then number_loop has_dot has_exponent (advance lx)
         else if peek_at lx 0 = CHR ''.'' \<and> \<not> has_dot \<and> \<not> has_exponent
           then number_loop True has_exponent (advance lx)
         else if (peek_at lx 0 = CHR ''e'' \<or> peek_at lx 0 = CHR ''E'') \<and> \<not> has_exponent
           then number_loop has_dot True
                  (let lx1 = advance lx
                   in if has_at lx1 0 \<and> (peek_at lx1 0 = CHR ''+'' \<or> peek_at lx1 0 = CHR ''-'')
                      then advance lx1 else lx1)
         else lx)
      else lx)"
  by pat_completeness auto
termination
  by (relation "measure (\<lambda>(d, e, lx). length (source lx) - position lx)")
     (auto simp add: advance_def has_at_def Let_def)

definition lower_is :: "char \<Rightarrow> char \<Rightarrow> char \<Rightarrow> bool" where
  "lower_is c lo up = (c = lo \<or> c = up)"

definition number_suffix :: "lexer \<Rightarrow> lexer" where
  "number_suffix lx =
     (if has_at lx 0 \<and> (lower_is (peek_at lx 0) CHR ''f'' CHR ''F''
                          \<or> lower_is (peek_at lx 0) CHR ''l'' CHR ''L''
                          \<or> lower_is (peek_at lx 0) CHR ''u'' CHR ''U'') then
        (let lx1 = advance lx
         in if has_at lx1 0 \<and> lower_is (peek_at lx1 0) CHR ''l'' CHR ''L'' then
              (let lx2 = advance lx1
               in if has_at lx2 0 \<and> lower_is (peek_at lx2 0) CHR ''l'' CHR ''L''
                  then advance lx2 else lx2)
            else lx1)
      else lx)"

definition readNumber :: "lexer \<Rightarrow> Token \<times> lexer" where
  "readNumber lx =
     (let lx1 = number_suffix (number_loop False False lx)
      in (Token NUMBER (substr (source lx1) (position lx) (position lx1 - position lx))
            (line lx) (column lx), lx1))"

function ident_loop :: "lexer \<Rightarrow> lexer" where
  "ident_loop lx =
     (if position lx < length (source lx) \<and> (isalnum (peek_at lx 0) \<or> peek_at lx 0 = CHR ''_'')
      then ident_loop (advance lx) else lx)"
  by pat_completeness auto
termination
  by (relation "measure (\<lambda>lx. length (source lx) - position lx)") (auto simp add: advance_def)

definition readIdentifier :: "lexer \<Rightarrow> Token \<times> lexer" where
  "readIdentifier lx =
     (let lx1 = ident_loop lx
      in (Token IDENTIFIER (substr (source lx1) (position lx) (position lx1 - position lx))
            (line lx) (column lx), lx1))"

text \<open>
  The loop of \<^verbatim>\<open>readString\<close> and \<^verbatim>\<open>readCharacter\<close> up to the closing quote \<open>q\<close>; only
  \<^verbatim>\<open>readString\<close> counts lines.
\<close>

function quoted_loop :: "char \<Rightarrow> bool \<Rightarrow> bool \<Rightarrow> lexer \<Rightarrow> lexer" where
  "quoted_loop q count_lines escape lx =
     (if position lx < length (source lx) then
        (if escape then quoted_loop q count_lines False (advance lx)
         else if peek_at lx 0 = CHR 0x5C then quoted_loop q count_lines True (advance lx)
         else if peek_at lx 0 = q then lx
         else if count_lines \<and> peek_at lx 0 = CHR 0x0A
           then quoted_loop q count_lines False (advance (newline_here lx))
         else quoted_loop q count_lines False (advance lx))
      else lx)"
  by pat_completeness auto
termination
  by (relation "measure (\<lambda>(q, c, e, lx). length (source lx) - position lx)")
     (auto simp add: advance_def newline_here_def)

definition read_quoted :: "char \<Rightarrow> bool \<Rightarrow> TokenType \<Rightarrow> lexer \<Rightarrow> Token \<times> lexer" where
  "read_quoted q count_lines ty lx =
     (let lx1 = quoted_loop q count_lines False (advance lx);
          lx2 = (if position lx1 < length (source lx1) then advance lx1 else reportError lx1)
      in (Token ty (substr (source lx2) (position lx + 1)
                      (size_sub (position lx2) (position lx + 2)))
            (line lx) (column lx), lx2))"

definition readString :: "lexer \<Rightarrow> Token \<times> lexer" where
  "readString lx = read_quoted CHR 0x22 True STRING lx"

definition readCharacter :: "lexer \<Rightarrow> Token \<times> lexer" where
  "readCharacter lx = read_quoted CHR 0x27 False CHARACTER lx"

function line_loop :: "lexer \<Rightarrow> lexer" where
  "line_loop lx =
     (if position lx < length (source lx) \<and> peek_at lx 0 \<noteq> CHR 0x0A
      then line_loop (advance lx) else lx)"
  by pat_completeness auto
termination
  by (relation "measure (\<lambda>lx. length (source lx) - position lx)") (auto simp add: advance_def)

definition readSingleLineComment :: "lexer \<Rightarrow> Token \<times> lexer" where
  "readSingleLineComment lx =
     (let lx1 = line_loop (advance (advance lx))
      in (Token COMMENT (substr (source lx1) (position lx + 2)
                           (size_sub (position lx1) (position lx + 2)))
            (line lx) (column lx), lx1))"

function comment_loop :: "lexer \<Rightarrow> lexer" where
  "comment_loop lx =
     (if position lx < length (source lx) then
        (if peek_at lx 0 = CHR 0x0A then comment_loop (advance (newline_here lx))
         else if peek_at lx 0 = CHR ''*'' \<and> has_at lx 1 \<and> peek_at lx 1 = CHR ''/''
           then advance (advance lx)
         else comment_loop (advance lx))
      else lx)"
  by pat_completeness auto
termination
  by (relation "measure (\<lambda>lx. length (source lx) - position lx)")
     (auto simp add: advance_def newline_here_def)

definition readMultiLineComment :: "lexer \<Rightarrow> Token \<times> lexer" where
  "readMultiLineComment lx =
     (let lx1 = comment_loop (advance (advance lx));
          lx2 = (if position lx1 \<ge> length (source lx1) then reportError lx1 else lx1)
      in (Token COMMENT (substr (source lx2) (position lx + 2)
                           (size_sub (position lx2) (position lx + 4)))
            (line lx) (column lx), lx2))"

definition readPreprocessor :: "lexer \<Rightarrow> Token \<times> lexer" where
  "readPreprocessor lx =
     (let lx1 = line_loop (advance lx)
      in (Token PREPROCESSOR (substr (source lx1) (position lx) (position lx1 - position lx))
            (line lx) (column lx), lx1))"

definition advance2 :: "lexer \<Rightarrow> lexer" where
  "advance2 lx = advance (advance lx)"

definition advance3 :: "lexer \<Rightarrow> lexer" where
  "advance3 lx = advance (advance (advance lx))"

definition readOperator :: "lexer \<Rightarrow> Token \<times> lexer" where
  "readOperator lx =
     (let l = line lx; c = column lx; current = peek_at lx 0 in
      if current = CHR ''<'' then
        (if has_at lx 2 \<and> peek_at lx 1 = CHR ''<'' \<and> peek_at lx 2 = CHR ''=''
           then (Token OPERATOR ''<<='' l c, advance3 lx)
         else if has_at lx 1 \<and> peek_at lx 1 = CHR ''<''
           then (Token LEFT_SHIFT ''<<'' l c, advance2 lx)
         else if has_at lx 1 \<and> peek_at lx 1 = CHR ''=''
           then (Token LESS_EQUAL ''<='' l c, advance2 lx)
         else (Token LESS ''<'' l c, advance lx))
      else if current = CHR ''>'' then
        (if has_at lx 2 \<and> peek_at lx 1 = CHR ''>'' \<and> peek_at lx 2 = CHR ''=''
           then (Token OPERATOR ''>>='' l c, advance3 lx)
         else if has_at lx 1 \<and> peek_at lx 1 = CHR ''>''
           then (Token RIGHT_SHIFT ''>>'' l c, advance2 lx)
         else if has_at lx 1 \<and> peek_at lx 1 = CHR ''=''
           then (Token GREATER_EQUAL ''>='' l c, advance2 lx)
         else (Token GREATER ''>'' l c, advance lx))
      else if current = CHR ''-'' then
        (if has_at lx 2 \<and> peek_at lx 1 = CHR ''>'' \<and> peek_at lx 2 = CHR ''*''
           then (Token ARROW_STAR ''->*'' l c, advance3 lx)
         else if has_at lx 1 \<and> peek_at lx 1 = CHR ''>''
           then (Token ARROW ''->'' l c, advance2 lx)
         else if has_at lx 1 \<and> peek_at lx 1 = CHR ''-''
           then (Token OPERATOR ''--'' l c, advance2 lx)
         else if has_at lx 1 \<and> peek_at lx 1 = CHR ''=''
           then (Token OPERATOR ''-='' l c, advance2 lx)
         else (Token OPERATOR ''-'' l c, advance lx))
      else if current = CHR '':'' then
        (if has_at lx 1 \<and> peek_at lx 1 = CHR '':''
           then (Token SCOPE_RESOLUTION ''::'' l c, advance2 lx)
         else (Token COLON '':'' l c, advance lx))
      else if current = CHR ''.'' then
        (if has_at lx 2 \<and> peek_at lx 1 = CHR ''.'' \<and> peek_at lx 2 = CHR ''.''
           then (Token ELLIPSIS ''...'' l c, advance3 lx)
         else if has_at lx 1 \<and> peek_at lx 1 = CHR ''*''
           then (Token DOT_STAR ''.*'' l c, advance2 lx)
         else (Token DOT ''.'' l c, advance lx))
      else if has_at lx 1 \<and> substr (source lx) (position lx) 2 \<in> set multi_char_operators
        then (Token OPERATOR (substr (source lx) (position lx) 2) l c, advance2 lx)
      else (Token OPERATOR [current] l c, advance lx))"

definition readPunctuation :: "lexer \<Rightarrow> Token \<times> lexer" where
  "readPunctuation lx =
     (let l = line lx; c = column lx; current = peek_at lx 0 in
      if current = CHR ''('' then (Token LEFT_PAREN [current] l c, advance lx)
      else if current = CHR '')'' then (Token RIGHT_PAREN [current] l c, advance lx)
      else if current = CHR ''{'' then (Token LEFT_BRACE [current] l c, advance lx)
      else if current = CHR ''}'' then (Token RIGHT_BRACE [current] l c, advance lx)
      else if current = CHR ''['' then (Token LEFT_BRACKET [current] l c, advance lx)
      else if current = CHR '']'' then (Token RIGHT_BRACKET [current] l c, advance lx)
      else if current = CHR '','' then (Token COMMA [current] l c, advance lx)
      else if current = CHR '';'' then (Token SEMICOLON [current] l c, advance lx)
      else if current = CHR '':'' then
        (if has_at lx 1 \<and> peek_at lx 1 = CHR '':''
           then (Token SCOPE_RESOLUTION ''::'' l c, advance2 lx)
         else (Token COLON [current] l c, advance lx))
      else if current = CHR ''.'' then (Token DOT [current] l c, advance lx)
      else (Token UNKNOWN [current] l c, advance (reportError lx)))"

definition getNextToken :: "lexer \<Rightarrow> Token \<times> lexer" where
  "getNextToken lx =
     (let current = peek_at lx 0 in
      if current = CHR ''#'' then readPreprocessor lx
      else if isdigit current then readNumber lx
      else if isalpha current \<or> current = CHR ''_'' then
        (case readIdentifier lx of (ident, lx1) \<Rightarrow>
           (if ttype ident = IDENTIFIER
            then (categorizeKeyword (tvalue ident) (tline ident) (tcolumn ident), lx1)
            else (ident, lx1)))
      else if current = CHR 0x22 then readString lx
      else if current = CHR 0x27 then readCharacter lx
      else if current = CHR ''/'' \<and> has_at lx 1 \<and> peek_at lx 1 = CHR ''/''
        then readSingleLineComment lx
      else if current = CHR ''/'' \<and> has_at lx 1 \<and> peek_at lx 1 = CHR ''*''
        then readMultiLineComment lx
      else if current = CHR ''<'' \<or> current = CHR ''>'' then readOperator lx
      else if current \<in> set single_operators then readOperator lx
      else readPunctuation lx)"

text \<open>
  The loop of \<^verbatim>\<open>tokenize\<close>. Every token consumes a character, so the loop ends; the
  model does not rely on it and gives \<open>None\<close> to a loop that would not end.
\<close>

partial_function (option) tokenize_loop :: "lexer \<Rightarrow> lexer option" where
  "tokenize_loop lx =
     (if position lx < length (source lx) then
        (let lx1 = skipWhitespace lx
         in if position lx1 \<ge> length (source lx1) then Some lx1
            else (case getNextToken lx1 of
                    (token, lx2) \<Rightarrow>
                      tokenize_loop (if ttype token \<noteq> UNKNOWN
                                     then lx2\<lparr>tokens := tokens lx2 @ [token]\<rparr> else lx2)))
      else Some lx)"

declare tokenize_loop.simps [code]

declare skipWhitespace.simps [simp del] number_loop.simps [simp del] ident_loop.simps [simp del]
  quoted_loop.simps [simp del] line_loop.simps [simp del] comment_loop.simps [simp del]

definition tokenize :: "lexer \<Rightarrow> (Token list \<times> lexer) option" where
  "tokenize lx =
     (case tokenize_loop (lx\<lparr>tokens := [], lex_error_flag := False, position := 0, line := 1,
                              column := 1\<rparr>) of
        None \<Rightarrow> None
      | Some lx1 \<Rightarrow>
          (let lx2 = lx1\<lparr>tokens := tokens lx1 @ [Token END_OF_FILE [] (line lx1) (column lx1)]\<rparr>
           in Some (tokens lx2, lx2)))"

section \<open>The parser (\<^verbatim>\<open>parser.cpp\<close>)\<close>

text \<open>
  The fields of \<^verbatim>\<open>class Parser\<close>. \<^verbatim>\<open>error\<close> throws: a parse ends with the first error,
  which is a value here. A parser function is a function from the state to an error or
  a result with the next state.
\<close>

record parser =
  ptokens :: "Token list"
  idx :: nat
  currentClassName :: string

datatype perr =
    ParseError string nat nat
  | NullPointer
  | OutOfFuel
  | WrongKind

type_synonym 'a parse = "parser \<Rightarrow> perr + ('a \<times> parser)"

definition succeed :: "'a \<Rightarrow> 'a parse" where
  "succeed x s = Inr (x, s)"

definition pbind :: "'a parse \<Rightarrow> ('a \<Rightarrow> 'b parse) \<Rightarrow> 'b parse" where
  "pbind m f s = (case m s of Inl e \<Rightarrow> Inl e | Inr (x, s') \<Rightarrow> f x s')"

definition tpos :: "Token \<Rightarrow> pos" where
  "tpos t = (tline t, tcolumn t)"

text \<open>
  \<^verbatim>\<open>peek\<close> is \<^verbatim>\<open>tokens[idx]\<close>. The token vector ends with \<^verbatim>\<open>END_OF_FILE\<close> and \<^verbatim>\<open>advance\<close>
  does not pass it; an index outside the vector, which the program never reads, gives
  that token here.
\<close>

definition peek_tok :: "parser \<Rightarrow> Token" where
  "peek_tok s = (if idx s < length (ptokens s) then ptokens s ! idx s
                 else Token END_OF_FILE [] 0 0)"

definition isAtEnd :: "parser \<Rightarrow> bool" where
  "isAtEnd s = (ttype (peek_tok s) = END_OF_FILE)"

definition check :: "TokenType \<Rightarrow> parser \<Rightarrow> bool" where
  "check t s = (if isAtEnd s then False else ttype (peek_tok s) = t)"

definition check_value :: "TokenType \<Rightarrow> string list \<Rightarrow> parser \<Rightarrow> bool" where
  "check_value t vs s = (check t s \<and> tvalue (peek_tok s) \<in> set vs)"

function skip_comments :: "parser \<Rightarrow> parser" where
  "skip_comments s =
     (if \<not> isAtEnd s \<and> ttype (peek_tok s) = COMMENT then skip_comments (s\<lparr>idx := idx s + 1\<rparr>)
      else s)"
  by pat_completeness auto
termination
  by (relation "measure (\<lambda>s. length (ptokens s) - idx s)")
     (auto simp add: isAtEnd_def peek_tok_def split: if_splits)

declare skip_comments.simps [simp del]

definition advance_tok :: "parser \<Rightarrow> parser" where
  "advance_tok s = skip_comments (if \<not> isAtEnd s then s\<lparr>idx := idx s + 1\<rparr> else s)"

definition fail_at :: "Token \<Rightarrow> string \<Rightarrow> 'a parse" where
  "fail_at tok msg s = Inl (ParseError msg (tline tok) (tcolumn tok))"

definition consume :: "TokenType \<Rightarrow> string \<Rightarrow> unit parse" where
  "consume t msg s = (if check t s then Inr ((), advance_tok s) else fail_at (peek_tok s) msg s)"

text \<open>\<^verbatim>\<open>Token tk = peek(); advance();\<close>\<close>

definition take_tok :: "Token parse" where
  "take_tok s = Inr (peek_tok s, advance_tok s)"

text \<open>The constructor skips leading comments.\<close>

function skip_leading :: "parser \<Rightarrow> parser" where
  "skip_leading s =
     (if idx s < length (ptokens s) \<and> ttype (ptokens s ! idx s) = COMMENT
      then skip_leading (s\<lparr>idx := idx s + 1\<rparr>) else s)"
  by pat_completeness auto
termination
  by (relation "measure (\<lambda>s. length (ptokens s) - idx s)") auto

declare skip_leading.simps [simp del]

definition new_parser :: "Token list \<Rightarrow> parser" where
  "new_parser toks = skip_leading \<lparr>ptokens = toks, idx = 0, currentClassName = []\<rparr>"

lemma skip_comments_idx:
  "idx s \<le> idx (skip_comments s) \<and> ptokens (skip_comments s) = ptokens s"
proof (induction s rule: skip_comments.induct)
  case (1 s)
  show ?case
  proof (cases "\<not> isAtEnd s \<and> ttype (peek_tok s) = COMMENT")
    case True
    then have e: "skip_comments s = skip_comments (s\<lparr>idx := idx s + 1\<rparr>)"
      by (subst skip_comments.simps) auto
    from 1 [OF True] show ?thesis unfolding e by simp
  next
    case False
    then have "skip_comments s = s"
      by (subst skip_comments.simps) auto
    then show ?thesis by simp
  qed
qed

lemma advance_tok_idx:
  "idx s \<le> idx (advance_tok s)" "ptokens (advance_tok s) = ptokens s"
  "\<not> isAtEnd s \<Longrightarrow> idx s < idx (advance_tok s)"
  "\<not> isAtEnd s \<Longrightarrow> idx s < length (ptokens s)"
proof -
  let ?s = "if \<not> isAtEnd s then s\<lparr>idx := idx s + 1\<rparr> else s"
  have a: "idx ?s \<le> idx (skip_comments ?s)" "ptokens (skip_comments ?s) = ptokens ?s"
    using skip_comments_idx [of ?s] by blast+
  show "idx s \<le> idx (advance_tok s)"
    using a(1) by (auto simp add: advance_tok_def split: if_splits)
  show "ptokens (advance_tok s) = ptokens s"
    using a(2) by (auto simp add: advance_tok_def split: if_splits)
  show "\<not> isAtEnd s \<Longrightarrow> idx s < idx (advance_tok s)"
    using a(1) by (auto simp add: advance_tok_def split: if_splits)
  show "\<not> isAtEnd s \<Longrightarrow> idx s < length (ptokens s)"
    by (auto simp add: isAtEnd_def peek_tok_def split: if_splits)
qed

text \<open>
  \<^verbatim>\<open>while (!isAtEnd() && cond) { acc = upd; advance(); }\<close>: the loops that take one
  token in each round. A \<^verbatim>\<open>check\<close> in the condition includes \<^verbatim>\<open>!isAtEnd()\<close>.
\<close>

function token_loop ::
  "('a \<Rightarrow> parser \<Rightarrow> bool) \<Rightarrow> ('a \<Rightarrow> parser \<Rightarrow> 'a) \<Rightarrow> 'a \<Rightarrow> parser \<Rightarrow> 'a \<times> parser" where
  "token_loop cond upd acc s =
     (if \<not> isAtEnd s \<and> cond acc s then token_loop cond upd (upd acc s) (advance_tok s)
      else (acc, s))"
  by pat_completeness auto
termination
  by (relation "measure (\<lambda>(c, u, a, s). length (ptokens s) - idx s)")
     (auto simp add: advance_tok_idx intro: diff_less_mono2)

declare token_loop.simps [simp del]

lemma token_loop_idx:
  "idx s \<le> idx (snd (token_loop cond upd acc s))
   \<and> ptokens (snd (token_loop cond upd acc s)) = ptokens s"
proof (induction cond upd acc s rule: token_loop.induct)
  case (1 cond upd acc s)
  show ?case
  proof (cases "\<not> isAtEnd s \<and> cond acc s")
    case True
    then have e: "token_loop cond upd acc s = token_loop cond upd (upd acc s) (advance_tok s)"
      by (subst token_loop.simps) auto
    from 1 [OF True] advance_tok_idx(1,2) [of s] show ?thesis unfolding e by simp
  next
    case False
    then have "token_loop cond upd acc s = (acc, s)"
      by (subst token_loop.simps) auto
    then show ?thesis by simp
  qed
qed

lemma check_not_end: "check t s \<Longrightarrow> \<not> isAtEnd s"
  by (simp add: check_def split: if_splits)

lemma not_end_advance:
  "\<not> isAtEnd s \<Longrightarrow> idx s < idx (advance_tok s) \<and> idx s < length (ptokens s)"
  by (simp add: advance_tok_idx)

lemma token_loop_result:
  "token_loop cond upd acc s = (acc1, s1) \<Longrightarrow> idx s \<le> idx s1 \<and> ptokens s1 = ptokens s"
  using token_loop_idx [of s cond upd acc] by simp

text \<open>The tokens of one type, collected: \<^verbatim>\<open>while (check(t)) { push_back(value); advance(); }\<close>\<close>

definition collect_values :: "TokenType \<Rightarrow> string list \<Rightarrow> parser \<Rightarrow> string list \<times> parser" where
  "collect_values t acc s =
     token_loop (\<lambda>a s'. check t s') (\<lambda>a s'. a @ [tvalue (peek_tok s')]) acc s"

text \<open>The text of nested template arguments after the opening \<^verbatim>\<open><\<close>, with the depth.\<close>

definition template_text :: "parser \<Rightarrow> string \<times> parser" where
  "template_text s =
     (case token_loop (\<lambda>(templ, depth) s'. 0 < depth)
             (\<lambda>(templ, depth) s'.
                if check LESS s' then (templ @ ''<'', depth + 1)
                else if check GREATER s' then (templ @ ''>'', depth - 1)
                else (templ @ tvalue (peek_tok s'), depth))
             (''<'', 1 :: nat) s
      of ((templ, depth), s1) \<Rightarrow> (templ, s1))"

lemma template_text_result:
  "template_text s = (templ, s1) \<Longrightarrow> idx s \<le> idx s1 \<and> ptokens s1 = ptokens s"
  by (auto simp add: template_text_def split: prod.splits dest: token_loop_result)

lemma collect_values_snd:
  "ptokens (snd (collect_values t acc s)) = ptokens s"
  "idx s \<le> idx (snd (collect_values t acc s))"
  by (simp_all add: collect_values_def token_loop_idx)

lemma collect_values_result:
  "collect_values t acc s = (acc1, s1) \<Longrightarrow> idx s \<le> idx s1 \<and> ptokens s1 = ptokens s"
  unfolding collect_values_def by (rule token_loop_result)

text \<open>The loop of \<^verbatim>\<open>parseType\<close> over \<^verbatim>\<open>::\<close> qualifiers and template arguments.\<close>

function type_name_loop :: "string \<Rightarrow> parser \<Rightarrow> string \<times> parser" where
  "type_name_loop fullname s =
     (if check SCOPE_RESOLUTION s then
        (let s1 = advance_tok s
         in if check IDENTIFIER s1
            then type_name_loop (fullname @ ''::'' @ tvalue (peek_tok s1)) (advance_tok s1)
            else (fullname, s1))
      else if check LESS s then
        (case template_text (advance_tok s) of
           (templ, s1) \<Rightarrow> type_name_loop (fullname @ templ) s1)
      else (fullname, s))"
  by pat_completeness auto
termination
proof (relation "measure (\<lambda>(f, s). length (ptokens s) - idx s)", goal_cases)
  case 1
  show ?case by simp
next
  case 2
  then show ?case
    by (auto dest!: check_not_end not_end_advance simp add: advance_tok_idx(2))
next
  case 3
  then show ?case
    by (auto dest!: check_not_end not_end_advance template_text_result [OF sym]
        simp add: advance_tok_idx(2))
qed

declare type_name_loop.simps [simp del]

text \<open>The loop of \<^verbatim>\<open>parseType\<close> over pointer and reference markers.\<close>

function pointer_loop :: "string list \<Rightarrow> parser \<Rightarrow> string list \<times> parser" where
  "pointer_loop typeTokens s =
     (if check_value OPERATOR [''*'', ''&''] s then
        (case collect_values TYPE_QUALIFIER (typeTokens @ [tvalue (peek_tok s)]) (advance_tok s) of
           (typeTokens1, s1) \<Rightarrow> pointer_loop typeTokens1 s1)
      else (typeTokens, s))"
  by pat_completeness auto
termination
proof (relation "measure (\<lambda>(t, s). length (ptokens s) - idx s)", goal_cases)
  case 1
  show ?case by simp
next
  case 2
  then show ?case
    by (auto dest!: check_not_end not_end_advance
        simp add: advance_tok_idx(2) check_value_def split_beta collect_values_snd(1))
       (meson collect_values_snd(2) diff_less_mono2 less_le_trans)+
qed

declare pointer_loop.simps [simp del]

text \<open>\<^verbatim>\<open>parseType\<close>.\<close>

definition parseType :: "parser \<Rightarrow> string list \<times> parser" where
  "parseType s =
     (case collect_values STORAGE_CLASS [] s of (tt1, s1) \<Rightarrow>
      case collect_values TYPE_QUALIFIER tt1 s1 of (tt2, s2) \<Rightarrow>
      case (if check TYPE_SPECIFIER s2 then (tt2 @ [tvalue (peek_tok s2)], advance_tok s2)
            else if check IDENTIFIER s2 \<or> check_value KEYWORD [''typename'', ''class''] s2 then
              (let fullname = tvalue (peek_tok s2);
                   s3 = advance_tok s2;
                   (fullname1, s4) =
                      (if (fullname = ''typename'' \<or> fullname = ''class'') \<and> check IDENTIFIER s3
                       then (fullname @ '' '' @ tvalue (peek_tok s3), advance_tok s3)
                       else (fullname, s3))
               in case type_name_loop fullname1 s4 of
                    (fullname2, s5) \<Rightarrow> (tt2 @ [fullname2], s5))
            else (tt2, s2))
      of (tt3, s6) \<Rightarrow> pointer_loop tt3 s6)"

subsection \<open>Lookahead over a type\<close>

text \<open>
  \<^verbatim>\<open>parseTypeForLookahead\<close> reads the token vector from a position of its own and
  returns the type tokens with the position after them.
\<close>

definition type_at :: "Token list \<Rightarrow> nat \<Rightarrow> TokenType \<Rightarrow> bool" where
  "type_at toks p t = (p < length toks \<and> ttype (toks ! p) = t)"

function la_collect :: "Token list \<Rightarrow> TokenType \<Rightarrow> string list \<Rightarrow> nat \<Rightarrow> string list \<times> nat" where
  "la_collect toks t acc p =
     (if type_at toks p t then la_collect toks t (acc @ [tvalue (toks ! p)]) (p + 1)
      else (acc, p))"
  by pat_completeness auto
termination
  by (relation "measure (\<lambda>(toks, t, acc, p). length toks - p)") (auto simp add: type_at_def)

declare la_collect.simps [simp del]

function la_qualified :: "Token list \<Rightarrow> string \<Rightarrow> nat \<Rightarrow> string \<times> nat" where
  "la_qualified toks fullname p =
     (if type_at toks p SCOPE_RESOLUTION then
        (if type_at toks (p + 1) IDENTIFIER
         then la_qualified toks (fullname @ ''::'' @ tvalue (toks ! (p + 1))) (p + 2)
         else (fullname, p + 1))
      else (fullname, p))"
  by pat_completeness auto
termination
  by (relation "measure (\<lambda>(toks, f, p). length toks - p)") (auto simp add: type_at_def)

declare la_qualified.simps [simp del]

function la_template :: "Token list \<Rightarrow> string \<Rightarrow> nat \<Rightarrow> nat \<Rightarrow> string \<times> nat" where
  "la_template toks templ depth p =
     (if p < length toks \<and> 0 < depth then
        (if ttype (toks ! p) = LESS then la_template toks (templ @ ''<'') (depth + 1) (p + 1)
         else if ttype (toks ! p) = GREATER then la_template toks (templ @ ''>'') (depth - 1) (p + 1)
         else la_template toks (templ @ tvalue (toks ! p)) depth (p + 1))
      else (templ, p))"
  by pat_completeness auto
termination
  by (relation "measure (\<lambda>(toks, t, d, p). length toks - p)") auto

declare la_template.simps [simp del]

lemma la_qualified_pos: "p \<le> snd (la_qualified toks fullname p)"
proof (induction toks fullname p rule: la_qualified.induct)
  case (1 toks fullname p)
  consider "type_at toks p SCOPE_RESOLUTION" "type_at toks (p + 1) IDENTIFIER"
    | "type_at toks p SCOPE_RESOLUTION" "\<not> type_at toks (p + 1) IDENTIFIER"
    | "\<not> type_at toks p SCOPE_RESOLUTION"
    by blast
  then show ?case
  proof cases
    case 1
    then have e: "la_qualified toks fullname p
        = la_qualified toks (fullname @ ''::'' @ tvalue (toks ! (p + 1))) (p + 2)"
      by (subst la_qualified.simps) auto
    from "1.IH" [OF 1] show ?thesis unfolding e by simp
  next
    case 2
    then have "la_qualified toks fullname p = (fullname, p + 1)"
      by (subst la_qualified.simps) auto
    then show ?thesis by simp
  next
    case 3
    then have "la_qualified toks fullname p = (fullname, p)"
      by (subst la_qualified.simps) auto
    then show ?thesis by simp
  qed
qed

lemma la_template_pos: "p \<le> snd (la_template toks templ depth p)"
proof (induction toks templ depth p rule: la_template.induct)
  case (1 toks templ depth p)
  show ?case
  proof (cases "p < length toks \<and> 0 < depth")
    case False
    then have "la_template toks templ depth p = (templ, p)"
      by (subst la_template.simps) auto
    then show ?thesis by simp
  next
    case True
    consider "ttype (toks ! p) = LESS"
      | "ttype (toks ! p) \<noteq> LESS" "ttype (toks ! p) = GREATER"
      | "ttype (toks ! p) \<noteq> LESS" "ttype (toks ! p) \<noteq> GREATER"
      by blast
    then show ?thesis
    proof cases
      case 1
      with True have e: "la_template toks templ depth p
          = la_template toks (templ @ ''<'') (depth + 1) (p + 1)"
        by (subst la_template.simps) auto
      from "1.IH"(1) [OF True 1] show ?thesis unfolding e by simp
    next
      case 2
      with True have e: "la_template toks templ depth p
          = la_template toks (templ @ ''>'') (depth - 1) (p + 1)"
        by (subst la_template.simps) auto
      from "1.IH"(2) [OF True 2] show ?thesis unfolding e by simp
    next
      case 3
      with True have e: "la_template toks templ depth p
          = la_template toks (templ @ tvalue (toks ! p)) depth (p + 1)"
        by (subst la_template.simps) auto
      from "1.IH"(3) [OF True 3] show ?thesis unfolding e by simp
    qed
  qed
qed

definition is_base_type_token :: "Token \<Rightarrow> bool" where
  "is_base_type_token t =
     (ttype t = TYPE_SPECIFIER \<or> ttype t = IDENTIFIER
      \<or> (ttype t = KEYWORD \<and> (tvalue t = ''typename'' \<or> tvalue t = ''class'')))"

text \<open>One round of the base type loop: a name, its qualifiers and template arguments.\<close>

definition la_base_name :: "Token list \<Rightarrow> nat \<Rightarrow> string \<times> nat" where
  "la_base_name toks p =
     (case la_qualified toks (tvalue (toks ! p)) (p + 1) of
        (fullname, p1) \<Rightarrow>
          if type_at toks p1 LESS
          then (case la_template toks ''<'' 1 (p1 + 1) of
                  (templ, p2) \<Rightarrow> (fullname @ templ, p2))
          else (fullname, p1))"

lemma la_base_name_pos: "p < snd (la_base_name toks p)"
  using la_qualified_pos [of "p + 1" toks "tvalue (toks ! p)"]
    la_template_pos [of "snd (la_qualified toks (tvalue (toks ! p)) (p + 1)) + 1" toks "''<''" 1]
  by (simp add: la_base_name_def split_beta)

lemma la_base_name_result: "(fullname, p1) = la_base_name toks p \<Longrightarrow> p < p1"
  using la_base_name_pos [of p toks] by (cases "la_base_name toks p") simp

function la_base :: "Token list \<Rightarrow> string list \<Rightarrow> nat \<Rightarrow> string list \<times> nat" where
  "la_base toks acc p =
     (if p < length toks \<and> is_base_type_token (toks ! p) then
        (case la_base_name toks p of
           (fullname, p1) \<Rightarrow>
             if type_at toks p1 TYPE_SPECIFIER
                \<and> tvalue (toks ! p1) \<in> set [''long'', ''short'', ''signed'', ''unsigned'']
             then la_base toks (acc @ [fullname]) p1
             else (acc @ [fullname], p1))
      else (acc, p))"
  by pat_completeness auto
termination
  by (relation "measure (\<lambda>(toks, acc, p). length toks - p)")
     (auto dest!: la_base_name_result intro: diff_less_mono2)

declare la_base.simps [simp del]

function la_pointers :: "Token list \<Rightarrow> string list \<Rightarrow> nat \<Rightarrow> string list \<times> nat" where
  "la_pointers toks acc p =
     (if type_at toks p OPERATOR \<and> (tvalue (toks ! p) = ''*'' \<or> tvalue (toks ! p) = ''&'')
      then la_pointers toks (acc @ [tvalue (toks ! p)]) (p + 1)
      else (acc, p))"
  by pat_completeness auto
termination
  by (relation "measure (\<lambda>(toks, acc, p). length toks - p)") (auto simp add: type_at_def)

declare la_pointers.simps [simp del]

definition parseTypeForLookahead :: "Token list \<Rightarrow> nat \<Rightarrow> string list \<times> nat" where
  "parseTypeForLookahead toks p =
     (case la_collect toks STORAGE_CLASS [] p of (tt1, p1) \<Rightarrow>
      case la_collect toks TYPE_QUALIFIER tt1 p1 of (tt2, p2) \<Rightarrow>
      case la_base toks tt2 p2 of (tt3, p3) \<Rightarrow>
        la_pointers toks tt3 p3)"

text \<open>The test after a lookahead: an identifier and an opening parenthesis.\<close>

definition function_ahead :: "Token list \<Rightarrow> nat \<Rightarrow> bool" where
  "function_ahead toks la = (type_at toks la IDENTIFIER \<and> type_at toks (la + 1) LEFT_PAREN)"

subsection \<open>Directives and parameters\<close>

definition parseAccessSpecifier :: "ast option parse" where
  "parseAccessSpecifier s =
     (let accessTok = peek_tok s
      in pbind (consume COLON ''Expected ':' after access specifier'')
           (\<lambda>_. succeed (Some (AccessSpec (tvalue accessTok) (tpos accessTok)))) (advance_tok s))"

text \<open>\<^verbatim>\<open>std::string::find\<close> of a string and of a character from a position.\<close>

fun find_sub :: "string \<Rightarrow> string \<Rightarrow> nat option" where
  "find_sub pat [] = (if pat = [] then Some 0 else None)"
| "find_sub pat (c # cs) =
     (if take (length pat) (c # cs) = pat then Some 0 else map_option Suc (find_sub pat cs))"

definition find_char :: "char \<Rightarrow> nat \<Rightarrow> string \<Rightarrow> nat option" where
  "find_char c from xs =
     (if c \<in> set (drop from xs)
      then Some (from + length (takeWhile (\<lambda>x. x \<noteq> c) (drop from xs))) else None)"

definition include_file :: "string \<Rightarrow> string \<times> bool" where
  "include_file directive =
     (case find_sub ''include'' directive of
        None \<Rightarrow> ([], False)
      | Some includePos \<Rightarrow>
          (let rest = dropWhile (\<lambda>c. c = CHR '' '' \<or> c = CHR 0x09) (drop (includePos + 7) directive)
           in if rest = [] then ([], False)
              else if hd rest = CHR ''<'' then
                (case find_char CHR ''>'' 0 rest of
                   Some e \<Rightarrow> (take (e - 1) (drop 1 rest), True)
                 | None \<Rightarrow> ([], True))
              else if hd rest = CHR 0x22 then
                (case find_char CHR 0x22 1 rest of
                   Some e \<Rightarrow> (take (e - 1) (drop 1 rest), False)
                 | None \<Rightarrow> ([], False))
              else ([], False)))"

definition parseIncludeDirective :: "ast option parse" where
  "parseIncludeDirective s =
     (let includeTok = peek_tok s
      in case include_file (tvalue includeTok) of
           (file, isSystem) \<Rightarrow>
             succeed (Some (IncludeDirective file isSystem (tpos includeTok))) (advance_tok s))"

definition parseUsingDirective :: "ast option parse" where
  "parseUsingDirective s =
     (let usingTok = peek_tok s; s1 = advance_tok s
      in if check_value KEYWORD [''namespace''] s1 then
           (let s2 = advance_tok s1
            in if \<not> check IDENTIFIER s2 then fail_at (peek_tok s2) ''Expected namespace name'' s2
               else pbind (consume SEMICOLON ''Expected ';' after using directive'')
                      (\<lambda>_. succeed (Some (UsingDirective (tvalue (peek_tok s2)) (tpos usingTok))))
                      (advance_tok s2))
         else
           pbind (consume SEMICOLON ''Expected ';' after using declaration'') (\<lambda>_. succeed None)
             (snd (token_loop (\<lambda>a s'. \<not> check SEMICOLON s') (\<lambda>a s'. a) () s1)))"

text \<open>The loop of \<^verbatim>\<open>parseTemplateParams\<close>: one parameter, then the comma.\<close>

definition template_param :: "string list \<Rightarrow> parser \<Rightarrow> string list \<times> parser" where
  "template_param params s =
     (if check_value KEYWORD [''typename'', ''class''] s then
        (let s1 = advance_tok s
         in if check IDENTIFIER s1 then
              (let params1 = params @ [tvalue (peek_tok s1)];
                   s2 = advance_tok s1
               in if check_value OPERATOR [''=''] s2 then
                    (let s3 = advance_tok s2
                     in if check IDENTIFIER s3 \<or> check TYPE_SPECIFIER s3
                        then (params1, advance_tok s3) else (params1, s3))
                  else (params1, s2))
            else (params, s1))
      else (params, s))"

lemma advance_tok_le:
  "idx s \<le> idx t \<Longrightarrow> idx s \<le> idx (advance_tok t)"
  using advance_tok_idx(1) [of t] by simp

lemma template_param_idx:
  "ptokens (snd (template_param params s)) = ptokens s"
  "idx s \<le> idx (snd (template_param params s))"
  by (simp_all add: template_param_def Let_def advance_tok_idx(2) advance_tok_le)

lemma template_param_result:
  "(params1, s1) = template_param params s \<Longrightarrow> ptokens s1 = ptokens s \<and> idx s \<le> idx s1"
  using template_param_idx [where params = params and s = s] by (cases "template_param params s") simp

function template_params_loop :: "string list \<Rightarrow> parser \<Rightarrow> string list \<times> parser" where
  "template_params_loop params s =
     (if \<not> check GREATER s \<and> \<not> isAtEnd s then
        (case template_param params s of
           (params1, s1) \<Rightarrow>
             if check COMMA s1 then template_params_loop params1 (advance_tok s1)
             else (params1, s1))
      else (params, s))"
  by pat_completeness auto
termination
  by (relation "measure (\<lambda>(p, s). length (ptokens s) - idx s)")
     (auto dest!: check_not_end not_end_advance template_param_result
        simp add: advance_tok_idx(2))

declare template_params_loop.simps [simp del]

definition parseTemplateParams :: "parser \<Rightarrow> string list \<times> parser" where
  "parseTemplateParams s = template_params_loop [] s"

text \<open>The loop of \<^verbatim>\<open>parseClass\<close> over the base classes: one base, then the comma.\<close>

definition base_class :: "string list \<Rightarrow> parser \<Rightarrow> string list \<times> parser" where
  "base_class bases s =
     (let s1 = (if check ACCESS_SPECIFIER s \<or> check KEYWORD s then advance_tok s else s)
      in if check IDENTIFIER s1 then (bases @ [tvalue (peek_tok s1)], advance_tok s1)
         else (bases, s1))"

lemma base_class_idx:
  "ptokens (snd (base_class bases s)) = ptokens s"
  "idx s \<le> idx (snd (base_class bases s))"
  by (simp_all add: base_class_def Let_def advance_tok_idx(2) advance_tok_le)

lemma base_class_result:
  "(bases1, s1) = base_class bases s \<Longrightarrow> ptokens s1 = ptokens s \<and> idx s \<le> idx s1"
  using base_class_idx [where bases = bases and s = s] by (cases "base_class bases s") simp

function base_classes_loop :: "string list \<Rightarrow> parser \<Rightarrow> string list \<times> parser" where
  "base_classes_loop bases s =
     (if \<not> check LEFT_BRACE s \<and> \<not> isAtEnd s then
        (case base_class bases s of
           (bases1, s1) \<Rightarrow>
             if check COMMA s1 then base_classes_loop bases1 (advance_tok s1)
             else (bases1, s1))
      else (bases, s))"
  by pat_completeness auto
termination
  by (relation "measure (\<lambda>(b, s). length (ptokens s) - idx s)")
     (auto dest!: check_not_end not_end_advance base_class_result
        simp add: advance_tok_idx(2))

declare base_classes_loop.simps [simp del]

text \<open>The loop of \<^verbatim>\<open>parseNamespace\<close> over a qualified name.\<close>

function namespace_name_loop :: "string \<Rightarrow> parser \<Rightarrow> string \<times> parser" where
  "namespace_name_loop name s =
     (if check SCOPE_RESOLUTION s then
        (let s1 = advance_tok s
         in if check IDENTIFIER s1
            then namespace_name_loop (name @ ''::'' @ tvalue (peek_tok s1)) (advance_tok s1)
            else (name, s1))
      else (name, s))"
  by pat_completeness auto
termination
  by (relation "measure (\<lambda>(n, s). length (ptokens s) - idx s)")
     (auto dest!: check_not_end not_end_advance simp add: advance_tok_idx(2))

declare namespace_name_loop.simps [simp del]

text \<open>The scan of \<^verbatim>\<open>parseTemplate\<close> for a function name before a brace or a semicolon.\<close>

function scan_function :: "Token list \<Rightarrow> nat \<Rightarrow> bool" where
  "scan_function toks k =
     (if k + 1 < length toks then
        (if ttype (toks ! k) = IDENTIFIER \<and> ttype (toks ! (k + 1)) = LEFT_PAREN then True
         else if ttype (toks ! k) = LEFT_BRACE \<or> ttype (toks ! k) = SEMICOLON then False
         else scan_function toks (k + 1))
      else False)"
  by pat_completeness auto
termination
  by (relation "measure (\<lambda>(toks, k). length toks - k)") auto

declare scan_function.simps [simp del]

text \<open>The text of a brace initializer up to the closing brace.\<close>

definition initializer_text :: "parser \<Rightarrow> string \<times> parser" where
  "initializer_text s =
     token_loop (\<lambda>a s'. \<not> check RIGHT_BRACE s') (\<lambda>a s'. a @ tvalue (peek_tok s')) [] s"

text \<open>The braces of a lambda body, skipped with their depth.\<close>

definition skip_braces :: "parser \<Rightarrow> parser" where
  "skip_braces s =
     snd (token_loop (\<lambda>depth s'. 0 < depth)
            (\<lambda>depth s'. if check LEFT_BRACE s' then depth + 1
                        else if check RIGHT_BRACE s' then depth - 1 else depth)
            (1 :: nat) s)"

subsection \<open>Declarations, statements and expressions\<close>

text \<open>
  The recursive functions of the parser call one another; each is a definition over the
  function \<open>rec\<close> that stands for those calls, and \<open>parse\<close> below closes the recursion. A
  loop that calls a parser function in its body is one of them, with what it has
  collected as its argument. A call gives a node (null for a statement that leaves
  none), or a list of nodes or of parameters.
\<close>

datatype nonterm =
    DeclarationOrStatement | Class | Struct | Namespace | Template | FunctionDeclaration
  | ClassMember | VarDeclaration | Statement | Block | ExpressionStatement | For | If | While
  | Return | Throw | Expression | Assignment | Conditional | LogicalOr | LogicalAnd | Equality
  | Comparison | Shift | Additive | Multiplicative | Unary | CallAndPrimary
  | ProgramLoop "ast list"
  | StatementsLoop "ast list"
  | MembersLoop "ast list"
  | ParamsLoop "(string list \<times> string) list"
  | DeclaratorsLoop "string list" pos "ast list"
  | ConstructorArgsLoop "ast list"
  | CallArgsLoop "ast list"
  | LogicalOrLoop ast | LogicalAndLoop ast | EqualityLoop ast | ComparisonLoop ast
  | ShiftLoop ast | AdditiveLoop ast | MultiplicativeLoop ast
  | PostfixLoop ast

datatype pval =
    VNode "ast option"
  | VList "ast list"
  | VParams "(string list \<times> string) list"

type_synonym precur = "nonterm \<Rightarrow> pval parse"

definition node_of :: "precur \<Rightarrow> nonterm \<Rightarrow> ast option parse" where
  "node_of rec nt = pbind (rec nt) (\<lambda>v. case v of VNode n \<Rightarrow> succeed n | _ \<Rightarrow> (\<lambda>s. Inl WrongKind))"

definition expr_of :: "precur \<Rightarrow> nonterm \<Rightarrow> ast parse" where
  "expr_of rec nt =
     pbind (rec nt) (\<lambda>v. case v of VNode (Some e) \<Rightarrow> succeed e | _ \<Rightarrow> (\<lambda>s. Inl WrongKind))"

definition nodes_of :: "precur \<Rightarrow> nonterm \<Rightarrow> ast list parse" where
  "nodes_of rec nt = pbind (rec nt) (\<lambda>v. case v of VList ns \<Rightarrow> succeed ns | _ \<Rightarrow> (\<lambda>s. Inl WrongKind))"

definition params_of :: "precur \<Rightarrow> nonterm \<Rightarrow> (string list \<times> string) list parse" where
  "params_of rec nt =
     pbind (rec nt) (\<lambda>v. case v of VParams ps \<Rightarrow> succeed ps | _ \<Rightarrow> (\<lambda>s. Inl WrongKind))"

definition some_node :: "ast \<Rightarrow> pval parse" where
  "some_node n = succeed (VNode (Some n))"

definition push_node :: "ast list \<Rightarrow> ast option \<Rightarrow> ast list" where
  "push_node acc n = (case n of None \<Rightarrow> acc | Some x \<Rightarrow> acc @ [x])"

text \<open>\<^verbatim>\<open>parseProgram\<close>: its loop.\<close>

definition program_loop :: "precur \<Rightarrow> ast list \<Rightarrow> pval parse" where
  "program_loop rec p s =
     (if \<not> isAtEnd s then
        (if check END_OF_FILE s then succeed (VList p) s
         else if check COMMENT s then rec (ProgramLoop p) (advance_tok s)
         else pbind (node_of rec DeclarationOrStatement)
                (\<lambda>n. rec (ProgramLoop (push_node p n))) s)
      else succeed (VList p) s)"

definition statement_keywords :: "string list" where
  "statement_keywords =
     [''return'', ''if'', ''while'', ''for'', ''break'', ''continue'', ''throw'', ''delete'', ''new'']"

definition parseDeclarationOrStatement :: "precur \<Rightarrow> pval parse" where
  "parseDeclarationOrStatement rec s0 =
     (let s = snd (token_loop (\<lambda>a s'. check COMMENT s') (\<lambda>a s'. a) () s0);
          t = peek_tok s
      in if ttype t = PREPROCESSOR then pbind parseIncludeDirective (\<lambda>n. succeed (VNode n)) s
         else if ttype t = ACCESS_SPECIFIER then pbind parseAccessSpecifier (\<lambda>n. succeed (VNode n)) s
         else if ttype t = KEYWORD \<and> tvalue t \<in> set statement_keywords then rec Statement s
         else if ttype t = KEYWORD \<or> ttype t = TYPE_SPECIFIER \<or> ttype t = STORAGE_CLASS
                 \<or> ttype t = TYPE_QUALIFIER then
           (if tvalue t = ''class'' then rec Class s
            else if tvalue t = ''struct'' then rec Struct s
            else if tvalue t = ''namespace'' then rec Namespace s
            else if tvalue t = ''template'' then rec Template s
            else if tvalue t = ''using'' then pbind parseUsingDirective (\<lambda>n. succeed (VNode n)) s
            else if function_ahead (ptokens s) (snd (parseTypeForLookahead (ptokens s) (idx s)))
              then rec FunctionDeclaration s
            else rec VarDeclaration s)
         else if ttype t = IDENTIFIER
                 \<and> (case parseTypeForLookahead (ptokens s) (idx s) of
                       (tt, la) \<Rightarrow> tt \<noteq> [] \<and> type_at (ptokens s) la IDENTIFIER)
           then rec VarDeclaration s
         else rec Statement s)"

text \<open>The member loop of \<^verbatim>\<open>parseClass\<close> and \<^verbatim>\<open>parseStruct\<close>.\<close>

definition members_loop :: "precur \<Rightarrow> ast list \<Rightarrow> pval parse" where
  "members_loop rec members s =
     (if \<not> check RIGHT_BRACE s \<and> \<not> isAtEnd s
      then pbind (node_of rec ClassMember) (\<lambda>m. rec (MembersLoop (push_node members m))) s
      else succeed (VList members) s)"

definition parseClass :: "precur \<Rightarrow> pval parse" where
  "parseClass rec s =
     (let classTok = peek_tok s; s1 = advance_tok s
      in if \<not> check IDENTIFIER s1 then fail_at (peek_tok s1) ''Expected class name'' s1
         else
           (let nameTok = peek_tok s1;
                oldClassName = currentClassName s1;
                s2 = (advance_tok s1)\<lparr>currentClassName := tvalue nameTok\<rparr>;
                (bases, s3) = (if check COLON s2 then base_classes_loop [] (advance_tok s2)
                               else ([], s2))
            in pbind (consume LEFT_BRACE ''Expected '{' after class name'') (\<lambda>_.
               pbind (nodes_of rec (MembersLoop [])) (\<lambda>members.
               pbind (consume RIGHT_BRACE ''Expected '}' after class body'') (\<lambda>_.
               pbind (consume SEMICOLON ''Expected ';' after class declaration'') (\<lambda>_ s4.
                 some_node (ClassDecl (tvalue nameTok) members bases (tpos classTok))
                   (s4\<lparr>currentClassName := oldClassName\<rparr>))))) s3))"

definition parseStruct :: "precur \<Rightarrow> pval parse" where
  "parseStruct rec s =
     (let structTok = peek_tok s; s1 = advance_tok s
      in if \<not> check IDENTIFIER s1 then fail_at (peek_tok s1) ''Expected struct name'' s1
         else
           (let nameTok = peek_tok s1
            in pbind (consume LEFT_BRACE ''Expected '{' after struct name'') (\<lambda>_.
               pbind (nodes_of rec (MembersLoop [])) (\<lambda>members.
               pbind (consume RIGHT_BRACE ''Expected '}' after struct body'') (\<lambda>_.
               pbind (consume SEMICOLON ''Expected ';' after struct declaration'') (\<lambda>_.
                 some_node (StructDecl (tvalue nameTok) members (tpos structTok))))))
                 (advance_tok s1)))"

text \<open>The statement loop of \<^verbatim>\<open>parseBlock\<close> and \<^verbatim>\<open>parseNamespace\<close>.\<close>

definition statements_loop :: "precur \<Rightarrow> ast list \<Rightarrow> pval parse" where
  "statements_loop rec stmts s =
     (if \<not> check RIGHT_BRACE s \<and> \<not> isAtEnd s
      then pbind (node_of rec DeclarationOrStatement)
             (\<lambda>n. rec (StatementsLoop (push_node stmts n))) s
      else succeed (VList stmts) s)"

definition parseNamespace :: "precur \<Rightarrow> pval parse" where
  "parseNamespace rec s =
     (let nsTok = peek_tok s; s1 = advance_tok s;
          (name, s2) = (if check IDENTIFIER s1
                        then namespace_name_loop (tvalue (peek_tok s1)) (advance_tok s1)
                        else ([], s1))
      in pbind (consume LEFT_BRACE ''Expected '{' after namespace'') (\<lambda>_.
         pbind (nodes_of rec (StatementsLoop [])) (\<lambda>stmts.
         pbind (consume RIGHT_BRACE ''Expected '}' after namespace body'') (\<lambda>_.
           some_node (NamespaceDecl name (BlockStmt stmts (tpos nsTok)) (tpos nsTok))))) s2)"

definition parseTemplate :: "precur \<Rightarrow> pval parse" where
  "parseTemplate rec s =
     (let templateTok = peek_tok s
      in pbind (consume LESS ''Expected '<' after template'') (\<lambda>_ s1.
           case parseTemplateParams s1 of
             (params, s2) \<Rightarrow>
               pbind (consume GREATER ''Expected '>' after template parameters'') (\<lambda>_ s3.
                 pbind (node_of rec
                          (if function_ahead (ptokens s3)
                                (snd (parseTypeForLookahead (ptokens s3) (idx s3)))
                              \<or> scan_function (ptokens s3) (idx s3)
                           then FunctionDeclaration else DeclarationOrStatement))
                   (\<lambda>declaration. some_node (TemplateDecl params declaration (tpos templateTok)))
                   s3) s2) (advance_tok s))"

text \<open>The parameter loop of \<^verbatim>\<open>parseFunctionParams\<close>.\<close>

definition params_loop :: "precur \<Rightarrow> (string list \<times> string) list \<Rightarrow> pval parse" where
  "params_loop rec params s =
     (if \<not> check RIGHT_PAREN s \<and> \<not> isAtEnd s then
        (case parseType s of
           (paramType, s1) \<Rightarrow>
             if paramType = [] then fail_at (peek_tok s1) ''Expected type in parameter list'' s1
             else
               (let (paramName, s2) = (if check IDENTIFIER s1
                                       then (tvalue (peek_tok s1), advance_tok s1) else ([], s1));
                    params1 = params @ [(paramType, paramName)]
                in if check COMMA s2 then rec (ParamsLoop params1) (advance_tok s2)
                   else succeed (VParams params1) s2))
      else succeed (VParams params) s)"

definition parseFunctionParams :: "precur \<Rightarrow> (string list \<times> string) list parse" where
  "parseFunctionParams rec =
     pbind (consume LEFT_PAREN ''Expected '(' after function name'') (\<lambda>_.
     pbind (params_of rec (ParamsLoop [])) (\<lambda>params.
     pbind (consume RIGHT_PAREN ''Expected ')' after parameters'') (\<lambda>_. succeed params)))"

text \<open>The return type and the name of \<^verbatim>\<open>parseFunctionDeclaration\<close>.\<close>

definition function_head :: "(string list \<times> string) parse" where
  "function_head s =
     (if check IDENTIFIER s \<and> tvalue (peek_tok s) = currentClassName s
        then succeed ([], tvalue (peek_tok s)) (advance_tok s)
      else if check_value OPERATOR [''~''] s then
        (let s1 = advance_tok s
         in if \<not> check IDENTIFIER s1 \<or> tvalue (peek_tok s1) \<noteq> currentClassName s1
            then fail_at (peek_tok s1) (''Expected class name after '~'' @ [CHR 0x27]) s1
            else succeed ([], ''~'' @ tvalue (peek_tok s1)) (advance_tok s1))
      else
        (case parseType s of
           (returnType, s1) \<Rightarrow>
             if check LEFT_PAREN s1 \<and> returnType \<noteq> []
               then succeed (butlast returnType, last returnType) s1
             else if \<not> check IDENTIFIER s1
               then fail_at (peek_tok s1) ''Expected function name'' s1
             else succeed (returnType, tvalue (peek_tok s1)) (advance_tok s1)))"

definition parseFunctionDeclaration :: "precur \<Rightarrow> pval parse" where
  "parseFunctionDeclaration rec s =
     (let startPos = tpos (peek_tok s)
      in pbind function_head (\<lambda>(returnType, funcName).
         pbind (parseFunctionParams rec) (\<lambda>params s1.
           (let isConst = check_value TYPE_QUALIFIER [''const''] s1;
                s2 = (if isConst then advance_tok s1 else s1)
            in pbind (if check LEFT_BRACE s2 then node_of rec Block
                      else pbind (consume SEMICOLON ''Expected ';' or function body'')
                             (\<lambda>_. succeed None))
                 (\<lambda>body. some_node (FunctionDecl returnType funcName params body False isConst
                                       startPos)) s2))) s)"

definition parseClassMember :: "precur \<Rightarrow> pval parse" where
  "parseClassMember rec s =
     (if check ACCESS_SPECIFIER s then pbind parseAccessSpecifier (\<lambda>n. succeed (VNode n)) s
      else if check IDENTIFIER s \<and> tvalue (peek_tok s) = currentClassName s
              \<and> type_at (ptokens s) (idx s + 1) LEFT_PAREN
        then rec FunctionDeclaration s
      else if check_value OPERATOR [''~''] s \<and> type_at (ptokens s) (idx s + 1) IDENTIFIER
              \<and> tvalue (ptokens s ! (idx s + 1)) = currentClassName s
        then rec FunctionDeclaration s
      else rec DeclarationOrStatement s)"

text \<open>The initializer after \<^verbatim>\<open>=\<close> in a declarator.\<close>

definition parse_initializer :: "precur \<Rightarrow> ast parse" where
  "parse_initializer rec s =
     (if check LEFT_BRACE s then
        (let ob = peek_tok s
         in case initializer_text (advance_tok s) of
              (contents, s1) \<Rightarrow>
                pbind (consume RIGHT_BRACE ''Expected '}' after initializer list'')
                  (\<lambda>_. succeed (Literal contents LEFT_BRACE (tpos ob))) s1)
      else expr_of rec Expression s)"

definition constructor_args_loop :: "precur \<Rightarrow> ast list \<Rightarrow> pval parse" where
  "constructor_args_loop rec args s =
     (if \<not> check RIGHT_PAREN s \<and> \<not> isAtEnd s then
        pbind (expr_of rec Expression)
          (\<lambda>e s1. if check COMMA s1 then rec (ConstructorArgsLoop (args @ [e])) (advance_tok s1)
                   else succeed (VList (args @ [e])) s1) s
      else succeed (VList args) s)"

text \<open>One declarator of \<^verbatim>\<open>parseVarDeclaration\<close> and the loop over them.\<close>

definition declarator_init :: "precur \<Rightarrow> string list \<Rightarrow> pos \<Rightarrow> (ast option \<times> bool) parse" where
  "declarator_init rec type startPos s =
     (if check LEFT_BRACKET s then
        pbind (expr_of rec Expression) (\<lambda>sizeExpr.
        pbind (consume RIGHT_BRACKET ''Expected ']' in array declarator'') (\<lambda>_ s1.
          if check_value OPERATOR [''=''] s1
          then pbind (parse_initializer rec) (\<lambda>i. succeed (Some i, True)) (advance_tok s1)
          else succeed (None, True) s1)) (advance_tok s)
      else if check_value OPERATOR [''=''] s then
        pbind (parse_initializer rec) (\<lambda>i. succeed (Some i, False)) (advance_tok s)
      else if check LEFT_PAREN s then
        pbind (nodes_of rec (ConstructorArgsLoop [])) (\<lambda>args.
        pbind (consume RIGHT_PAREN ''Expected ')' after constructor arguments'') (\<lambda>_.
          succeed (Some (CallExpr (Identifier (if type = [] then [] else hd type) startPos) args startPos),
               False))) (advance_tok s)
      else succeed (None, False) s)"

definition declarators_loop :: "precur \<Rightarrow> string list \<Rightarrow> pos \<Rightarrow> ast list \<Rightarrow> pval parse" where
  "declarators_loop rec type startPos decls s =
     (let nameTok = peek_tok s
      in pbind (declarator_init rec type startPos) (\<lambda>(init, isArrayDecl) s1.
           (let varDecl = VarDecl type (tvalue nameTok) init (''*'' \<in> set type) (''&'' \<in> set type)
                            isArrayDecl startPos
            in if check COMMA s1
               then rec (DeclaratorsLoop type startPos (decls @ [varDecl])) (advance_tok s1)
               else succeed (VList (decls @ [varDecl])) s1)) (advance_tok s))"

definition parseVarDeclaration :: "precur \<Rightarrow> pval parse" where
  "parseVarDeclaration rec s =
     (let startPos = tpos (peek_tok s)
      in case parseType s of
           (type, s1) \<Rightarrow>
             if \<not> check IDENTIFIER s1
             then fail_at (peek_tok s1) ''Expected identifier after type'' s1
             else
               pbind (nodes_of rec (DeclaratorsLoop type startPos [])) (\<lambda>decls s2.
                 (let s3 = (if check SEMICOLON s2 then advance_tok s2 else s2)
                  in if length decls = 1 then some_node (hd decls) s3
                     else some_node (BlockStmt decls startPos) s3)) s1)"

definition parseStatement :: "precur \<Rightarrow> pval parse" where
  "parseStatement rec s =
     (let t = peek_tok s
      in if ttype t = PREPROCESSOR then succeed (VNode None) (advance_tok s)
         else if check KEYWORD s \<and> tvalue t = ''using'' then rec DeclarationOrStatement s
         else if check LEFT_BRACE s then
           rec Block ((advance_tok s)\<lparr>idx := idx (advance_tok s) - 1\<rparr>)
         else if check_value KEYWORD [''if''] s then rec If s
         else if check_value KEYWORD [''while''] s then rec While s
         else if check_value KEYWORD [''for''] s then rec For s
         else if check_value KEYWORD [''return''] s then rec Return s
         else if check_value KEYWORD [''throw''] s then rec Throw s
         else rec ExpressionStatement s)"

definition parseBlock :: "precur \<Rightarrow> pval parse" where
  "parseBlock rec s =
     (let openTok = peek_tok s
      in pbind (consume LEFT_BRACE ''Expected '{' to startPos block'') (\<lambda>_.
         pbind (nodes_of rec (StatementsLoop [])) (\<lambda>stmts.
         pbind (consume RIGHT_BRACE ''Expected '}' after block'') (\<lambda>_.
           some_node (BlockStmt stmts (tpos openTok))))) s)"

definition parseExpressionStatement :: "precur \<Rightarrow> pval parse" where
  "parseExpressionStatement rec =
     pbind (expr_of rec Expression) (\<lambda>e.
     pbind (consume SEMICOLON ''Expected ';' after expression'') (\<lambda>_ s.
       some_node (ExprStmt (Some e) (tpos (peek_tok s))) s))"

definition opt_expr :: "precur \<Rightarrow> bool \<Rightarrow> ast option parse" where
  "opt_expr rec present =
     (if present then pbind (expr_of rec Expression) (\<lambda>e. succeed (Some e)) else succeed None)"

definition for_init :: "precur \<Rightarrow> ast option parse" where
  "for_init rec s =
     (if \<not> check SEMICOLON s then
        (if check TYPE_SPECIFIER s \<or> check TYPE_QUALIFIER s \<or> check STORAGE_CLASS s
         then node_of rec VarDeclaration s
         else pbind (expr_of rec Expression)
                (\<lambda>e. pbind (consume SEMICOLON ''Expected ';' after for init'')
                       (\<lambda>_. succeed (Some e))) s)
      else pbind (consume SEMICOLON ''Expected ';' after for init (empty)'') (\<lambda>_. succeed None) s)"

definition for_clauses :: "precur \<Rightarrow> Token \<Rightarrow> ast option \<Rightarrow> pval parse" where
  "for_clauses rec tk init s =
     (if check COLON s then
        pbind (expr_of rec Expression)
          (\<lambda>rangeExpr.
             pbind (consume RIGHT_PAREN ''Expected ')' after for range'')
               (\<lambda>_. pbind (node_of rec Statement)
                      (\<lambda>body. some_node (ForStmt init None (Some rangeExpr) body (tpos tk)))))
          (advance_tok s)
      else
        pbind (opt_expr rec (\<not> check SEMICOLON s))
          (\<lambda>cond.
             pbind (consume SEMICOLON ''Expected ';' after for condition'')
               (\<lambda>_ s1.
                  pbind (opt_expr rec (\<not> check RIGHT_PAREN s1))
                    (\<lambda>post.
                       pbind (consume RIGHT_PAREN ''Expected ')' after for clauses'')
                         (\<lambda>_. pbind (node_of rec Statement)
                                (\<lambda>body. some_node (ForStmt init cond post body (tpos tk)))))
                    s1))
          s)"

definition parseFor :: "precur \<Rightarrow> pval parse" where
  "parseFor rec s =
     (let tk = peek_tok s
      in pbind (consume LEFT_PAREN ''Expected '(' after for'')
           (\<lambda>_. pbind (for_init rec) (\<lambda>init. for_clauses rec tk init))
           (advance_tok s))"

definition parseIf :: "precur \<Rightarrow> pval parse" where
  "parseIf rec s =
     (let tk = peek_tok s
      in pbind (consume LEFT_PAREN ''Expected '(' after if'') (\<lambda>_.
         pbind (expr_of rec Expression) (\<lambda>cond.
         pbind (consume RIGHT_PAREN ''Expected ')' after if condition'') (\<lambda>_.
         pbind (node_of rec Statement) (\<lambda>thenBranch s1.
           if check_value KEYWORD [''else''] s1
           then pbind (node_of rec Statement)
                  (\<lambda>elseBranch. some_node (IfStmt cond thenBranch elseBranch (tpos tk)))
                  (advance_tok s1)
           else some_node (IfStmt cond thenBranch None (tpos tk)) s1))))
           (advance_tok s))"

definition parseWhile :: "precur \<Rightarrow> pval parse" where
  "parseWhile rec s =
     (let tk = peek_tok s
      in pbind (consume LEFT_PAREN ''Expected '(' after while'') (\<lambda>_.
         pbind (expr_of rec Expression) (\<lambda>cond.
         pbind (consume RIGHT_PAREN ''Expected ')' after while condition'') (\<lambda>_.
         pbind (node_of rec Statement) (\<lambda>body.
           some_node (WhileStmt cond body (tpos tk))))))
           (advance_tok s))"

definition parseReturn :: "precur \<Rightarrow> pval parse" where
  "parseReturn rec s =
     (let tk = peek_tok s; s1 = advance_tok s
      in pbind (opt_expr rec (\<not> check SEMICOLON s1)) (\<lambda>e.
         pbind (consume SEMICOLON ''Expected ';' after return'') (\<lambda>_.
           some_node (ReturnStmt e (tpos tk)))) s1)"

definition parseThrow :: "precur \<Rightarrow> pval parse" where
  "parseThrow rec s =
     (let tk = peek_tok s; s1 = advance_tok s
      in pbind (opt_expr rec (\<not> check SEMICOLON s1)) (\<lambda>e.
         pbind (consume SEMICOLON ''Expected ';' after throw'') (\<lambda>_.
           some_node (ExprStmt e (tpos tk)))) s1)"

definition parseAssignment :: "precur \<Rightarrow> pval parse" where
  "parseAssignment rec =
     pbind (expr_of rec Conditional) (\<lambda>left s.
       if check_value OPERATOR [''=''] s then
         (let op = peek_tok s
          in pbind (expr_of rec Assignment)
               (\<lambda>right. some_node (BinaryOp (tvalue op) left right (tpos op))) (advance_tok s))
       else some_node left s)"

definition parseConditional :: "precur \<Rightarrow> pval parse" where
  "parseConditional rec =
     pbind (expr_of rec LogicalOr) (\<lambda>cond s.
       if check_value OPERATOR [''?''] s then
         (let q = peek_tok s
          in pbind (expr_of rec Expression) (\<lambda>thenExpr.
             pbind (consume COLON ''Expected ':' in conditional expression'') (\<lambda>_.
             pbind (expr_of rec Expression) (\<lambda>elseExpr.
               some_node (BinaryOp ''?:'' thenExpr elseExpr (tpos q))))) (advance_tok s))
       else some_node cond s)"

text \<open>
  A level of left-associative binary operators: the first operand, then the loop
  \<^verbatim>\<open>while (an operator of the level) { op; right operand; node_of = BinaryOp }\<close>.
\<close>

definition binary_level :: "precur \<Rightarrow> nonterm \<Rightarrow> (ast \<Rightarrow> nonterm) \<Rightarrow> pval parse" where
  "binary_level rec operand loop = pbind (expr_of rec operand) (\<lambda>n. rec (loop n))"

definition binary_loop ::
  "precur \<Rightarrow> (parser \<Rightarrow> bool) \<Rightarrow> nonterm \<Rightarrow> (ast \<Rightarrow> nonterm) \<Rightarrow> ast \<Rightarrow> pval parse" where
  "binary_loop rec is_op operand loop n s =
     (if is_op s then
        (let op = peek_tok s
         in pbind (expr_of rec operand)
              (\<lambda>right. rec (loop (BinaryOp (tvalue op) n right (tpos op)))) (advance_tok s))
      else some_node n s)"

definition is_shift_op :: "parser \<Rightarrow> bool" where
  "is_shift_op s = ((check LEFT_SHIFT s \<or> check RIGHT_SHIFT s)
                    \<or> check_value OPERATOR [''<<'', ''>>''] s)"

definition is_comparison_op :: "parser \<Rightarrow> bool" where
  "is_comparison_op s =
     ((check LESS s \<or> check GREATER s \<or> check LESS_EQUAL s \<or> check GREATER_EQUAL s)
      \<or> check_value OPERATOR [''<'', ''>'', ''<='', ''>=''] s)"

definition parseUnary :: "precur \<Rightarrow> pval parse" where
  "parseUnary rec s =
     (if check_value KEYWORD [''new''] s then
        (let op = peek_tok s; s1 = advance_tok s
         in if check TYPE_SPECIFIER s1 then
              (let type_name = tvalue (peek_tok s1); s2 = advance_tok s1
               in if check LEFT_BRACKET s2 then
                    pbind (expr_of rec Expression) (\<lambda>size_expr s3.
                      if \<not> check RIGHT_BRACKET s3
                      then fail_at (peek_tok s3) ''Expected ']' after array size'' s3
                      else some_node
                             (UnaryOp ''new''
                                (ArraySubscript (Identifier type_name (tpos op)) size_expr (tpos op))
                                (tpos op)) (advance_tok s3)) (advance_tok s2)
                  else some_node (UnaryOp ''new'' (Identifier type_name (tpos op)) (tpos op)) s2)
            else pbind (expr_of rec Unary)
                   (\<lambda>operand. some_node (UnaryOp ''new'' operand (tpos op))) s1)
      else if check_value KEYWORD [''delete''] s then
        (let op = peek_tok s
         in pbind (expr_of rec Unary)
              (\<lambda>operand. some_node (UnaryOp ''delete'' operand (tpos op))) (advance_tok s))
      else if check_value OPERATOR [''!'', ''-'', ''+'', ''*'', ''&'', ''~''] s then
        (let op = peek_tok s
         in pbind (expr_of rec Unary)
              (\<lambda>operand. some_node (UnaryOp (tvalue op) operand (tpos op))) (advance_tok s))
      else rec CallAndPrimary s)"

definition parseCallAndPrimary :: "precur \<Rightarrow> pval parse" where
  "parseCallAndPrimary rec s =
     (let t = peek_tok s
      in if ttype t = LEFT_BRACKET then
           (let s1 = snd (token_loop (\<lambda>a s'. \<not> check LEFT_BRACE s') (\<lambda>a s'. a) ()
                            (advance_tok s));
                s2 = (if check LEFT_BRACE s1 then skip_braces (advance_tok s1) else s1)
            in some_node (Literal ''<lambda>'' LEFT_BRACE (tpos t)) s2)
         else if ttype t = NUMBER \<or> ttype t = STRING \<or> ttype t = CHARACTER then
           some_node (Literal (tvalue t) (ttype t) (tpos t)) (advance_tok s)
         else if ttype t = IDENTIFIER then
           rec (PostfixLoop (Identifier (tvalue t) (tpos t))) (advance_tok s)
         else if check LEFT_PAREN s then
           pbind (expr_of rec Expression) (\<lambda>e.
           pbind (consume RIGHT_PAREN ''Expected ')' after expression'') (\<lambda>_. some_node e))
             (advance_tok s)
         else fail_at t ''Expected expression'' s)"

text \<open>\<^verbatim>\<open>do { args.push_back(parseExpression()); } while (match({COMMA}));\<close>\<close>

definition call_args_loop :: "precur \<Rightarrow> ast list \<Rightarrow> pval parse" where
  "call_args_loop rec args =
     pbind (expr_of rec Expression)
       (\<lambda>e s. if check COMMA s then rec (CallArgsLoop (args @ [e])) (advance_tok s)
               else succeed (VList (args @ [e])) s)"

text \<open>
  The postfix loop of \<^verbatim>\<open>parseCallAndPrimary\<close>. Its second test for \<^verbatim>\<open>[\<close> (the lambda
  literal) comes after the first and is never reached. After \<^verbatim>\<open>::\<close> the left operand is
  cast to an identifier and read: for another node the cast is null.
\<close>

definition member_access :: "precur \<Rightarrow> ast \<Rightarrow> bool \<Rightarrow> string \<Rightarrow> pval parse" where
  "member_access rec left arrow msg s =
     (let op = peek_tok s; s1 = advance_tok s
      in if \<not> check IDENTIFIER s1 then fail_at (peek_tok s1) msg s1
         else rec (PostfixLoop (MemberAccess left (tvalue (peek_tok s1)) arrow (tpos op)))
                (advance_tok s1))"

definition postfix_loop :: "precur \<Rightarrow> ast \<Rightarrow> pval parse" where
  "postfix_loop rec left s =
     (if check ARROW s then
        member_access rec left True (''Expected member name after '->'' @ [CHR 0x27]) s
      else if check DOT s then
        member_access rec left False (''Expected member name after '.'' @ [CHR 0x27]) s
      else if check LEFT_BRACKET s then
        (let bracket = peek_tok s
         in pbind (expr_of rec Expression) (\<lambda>index.
            pbind (consume RIGHT_BRACKET ''Expected ']' after array index'') (\<lambda>_.
              rec (PostfixLoop (ArraySubscript left index (tpos bracket))))) (advance_tok s))
      else if check LEFT_PAREN s then
        (let openTok = peek_tok s; s1 = advance_tok s
         in pbind (if \<not> check RIGHT_PAREN s1 then nodes_of rec (CallArgsLoop []) else succeed [])
              (\<lambda>args.
            pbind (consume RIGHT_PAREN ''Expected ')' after function call arguments'') (\<lambda>_.
              rec (PostfixLoop (CallExpr left args (tpos openTok))))) s1)
      else if check_value OPERATOR [''++'', ''--''] s then
        (let op = peek_tok s
         in rec (PostfixLoop (UnaryOp (tvalue op @ ''_post'') left (tpos op))) (advance_tok s))
      else if check SCOPE_RESOLUTION s then
        (let s1 = advance_tok s
         in if check IDENTIFIER s1 then
              (let nextId = peek_tok s1
               in case left of
                    Identifier name p \<Rightarrow>
                      rec (PostfixLoop (Identifier (name @ ''::'' @ tvalue nextId) (tpos nextId)))
                        (advance_tok s1)
                  | _ \<Rightarrow> Inl NullPointer)
            else rec (PostfixLoop left) s1)
      else some_node left s)"

text \<open>
  The functions by name. \<open>parse n\<close> allows \<open>n\<close> nested calls and loop rounds; with too few
  the result is \<open>OutOfFuel\<close>.
\<close>

definition parse_body :: "precur \<Rightarrow> nonterm \<Rightarrow> pval parse" where
  "parse_body rec nt s =
     (case nt of
        DeclarationOrStatement \<Rightarrow> parseDeclarationOrStatement rec s
      | Class \<Rightarrow> parseClass rec s
      | Struct \<Rightarrow> parseStruct rec s
      | Namespace \<Rightarrow> parseNamespace rec s
      | Template \<Rightarrow> parseTemplate rec s
      | FunctionDeclaration \<Rightarrow> parseFunctionDeclaration rec s
      | ClassMember \<Rightarrow> parseClassMember rec s
      | VarDeclaration \<Rightarrow> parseVarDeclaration rec s
      | Statement \<Rightarrow> parseStatement rec s
      | Block \<Rightarrow> parseBlock rec s
      | ExpressionStatement \<Rightarrow> parseExpressionStatement rec s
      | For \<Rightarrow> parseFor rec s
      | If \<Rightarrow> parseIf rec s
      | While \<Rightarrow> parseWhile rec s
      | Return \<Rightarrow> parseReturn rec s
      | Throw \<Rightarrow> parseThrow rec s
      | Expression \<Rightarrow> rec Assignment s
      | Assignment \<Rightarrow> parseAssignment rec s
      | Conditional \<Rightarrow> parseConditional rec s
      | LogicalOr \<Rightarrow> binary_level rec LogicalAnd LogicalOrLoop s
      | LogicalAnd \<Rightarrow> binary_level rec Equality LogicalAndLoop s
      | Equality \<Rightarrow> binary_level rec Comparison EqualityLoop s
      | Comparison \<Rightarrow> binary_level rec Shift ComparisonLoop s
      | Shift \<Rightarrow> binary_level rec Additive ShiftLoop s
      | Additive \<Rightarrow> binary_level rec Multiplicative AdditiveLoop s
      | Multiplicative \<Rightarrow> binary_level rec Unary MultiplicativeLoop s
      | Unary \<Rightarrow> parseUnary rec s
      | CallAndPrimary \<Rightarrow> parseCallAndPrimary rec s
      | ProgramLoop p \<Rightarrow> program_loop rec p s
      | StatementsLoop stmts \<Rightarrow> statements_loop rec stmts s
      | MembersLoop members \<Rightarrow> members_loop rec members s
      | ParamsLoop params \<Rightarrow> params_loop rec params s
      | DeclaratorsLoop type startPos decls \<Rightarrow> declarators_loop rec type startPos decls s
      | ConstructorArgsLoop args \<Rightarrow> constructor_args_loop rec args s
      | CallArgsLoop args \<Rightarrow> call_args_loop rec args s
      | LogicalOrLoop n \<Rightarrow>
          binary_loop rec (check_value OPERATOR [''||'']) LogicalAnd LogicalOrLoop n s
      | LogicalAndLoop n \<Rightarrow>
          binary_loop rec (check_value OPERATOR [''&&'']) Equality LogicalAndLoop n s
      | EqualityLoop n \<Rightarrow>
          binary_loop rec (check_value OPERATOR [''=='', ''!='']) Comparison EqualityLoop n s
      | ComparisonLoop n \<Rightarrow> binary_loop rec is_comparison_op Shift ComparisonLoop n s
      | ShiftLoop n \<Rightarrow> binary_loop rec is_shift_op Additive ShiftLoop n s
      | AdditiveLoop n \<Rightarrow>
          binary_loop rec (check_value OPERATOR [''+'', ''-'']) Multiplicative AdditiveLoop n s
      | MultiplicativeLoop n \<Rightarrow>
          binary_loop rec (check_value OPERATOR [''*'', ''/'', ''%'']) Unary MultiplicativeLoop n s
      | PostfixLoop left \<Rightarrow> postfix_loop rec left s)"

primrec parse :: "nat \<Rightarrow> nonterm \<Rightarrow> pval parse" where
  "parse 0 nt s = Inl OutOfFuel"
| "parse (Suc n) nt s = parse_body (parse n) nt s"

definition parseProgram :: "nat \<Rightarrow> parser \<Rightarrow> perr + (Program \<times> parser)" where
  "parseProgram fuel = nodes_of (parse fuel) (ProgramLoop [])"

section \<open>The code generator (\<^verbatim>\<open>codegen.cpp\<close>)\<close>

text \<open>
  Modelled from the spec: \<^verbatim>\<open>codegen.h\<close> is not among the sources. It declares the
  symbol and label records, the opcode enumeration (the same bytes as the machine's,
  section 6 of the specification) and \<^verbatim>\<open>currentAddress\<close>. A symbol has a kind and,
  by kind, an address or offset and its flags; a field that a code path does not assign
  is read as false (a parameter carries only its offset and the is-array flag). A label
  has its address, the defined flag and the positions to patch. \<^verbatim>\<open>currentAddress\<close>
  is the size of the code buffer.
\<close>

datatype SymbolKind = VARIABLE | PARAMETER | FUNCTION

record Symbol =
  sym_type :: SymbolKind
  offset :: int32
  sym_address :: int32
  param_count :: int32
  is_array :: bool
  is_heap_allocated :: bool
  is_float :: bool

record Label =
  address :: nat
  defined :: bool
  fixup_positions :: "nat list"

definition new_Symbol :: Symbol where
  "new_Symbol = \<lparr>sym_type = VARIABLE, offset = 0, sym_address = 0, param_count = 0,
                  is_array = False, is_heap_allocated = False, is_float = False\<rparr>"

definition new_Label :: Label where
  "new_Label = \<lparr>address = 0, defined = False, fixup_positions = []\<rparr>"

text \<open>
  The fields of \<^verbatim>\<open>class CodeGenerator\<close>. The two maps are association lists; a key
  occurs at most once in \<open>labels\<close>.
\<close>

record codegen =
  bytecode_cg :: "byte list"
  symbols :: "(string \<times> Symbol) list"
  labels :: "(string \<times> Label) list"
  class_names :: "string list"
  string_table_cg :: "string list"
  current_offset :: nat
  next_memory_addr :: int32
  label_counter :: nat

definition new_codegen :: codegen where
  "new_codegen = \<lparr>bytecode_cg = [], symbols = [], labels = [], class_names = [],
                   string_table_cg = [], current_offset = 0, next_memory_addr = 0,
                   label_counter = 0\<rparr>"

subsection \<open>Emitting bytes\<close>

definition emit :: "VMOpcode \<Rightarrow> codegen \<Rightarrow> codegen" where
  "emit op g = g\<lparr>bytecode_cg := bytecode_cg g @ [opcode_byte op]\<rparr>"

definition int32_bytes :: "32 word \<Rightarrow> byte list" where
  "int32_bytes v = [ucast v, ucast (drop_bit 8 v), ucast (drop_bit 16 v), ucast (drop_bit 24 v)]"

definition emitInt32 :: "int32 \<Rightarrow> codegen \<Rightarrow> codegen" where
  "emitInt32 v g = g\<lparr>bytecode_cg := bytecode_cg g @ int32_bytes v\<rparr>"

text \<open>\<^verbatim>\<open>emitInt32At\<close> writes four existing bytes; the positions come from \<^verbatim>\<open>emitJump\<close>.\<close>

definition emitInt32At :: "nat \<Rightarrow> int32 \<Rightarrow> codegen \<Rightarrow> codegen" where
  "emitInt32At p v g =
     g\<lparr>bytecode_cg := (bytecode_cg g)[p := int32_bytes v ! 0, p + 1 := int32_bytes v ! 1,
                                       p + 2 := int32_bytes v ! 2, p + 3 := int32_bytes v ! 3]\<rparr>"

definition emitFloat32 :: "float32 \<Rightarrow> codegen \<Rightarrow> codegen" where
  "emitFloat32 v g = g\<lparr>bytecode_cg := bytecode_cg g @ int32_bytes v\<rparr>"

definition currentAddress :: "codegen \<Rightarrow> nat" where
  "currentAddress g = length (bytecode_cg g)"

subsection \<open>Labels, strings, symbols\<close>

definition get_label :: "codegen \<Rightarrow> string \<Rightarrow> Label" where
  "get_label g name = (case map_of (labels g) name of Some l \<Rightarrow> l | None \<Rightarrow> new_Label)"

fun alist_put :: "'k \<Rightarrow> 'v \<Rightarrow> ('k \<times> 'v) list \<Rightarrow> ('k \<times> 'v) list" where
  "alist_put k v [] = [(k, v)]"
| "alist_put k v ((k', v') # xs) = (if k = k' then (k, v) # xs else (k', v') # alist_put k v xs)"

definition set_label :: "string \<Rightarrow> Label \<Rightarrow> codegen \<Rightarrow> codegen" where
  "set_label name l g = g\<lparr>labels := alist_put name l (labels g)\<rparr>"

definition makeLabel :: "string \<Rightarrow> codegen \<Rightarrow> string \<times> codegen" where
  "makeLabel prefix g =
     (prefix @ ''_'' @ show_nat (label_counter g), g\<lparr>label_counter := label_counter g + 1\<rparr>)"

definition defineLabel :: "string \<Rightarrow> codegen \<Rightarrow> codegen" where
  "defineLabel name g =
     set_label name ((get_label g name)\<lparr>address := currentAddress g, defined := True\<rparr>) g"

definition emitJump :: "VMOpcode \<Rightarrow> string \<Rightarrow> codegen \<Rightarrow> codegen" where
  "emitJump op name g =
     (let g1 = emit op g;
          l = get_label g1 name;
          g2 = set_label name (l\<lparr>fixup_positions := fixup_positions l @ [currentAddress g1]\<rparr>) g1
      in emitInt32 0 g2)"

text \<open>An undefined label is reported and skipped: its placeholders stay 0.\<close>

definition fixupLabels :: "codegen \<Rightarrow> codegen" where
  "fixupLabels g =
     fold (\<lambda>(name, l) g'.
             if \<not> defined l then g'
             else fold (\<lambda>p. emitInt32At p (word_of_nat (address l))) (fixup_positions l) g')
          (labels g) g"

text \<open>The index of the first occurrence, as the linear scan finds it.\<close>

fun find_string :: "string \<Rightarrow> string list \<Rightarrow> nat option" where
  "find_string s [] = None"
| "find_string s (x # xs) = (if x = s then Some 0 else map_option Suc (find_string s xs))"

definition addString :: "string \<Rightarrow> codegen \<Rightarrow> int32 \<times> codegen" where
  "addString s g =
     (case find_string s (string_table_cg g) of
        Some i \<Rightarrow> (word_of_nat i, g)
      | None \<Rightarrow> (word_of_nat (length (string_table_cg g)),
                 g\<lparr>string_table_cg := string_table_cg g @ [s]\<rparr>))"

definition mangleFunctionName :: "string \<Rightarrow> nat \<Rightarrow> string" where
  "mangleFunctionName name n = (if n = 0 then name else name @ ''_P'' @ show_nat n)"

definition addVariable :: "string \<Rightarrow> int32 \<Rightarrow> bool \<Rightarrow> bool \<Rightarrow> bool \<Rightarrow> codegen \<Rightarrow> codegen" where
  "addVariable name off arr heap_alloc flt g =
     g\<lparr>symbols := (name, new_Symbol\<lparr>sym_type := VARIABLE, offset := off, is_array := arr,
                                     is_heap_allocated := heap_alloc, is_float := flt\<rparr>)
                    # symbols g\<rparr>"

definition addParameterSym :: "string \<Rightarrow> int32 \<Rightarrow> bool \<Rightarrow> codegen \<Rightarrow> codegen" where
  "addParameterSym name off arr g =
     g\<lparr>symbols := (name, new_Symbol\<lparr>sym_type := PARAMETER, offset := off, is_array := arr\<rparr>)
                    # symbols g\<rparr>"

definition findSymbol :: "codegen \<Rightarrow> string \<Rightarrow> Symbol option" where
  "findSymbol g name = map_of (symbols g) name"

subsection \<open>Literals and types\<close>

definition digit_value :: "char \<Rightarrow> nat" where
  "digit_value c = (of_char c :: nat) - 48"

definition digits_value :: "string \<Rightarrow> nat" where
  "digits_value ds = foldl (\<lambda>acc c. 10 * acc + digit_value c) 0 ds"

text \<open>
  \<^verbatim>\<open>std::stoi\<close>: leading white space, an optional sign, decimal digits; what follows
  the digits is ignored. \<open>None\<close> is an exception: no digit, or a value outside \<^verbatim>\<open>int\<close>.
\<close>

definition stoi :: "string \<Rightarrow> int32 option" where
  "stoi s =
     (let s1 = dropWhile isspace s;
          neg = (s1 \<noteq> [] \<and> hd s1 = CHR ''-'');
          s2 = (if s1 \<noteq> [] \<and> (hd s1 = CHR ''-'' \<or> hd s1 = CHR ''+'') then tl s1 else s1);
          ds = takeWhile isdigit s2;
          v = (if neg then - int (digits_value ds) else int (digits_value ds))
      in if ds = [] \<or> v < - (2 ^ 31) \<or> 2 ^ 31 \<le> v then None else Some (word_of_int v))"

text \<open>\<^verbatim>\<open>static_cast<int>(c)\<close> for a \<^verbatim>\<open>char\<close>, which is signed on the host.\<close>

definition char_to_int :: "char \<Rightarrow> int32" where
  "char_to_int c = scast (of_char c :: 8 word)"

definition isFloatLiteralStr :: "string \<Rightarrow> bool" where
  "isFloatLiteralStr s =
     (if s = [] then False
      else if length s \<ge> 2 \<and> s ! 0 = CHR ''0'' \<and> (s ! 1 = CHR ''x'' \<or> s ! 1 = CHR ''X'') then False
      else (\<exists>c\<in>set s. c = CHR ''.'' \<or> c = CHR ''e'' \<or> c = CHR ''E''))"

definition isFloatType :: "string list \<Rightarrow> bool" where
  "isFloatType typeTokens = (\<exists>t\<in>set typeTokens. t = ''float'' \<or> t = ''double'')"

fun isFloatExpr :: "codegen \<Rightarrow> ast \<Rightarrow> bool" where
  "isFloatExpr g (Literal v lt p) =
     (if lt = STRING \<or> lt = CHARACTER then False else isFloatLiteralStr v)"
| "isFloatExpr g (Identifier name p) =
     (case findSymbol g name of Some smb \<Rightarrow> is_float smb | None \<Rightarrow> False)"
| "isFloatExpr g (BinaryOp op l r p) =
     (if op = ''='' then
        (case l of
           Identifier name q \<Rightarrow> (case findSymbol g name of Some smb \<Rightarrow> is_float smb | None \<Rightarrow> False)
         | _ \<Rightarrow> False)
      else isFloatExpr g l \<or> isFloatExpr g r)"
| "isFloatExpr g (UnaryOp op e p) = isFloatExpr g e"
| "isFloatExpr g _ = False"

definition push_const :: "int32 \<Rightarrow> codegen \<Rightarrow> codegen" where
  "push_const v g = emitInt32 v (emit PUSH g)"

text \<open>\<^verbatim>\<open>genLiteral\<close>.\<close>

definition genLiteral :: "host \<Rightarrow> string \<Rightarrow> TokenType \<Rightarrow> codegen \<Rightarrow> codegen" where
  "genLiteral H v lt g =
     (if lt = STRING then
        (case addString v g of (str_id, g1) \<Rightarrow> emitInt32 str_id (emit PUSH_STR g1))
      else if lt = NUMBER \<and> isFloatLiteralStr v then
        emitFloat32 (case stof H v of Some f \<Rightarrow> f | None \<Rightarrow> 0) (emit FPUSH g)
      else
        (let c0 = (if v = [] then CHR 0x00 else hd v);
             val = (if lt = CHARACTER \<or> (length v = 1 \<and> \<not> isdigit c0) then char_to_int c0
                    else case stoi v of
                           Some i \<Rightarrow> i
                         | None \<Rightarrow> (case stof H v of Some f \<Rightarrow> fp_to_int H f | None \<Rightarrow> 0))
         in push_const val g))"

text \<open>\<^verbatim>\<open>genIdentifier\<close>.\<close>

definition genIdentifier :: "string \<Rightarrow> codegen \<Rightarrow> codegen" where
  "genIdentifier name g =
     (if name = ''std'' \<or> name = ''cout'' \<or> name = ''cin'' \<or> name = ''endl'' \<or> name = ''cerr''
      then push_const 0 g
      else case findSymbol g name of
        Some smb \<Rightarrow>
          (case sym_type smb of
             VARIABLE \<Rightarrow>
               (if is_float smb then emitInt32 (offset smb) (emit FLOAD g)
                else if is_heap_allocated smb then emitInt32 (offset smb) (emit LOAD g)
                else if is_array smb then push_const (offset smb) g
                else emitInt32 (offset smb) (emit LOAD g))
           | PARAMETER \<Rightarrow> emitInt32 (offset smb) (emit LOAD_BP g)
           | FUNCTION \<Rightarrow> push_const (sym_address smb) g)
      | None \<Rightarrow> push_const 0 g)"

text \<open>
  The base address of an indexed symbol: the four-way choice that \<^verbatim>\<open>genBinaryOp\<close>,
  \<^verbatim>\<open>genUnaryOp\<close> and \<^verbatim>\<open>genArraySubscript\<close> each spell out.
\<close>

definition push_base :: "Symbol \<Rightarrow> codegen \<Rightarrow> codegen" where
  "push_base smb g =
     (if sym_type smb = PARAMETER \<and> is_array smb then emitInt32 (offset smb) (emit LOAD_BP g)
      else if sym_type smb = VARIABLE \<and> is_heap_allocated smb then emitInt32 (offset smb) (emit LOAD g)
      else push_const (offset smb) g)"

text \<open>The comparison tail: set 1 when the jump is taken, else 0.\<close>

definition cmp_tail :: "VMOpcode \<Rightarrow> string \<Rightarrow> codegen \<Rightarrow> codegen" where
  "cmp_tail jmpOp prefix g =
     (case makeLabel (prefix @ ''_true'') g of (true_label, g1) \<Rightarrow>
      case makeLabel (prefix @ ''_end'') g1 of (end_label, g2) \<Rightarrow>
        defineLabel end_label (push_const 1 (defineLabel true_label
          (emitJump JMP end_label (push_const 0 (emitJump jmpOp true_label g2))))))"

text \<open>The equality tail after \<^verbatim>\<open>SUB\<close> (or \<^verbatim>\<open>FSUB; FP_TO_INT\<close>): \<open>ne\<close> for \<^verbatim>\<open>!=\<close>.\<close>

definition eq_tail :: "bool \<Rightarrow> string \<Rightarrow> codegen \<Rightarrow> codegen" where
  "eq_tail ne prefix g =
     (case makeLabel (prefix @ ''_true'') g of (true_label, g1) \<Rightarrow>
      case makeLabel (prefix @ ''_end'') g1 of (end_label, g2) \<Rightarrow>
        defineLabel end_label (push_const (if ne then 0 else 1) (emit POP (defineLabel true_label
          (emitJump JMP end_label (push_const (if ne then 1 else 0) (emit POP
            (emitJump JZ true_label (emit DUP g2)))))))))"

subsection \<open>Statements and expressions\<close>

text \<open>The leftmost operand of a chain of binary operators.\<close>

fun leftmost :: "ast \<Rightarrow> ast" where
  "leftmost (BinaryOp op l r p) = leftmost l"
| "leftmost e = e"

definition is_cout_chain :: "ast \<Rightarrow> bool" where
  "is_cout_chain l = (case leftmost l of Identifier name p \<Rightarrow> name = ''std::cout'' | _ \<Rightarrow> False)"

definition is_string_literal :: "ast \<Rightarrow> bool" where
  "is_string_literal e = (case e of Literal v lt p \<Rightarrow> lt = STRING | _ \<Rightarrow> False)"

text \<open>The print instruction chosen by \<^verbatim>\<open>isFloatExpr\<close>.\<close>

definition emit_print :: "ast \<Rightarrow> codegen \<Rightarrow> codegen" where
  "emit_print e g = (if isFloatExpr g e then emit FPRINT g else emit PRINT g)"

text \<open>The parameter loop of \<^verbatim>\<open>genFunctionDecl\<close>.\<close>

definition bind_params :: "(string list \<times> string) list \<Rightarrow> codegen \<Rightarrow> codegen" where
  "bind_params params g =
     fold (\<lambda>(i, (type_tokens, name)) g'.
             addParameterSym name (param_offset (length params) i)
               (\<exists>t\<in>set type_tokens. t = ''*'' \<or> t = ''[]'') g')
          (enumerate 0 params) g"

text \<open>
  \<^verbatim>\<open>genStatement\<close>, \<^verbatim>\<open>genExpression\<close> and \<^verbatim>\<open>genFunctionDecl\<close>. Each equation of
  \<open>genStatement\<close> and \<open>genExpression\<close> is one \<^verbatim>\<open>case\<close> of the \<^verbatim>\<open>switch\<close> with the
  body of the function it calls (\<^verbatim>\<open>genVarDecl\<close>, \<^verbatim>\<open>genIf\<close>, \<^verbatim>\<open>genBinaryOp\<close>,
  \<^verbatim>\<open>genCall\<close>, ...). Warnings go to the error stream and are not modelled.
  \<^verbatim>\<open>makeLabel\<close> only counts and \<^verbatim>\<open>emit\<close> only appends, so a label made before or
  after an emission is the same label.
\<close>

fun genStatement :: "host \<Rightarrow> ast \<Rightarrow> codegen \<Rightarrow> codegen"
  and genExpression :: "host \<Rightarrow> ast \<Rightarrow> codegen \<Rightarrow> codegen"
  and genFunctionDecl :: "host \<Rightarrow> (string list \<times> string) list \<Rightarrow> ast option \<Rightarrow> string
                            \<Rightarrow> codegen \<Rightarrow> codegen"
where
  "genStatement H (VarDecl typeTokens varName init isPointer isReference isArray p) g =
     (let is_pointer = (isPointer \<or> ''*'' \<in> set typeTokens);
          is_heap_array = (is_pointer \<and> (case init of Some (UnaryOp op e q) \<Rightarrow> op = ''new'' | _ \<Rightarrow> False));
          is_arr = (isArray \<or> is_heap_array);
          is_float_var = (\<not> is_pointer \<and> \<not> is_arr \<and> isFloatType typeTokens);
          addr = next_memory_addr g;
          g1 = addVariable varName addr is_arr is_heap_array is_float_var
                 (g\<lparr>next_memory_addr := addr + 1\<rparr>)
      in case init of
           None \<Rightarrow> g1
         | Some e \<Rightarrow>
             if is_float_var then
               (let g2 = genExpression H e g1;
                    g3 = (if \<not> isFloatExpr g2 e then emit INT_TO_FP g2 else g2)
                in emitInt32 addr (emit FSTORE g3))
             else emit STORE (push_const addr (genExpression H e g1)))"
| "genStatement H (FunctionDecl returnType funcName params body isVirtual isConst p) g =
     genFunctionDecl H params body (mangleFunctionName funcName (length params)) g"
| "genStatement H (BlockStmt statements p) g =
     fold (\<lambda>stmt g'. genStatement H stmt g') statements g"
| "genStatement H (IfStmt cond thenBranch elseBranch p) g =
     (case makeLabel ''else'' g of (else_label, g1) \<Rightarrow>
      case makeLabel ''endif'' g1 of (end_label, g2) \<Rightarrow>
        (let g3 = emitJump JZ else_label (genExpression H cond g2);
             g4 = (case thenBranch of None \<Rightarrow> g3 | Some s \<Rightarrow> genStatement H s g3);
             g5 = defineLabel else_label (emitJump JMP end_label g4);
             g6 = (case elseBranch of None \<Rightarrow> g5 | Some s \<Rightarrow> genStatement H s g5)
         in defineLabel end_label g6))"
| "genStatement H (WhileStmt cond body p) g =
     (case makeLabel ''while_start'' g of (loop_start, g1) \<Rightarrow>
      case makeLabel ''while_end'' g1 of (loop_end, g2) \<Rightarrow>
        (let g3 = emitJump JZ loop_end (genExpression H cond (defineLabel loop_start g2));
             g4 = (case body of None \<Rightarrow> g3 | Some s \<Rightarrow> genStatement H s g3)
         in defineLabel loop_end (emitJump JMP loop_start g4)))"
| "genStatement H (ForStmt init cond post body p) g =
     (case makeLabel ''for_start'' g of (loop_start, g1) \<Rightarrow>
      case makeLabel ''for_end'' g1 of (loop_end, g2) \<Rightarrow>
        (let g3 = (case init of None \<Rightarrow> g2 | Some s \<Rightarrow> genStatement H s g2);
             g4 = defineLabel loop_start g3;
             g5 = (case cond of None \<Rightarrow> g4
                   | Some c \<Rightarrow> emitJump JZ loop_end (genExpression H c g4));
             g6 = (case body of None \<Rightarrow> g5 | Some s \<Rightarrow> genStatement H s g5);
             g7 = (case post of None \<Rightarrow> g6
                   | Some e \<Rightarrow> (let g' = genExpression H e g6
                               in if isFloatExpr g' e then emit FPOP g' else emit POP g'))
         in defineLabel loop_end (emitJump JMP loop_start g7)))"
| "genStatement H (ReturnStmt expr p) g =
     emit RET (emit POP_BP (case expr of None \<Rightarrow> g | Some e \<Rightarrow> genExpression H e g))"
| "genStatement H (ExprStmt expr p) g =
     (case expr of
        None \<Rightarrow> g
      | Some e \<Rightarrow> (let g1 = genExpression H e g
                  in if isFloatExpr g1 e then emit FPOP g1 else emit POP g1))"
| "genStatement H _ g = g"
| "genFunctionDecl H params body nameOverride g =
     (let g1 = bind_params params (emit PUSH_BP (defineLabel nameOverride g));
          g2 = (case body of None \<Rightarrow> g1 | Some b \<Rightarrow> genStatement H b g1)
      in emit RET (emit POP_BP g2))"
| "genExpression H (Literal v lt p) g = genLiteral H v lt g"
| "genExpression H (Identifier name p) g = genIdentifier name g"
| "genExpression H (MemberAccess obj member arrow p) g = push_const 0 g"
| "genExpression H (ArraySubscript arr ix p) g =
     (case arr of
        Identifier name q \<Rightarrow>
          (case findSymbol g name of
             Some smb \<Rightarrow> emit LOAD_INDIRECT (emit ADD (genExpression H ix (push_base smb g)))
           | None \<Rightarrow> g)
      | _ \<Rightarrow> g)"
| "genExpression H (CallExpr callee args p) g =
     (case callee of
        Identifier name q \<Rightarrow>
          if name \<in> set (class_names g) then push_const 0 g
          else if name = ''print'' then
            push_const 0
              (fold (\<lambda>arg g'. let g1 = genExpression H arg g' in emit_print arg g1) args g)
          else if name = ''println'' then
            (let g1 = fold (\<lambda>arg g'. let g2 = genExpression H arg g'
                                      in if is_string_literal arg then emit PRINT_STR g2
                                         else emit_print arg g2) args g
             in case addString [CHR 0x0A] g1 of (str_id, g3) \<Rightarrow>
                  push_const 0 (emit PRINT_STR (push_const str_id g3)))
          else
            (let g1 = fold (\<lambda>arg g'. genExpression H arg g') args g;
                 g2 = emitJump CALL (mangleFunctionName name (length args)) g1
             in ((\<lambda>g'. emit POP (emit SWAP g')) ^^ length args) g2)
      | _ \<Rightarrow> g)"
| "genExpression H (UnaryOp op operand p) g =
     (if op = ''new'' then
        (case operand of
           ArraySubscript arr ix q \<Rightarrow> emit ALLOC (genExpression H ix g)
         | _ \<Rightarrow> emit ALLOC (push_const 1 g))
      else if op = ''delete'' then push_const 0 (emit FREE (genExpression H operand g))
      else if op = ''&'' then
        (case operand of
           Identifier name q \<Rightarrow>
             (case findSymbol g name of
                Some smb \<Rightarrow> if sym_type smb = VARIABLE then push_const (offset smb) g
                            else push_const 0 g
              | None \<Rightarrow> push_const 0 g)
         | ArraySubscript arr ix q \<Rightarrow>
             (case arr of
                Identifier name q' \<Rightarrow>
                  (case findSymbol g name of
                     Some smb \<Rightarrow> emit ADD (genExpression H ix (push_base smb g))
                   | None \<Rightarrow> push_const 0 g)
              | _ \<Rightarrow> push_const 0 g)
         | _ \<Rightarrow> push_const 0 g)
      else if op = ''*'' then emit LOAD_INDIRECT (genExpression H operand g)
      else
        (let g1 = genExpression H operand g
         in if op = ''-'' then
              (if isFloatExpr g1 operand then emit FNEG g1
               else emit SUB (emit SWAP (push_const 0 g1)))
            else g1))"
| "genExpression H (BinaryOp op left right p) g =
     (if op = ''='' then
        (case left of
           UnaryOp uop operand q \<Rightarrow>
             if uop = ''*'' then
               emit STORE_INDIRECT (genExpression H operand (emit DUP (genExpression H right g)))
             else g
         | ArraySubscript arr ix q \<Rightarrow>
             (let g1 = emit DUP (genExpression H right g)
              in case arr of
                   Identifier name q' \<Rightarrow>
                     (case findSymbol g1 name of
                        Some smb \<Rightarrow>
                          emit STORE_INDIRECT (emit ADD (genExpression H ix (push_base smb g1)))
                      | None \<Rightarrow> g1)
                 | _ \<Rightarrow> g1)
         | Identifier name q \<Rightarrow>
             (let smb = findSymbol g name;
                  g1 = genExpression H right g
              in case smb of
                   None \<Rightarrow> g1
                 | Some s \<Rightarrow>
                     if is_float s then
                       (let g2 = (if \<not> isFloatExpr g1 right then emit INT_TO_FP g1 else g1)
                        in emitInt32 (offset s) (emit FSTORE (emit FDUP g2)))
                     else if sym_type s = PARAMETER then
                       emitInt32 (offset s) (emit STORE_BP (emit DUP g1))
                     else emit STORE (push_const (offset s) (emit DUP g1)))
         | _ \<Rightarrow> g)
      else if op = ''<<'' then
        (let g1 = (if is_cout_chain left
                   then (case left of BinaryOp lop ll lr q \<Rightarrow> genExpression H left g | _ \<Rightarrow> g)
                   else g);
             g2 = (case right of
                     Literal v lt q \<Rightarrow>
                       if lt = STRING then
                         (case addString v g1 of (str_id, g') \<Rightarrow>
                            emit PRINT_STR (emitInt32 str_id (emit PUSH_STR g')))
                       else emit_print right (genExpression H right g1)
                   | _ \<Rightarrow> emit_print right (genExpression H right g1))
         in push_const 0 g2)
      else if op = ''>>'' then
        (let g1 = emit INPUT g;
             g2 = (case right of
                     Identifier name q \<Rightarrow>
                       (case findSymbol g1 name of
                          Some smb \<Rightarrow>
                            if sym_type smb = PARAMETER then emitInt32 (offset smb) (emit STORE_BP g1)
                            else emit STORE (push_const (offset smb) g1)
                        | None \<Rightarrow> g1)
                   | ArraySubscript arr ix q \<Rightarrow>
                       (case arr of
                          Identifier name q' \<Rightarrow>
                            (case findSymbol g1 name of
                               Some smb \<Rightarrow>
                                 emit STORE_INDIRECT
                                   (emit ADD (genExpression H ix (push_base smb g1)))
                             | None \<Rightarrow> g1)
                        | _ \<Rightarrow> g1)
                   | _ \<Rightarrow> g1)
         in push_const 0 g2)
      else
        (let leftIsFloat = isFloatExpr g left;
             rightIsFloat = isFloatExpr g right;
             eitherFloat = (leftIsFloat \<or> rightIsFloat)
         in if eitherFloat \<and> op \<in> set [''+'', ''-'', ''*'', ''/''] then
              (let g1 = genExpression H left g;
                   g2 = (if \<not> leftIsFloat then emit INT_TO_FP g1 else g1);
                   g3 = genExpression H right g2;
                   g4 = (if \<not> rightIsFloat then emit INT_TO_FP g3 else g3)
               in emit (if op = ''+'' then FADD else if op = ''-'' then FSUB
                        else if op = ''*'' then FMUL else FDIV) g4)
            else if eitherFloat \<and> op \<in> set [''<'', ''>'', ''<='', ''>='', ''=='', ''!=''] then
              (let g1 = genExpression H left g;
                   g2 = (if \<not> leftIsFloat then emit INT_TO_FP g1 else g1);
                   g3 = genExpression H right g2;
                   g4 = (if \<not> rightIsFloat then emit INT_TO_FP g3 else g3)
               in if op = ''=='' \<or> op = ''!='' then
                    eq_tail (op = ''!='') ''fcmp'' (emit FP_TO_INT (emit FSUB g4))
                  else
                    cmp_tail (if op = ''<'' then JL else if op = ''>'' then JG
                              else if op = ''<='' then JLE else JGE) ''fcmp'' (emit FCMP g4))
            else
              (let g2 = genExpression H right (genExpression H left g)
               in if op = ''+'' then emit ADD g2
                  else if op = ''-'' then emit SUB g2
                  else if op = ''*'' then emit MUL g2
                  else if op = ''/'' then emit DIV g2
                  else if op = ''%'' then emit MOD g2
                  else if op = ''<'' then cmp_tail JL ''cmp'' (emit CMP g2)
                  else if op = ''>'' then cmp_tail JG ''cmp'' (emit CMP g2)
                  else if op = ''<='' then cmp_tail JLE ''cmp'' (emit CMP g2)
                  else if op = ''>='' then cmp_tail JGE ''cmp'' (emit CMP g2)
                  else if op = ''=='' then eq_tail False ''cmp'' (emit SUB g2)
                  else if op = ''!='' then eq_tail True ''cmp'' (emit SUB g2)
                  else push_const 0 (emit POP (emit POP g2)))))"
| "genExpression H _ g = push_const 0 g"

text \<open>\<^verbatim>\<open>genProgram\<close> and \<^verbatim>\<open>generate\<close>.\<close>

definition collect_class_names :: "Program \<Rightarrow> codegen \<Rightarrow> codegen" where
  "collect_class_names prog g =
     fold (\<lambda>node g'. case node of
                        ClassDecl cname members bases p \<Rightarrow>
                          g'\<lparr>class_names := List.insert cname (class_names g')\<rparr>
                      | StructDecl sname members p \<Rightarrow>
                          g'\<lparr>class_names := List.insert sname (class_names g')\<rparr>
                      | _ \<Rightarrow> g') prog g"

definition genProgram :: "host \<Rightarrow> Program \<Rightarrow> codegen \<Rightarrow> codegen" where
  "genProgram H prog g =
     (let g1 = emit HALT (emitJump CALL ''main'' g);
          g2 = collect_class_names prog g1
      in fold (\<lambda>node g'.
                 case node of
                   ClassDecl cname members bases p \<Rightarrow>
                     fold (\<lambda>m g''. case m of
                                     FunctionDecl returnType fname params body isVirtual isConst q \<Rightarrow>
                                       genFunctionDecl H params body (cname @ ''::'' @ fname) g''
                                   | _ \<Rightarrow> g'') members g'
                 | _ \<Rightarrow> genStatement H node g') prog g2)"

definition generate :: "host \<Rightarrow> Program \<Rightarrow> codegen \<Rightarrow> codegen" where
  "generate H prog g =
     fixupLabels (genProgram H prog
       (g\<lparr>bytecode_cg := [], symbols := [], current_offset := 0, next_memory_addr := 0,
          label_counter := 0\<rparr>))"

subsection \<open>The bytecode file (\<^verbatim>\<open>saveToFile\<close>, \<^verbatim>\<open>loadFromFile\<close>)\<close>

text \<open>
  A file is its list of bytes. A character is written as its code and read back from it.
  The counts are written as \<^verbatim>\<open>uint32_t\<close>: the string count, and each length with as
  many bytes of the string as the truncated length says.
\<close>

definition byte_of_char :: "char \<Rightarrow> byte" where
  "byte_of_char c = of_char c"

definition char_of_byte :: "byte \<Rightarrow> char" where
  "char_of_byte b = char_of (unat b)"

definition write_string :: "string \<Rightarrow> byte list" where
  "write_string s =
     (let len = (word_of_nat (length s) :: 32 word)
      in int32_bytes len @ map byte_of_char (take (unat len) s))"

definition saveToFile :: "codegen \<Rightarrow> byte list" where
  "saveToFile g =
     int32_bytes (word_of_nat (length (string_table_cg g)))
     @ concat (map write_string (string_table_cg g))
     @ int32_bytes (word_of_nat (length (bytecode_cg g)))
     @ bytecode_cg g"

text \<open>A read of four bytes fails when fewer are left.\<close>

definition read_u32 :: "byte list \<Rightarrow> (32 word \<times> byte list) option" where
  "read_u32 f = (if length f < 4 then None
                 else Some (le_word32 (f ! 0) (f ! 1) (f ! 2) (f ! 3), drop 4 f))"

text \<open>
  The loop over the string table of \<^verbatim>\<open>loadFromFile\<close>: the table read so far, and
  the rest of the file or the error message.
\<close>

fun read_strings :: "nat \<Rightarrow> byte list \<Rightarrow> string list \<Rightarrow> string list \<times> (string + byte list)" where
  "read_strings 0 f tbl = (tbl, Inr f)"
| "read_strings (Suc n) f tbl =
     (case read_u32 f of
        None \<Rightarrow> (tbl, Inl ''Failed to read string length'')
      | Some (len, f1) \<Rightarrow>
          if length f1 < unat len then (tbl, Inl ''Failed to read string data'')
          else read_strings n (drop (unat len) f1)
                 (tbl @ [map char_of_byte (take (unat len) f1)]))"

definition loadFromFile :: "byte list \<Rightarrow> vm \<Rightarrow> vm" where
  "loadFromFile f m =
     (case read_u32 f of
        None \<Rightarrow> error ''Failed to read string table size'' m
      | Some (str_count, f1) \<Rightarrow>
          (case read_strings (unat str_count) f1 [] of
             (tbl, Inl msg) \<Rightarrow> error msg (m\<lparr>string_table := tbl\<rparr>)
           | (tbl, Inr f2) \<Rightarrow>
               (let m1 = m\<lparr>string_table := tbl\<rparr>
                in case read_u32 f2 of
                     None \<Rightarrow> error ''Failed to read bytecode size'' m1
                   | Some (code_size, f3) \<Rightarrow>
                       (let n = unat code_size;
                            old = resize n 0 (bytecode m1)
                        in if length f3 < n
                           then error ''Failed to read bytecode''
                                  (m1\<lparr>bytecode := f3 @ drop (length f3) old\<rparr>)
                           else reset (m1\<lparr>bytecode := take n f3\<rparr>)))))"

text \<open>A sequence of \<^verbatim>\<open>addString\<close> calls.\<close>

definition add_strings :: "string list \<Rightarrow> codegen \<Rightarrow> codegen" where
  "add_strings ss g = fold (\<lambda>s g'. snd (addString s g')) ss g"

section \<open>From source text to output\<close>

text \<open>
  Modelled from the spec: the compiler driver is not among the sources. Section 2 of the
  specification gives the data flow: source text, tokens, syntax tree, bytecode in a
  file, execution. \<open>compile\<close> is the first three steps with new objects, and \<open>None\<close> when the
  lexer does not return or the parser reports an error (or runs out of the given number
  of nested calls); \<open>execute\<close> is what \<^verbatim>\<open>vm_main.cpp\<close> does with the file: load it into a new
  machine and run.
\<close>

definition compile :: "host \<Rightarrow> nat \<Rightarrow> string \<Rightarrow> codegen option" where
  "compile H fuel src =
     (case tokenize (new_lexer src []) of
        None \<Rightarrow> None
      | Some (toks, lx) \<Rightarrow>
          (case parseProgram fuel (new_parser toks) of
             Inl e \<Rightarrow> None
           | Inr (prog, s) \<Rightarrow> Some (generate H prog new_codegen)))"

definition execute :: "host \<Rightarrow> byte list \<Rightarrow> vm option" where
  "execute H file = run H (loadFromFile file new_vm)"

definition add_source :: string where
  "add_source =
     ''int add(int a,int b){ return a+b; } int main(){ std::cout<<add(2,3); return 0; }''"

definition print_source :: string where
  "print_source = ''int main(){ print('' @ [CHR 0x22] @ ''hi'' @ [CHR 0x22] @ ''); }''"

text \<open>The syntax tree of \<^verbatim>\<open>int main(){ print("hi"); }\<close>.\<close>

definition print_demo :: Program where
  "print_demo =
     [FunctionDecl [''int''] ''main'' []
        (Some (BlockStmt
           [ExprStmt (Some (CallExpr (Identifier ''print'' (1, 13))
                              [Literal ''hi'' STRING (1, 19)] (1, 18))) (1, 26)] (1, 11)))
        False False (1, 1)]"

text \<open>The tokens, the syntax tree and the code of \<open>add_source\<close>.\<close>

definition add_tokens :: "Token list" where
  "add_tokens =
  [Token TYPE_SPECIFIER ''int'' 1 1, Token IDENTIFIER ''add'' 1 5,
   Token LEFT_PAREN ''('' 1 8, Token TYPE_SPECIFIER ''int'' 1 9,
   Token IDENTIFIER ''a'' 1 13, Token COMMA '','' 1 14,
   Token TYPE_SPECIFIER ''int'' 1 15, Token IDENTIFIER ''b'' 1 19,
   Token RIGHT_PAREN '')'' 1 20, Token LEFT_BRACE ''{'' 1 21,
   Token KEYWORD ''return'' 1 23, Token IDENTIFIER ''a'' 1 30,
   Token OPERATOR ''+'' 1 31, Token IDENTIFIER ''b'' 1 32,
   Token SEMICOLON '';'' 1 33, Token RIGHT_BRACE ''}'' 1 35,
   Token TYPE_SPECIFIER ''int'' 1 37, Token IDENTIFIER ''main'' 1 41,
   Token LEFT_PAREN ''('' 1 45, Token RIGHT_PAREN '')'' 1 46,
   Token LEFT_BRACE ''{'' 1 47, Token IDENTIFIER ''std'' 1 49,
   Token SCOPE_RESOLUTION ''::'' 1 52, Token IDENTIFIER ''cout'' 1 54,
   Token LEFT_SHIFT ''<<'' 1 58, Token IDENTIFIER ''add'' 1 60,
   Token LEFT_PAREN ''('' 1 63, Token NUMBER ''2'' 1 64,
   Token COMMA '','' 1 65, Token NUMBER ''3'' 1 66,
   Token RIGHT_PAREN '')'' 1 67, Token SEMICOLON '';'' 1 68,
   Token KEYWORD ''return'' 1 70, Token NUMBER ''0'' 1 77,
   Token SEMICOLON '';'' 1 78, Token RIGHT_BRACE ''}'' 1 80,
   Token END_OF_FILE [] 1 81]"

definition add_program :: Program where
  "add_program =
     [FunctionDecl [''int''] ''add'' [([''int''], ''a''), ([''int''], ''b'')]
        (Some (BlockStmt
           [ReturnStmt (Some (BinaryOp ''+'' (Identifier ''a'' (1, 30)) (Identifier ''b'' (1, 32))
                                (1, 31))) (1, 23)] (1, 21)))
        False False (1, 1),
      FunctionDecl [''int''] ''main'' []
        (Some (BlockStmt
           [ExprStmt (Some (BinaryOp ''<<'' (Identifier ''std::cout'' (1, 54))
                              (CallExpr (Identifier ''add'' (1, 60))
                                 [Literal ''2'' NUMBER (1, 64), Literal ''3'' NUMBER (1, 66)]
                                 (1, 63)) (1, 58))) (1, 70),
            ReturnStmt (Some (Literal ''0'' NUMBER (1, 77))) (1, 70)] (1, 47)))
        False False (1, 37)]"

definition add_code :: "byte list" where
  "add_code =
     [0x18, 22, 0, 0, 0,  0xFF,
      0x24,  0x22, 0xFD, 0xFF, 0xFF, 0xFF,  0x22, 0xFE, 0xFF, 0xFF, 0xFF,  0x03,  0x25, 0x19,
      0x25, 0x19,
      0x24,  0x01, 2, 0, 0, 0,  0x01, 3, 0, 0, 0,  0x18, 6, 0, 0, 0,  0x09, 0x02, 0x09, 0x02,
      0x0A,  0x01, 0, 0, 0, 0,  0x02,  0x01, 0, 0, 0, 0,  0x25, 0x19,  0x25, 0x19]"

text \<open>The tokens of \<open>print_source\<close>.\<close>

definition print_tokens :: "Token list" where
  "print_tokens =
     [Token TYPE_SPECIFIER ''int'' 1 1, Token IDENTIFIER ''main'' 1 5, Token LEFT_PAREN ''('' 1 9,
      Token RIGHT_PAREN '')'' 1 10, Token LEFT_BRACE ''{'' 1 11, Token IDENTIFIER ''print'' 1 13,
      Token LEFT_PAREN ''('' 1 18, Token STRING ''hi'' 1 19, Token RIGHT_PAREN '')'' 1 23,
      Token SEMICOLON '';'' 1 24, Token RIGHT_BRACE ''}'' 1 26, Token END_OF_FILE [] 1 27]"

section \<open>Facts about single steps\<close>

lemma decode_opcode_byte: "decode_opcode (opcode_byte op) = Some op"
  by (cases op) (simp_all add: decode_opcode_def all_opcodes_def)

lemma step_exec:
  assumes "\<not> halted m" "\<not> error_flag m" "instruction_pointer m < length (bytecode m)"
    and "bytecode m ! instruction_pointer m = opcode_byte op"
  shows "step H m =
    count_instruction (exec_op H op (m\<lparr>instruction_pointer := instruction_pointer m + 1\<rparr>))"
  using assms by (simp add: step_def executeInstruction_def readByte_def decode_opcode_byte)

lemma count_instruction_simps [simp]:
  "stack (count_instruction m) = stack m"
  "error_flag (count_instruction m) = error_flag m"
  "halted (count_instruction m) = halted m"
  "error_message (count_instruction m) = error_message m"
  "instruction_pointer (count_instruction m) = instruction_pointer m"
  "base_pointer (count_instruction m) = base_pointer m"
  "call_stack (count_instruction m) = call_stack m"
  "cmp_flag (count_instruction m) = cmp_flag m"
  "bytecode (count_instruction m) = bytecode m"
  "heap_blocks (count_instruction m) = heap_blocks m"
  "heap (count_instruction m) = heap m"
  "memory (count_instruction m) = memory m"
  "fpu_regs (count_instruction m) = fpu_regs m"
  "fpu_top (count_instruction m) = fpu_top m"
  "float_memory (count_instruction m) = float_memory m"
  "string_table (count_instruction m) = string_table m"
  "cout (count_instruction m) = cout m"
  "cin (count_instruction m) = cin m"
  "instruction_count (count_instruction m) = instruction_count m + 1"
  "max_stack_size (count_instruction m) = max (max_stack_size m) (length (stack m))"
  by (simp_all add: count_instruction_def Let_def)

lemma sint_sgn32: "sint (word_of_int (sgn x) :: int32) = sgn x"
  by (cases "x < 0"; cases "x = 0") (simp_all add: sgn_if)

lemma pop_snoc: "stack m = st @ [v] \<Longrightarrow> pop m = (v, m\<lparr>stack := st\<rparr>)"
  by (simp add: pop_def)

lemma pop_snoc2: "stack m = st @ [a, b] \<Longrightarrow> pop m = (b, m\<lparr>stack := st @ [a]\<rparr>)"
  using pop_snoc [of m "st @ [a]" b] by simp

lemma readInt32_operand:
  assumes "instruction_pointer m = Suc p" "p + 5 \<le> length (bytecode m)"
  shows "readInt32 m = (operand_at (bytecode m) (Suc p), m\<lparr>instruction_pointer := p + 5\<rparr>)"
  using assms by (simp add: readInt32_def read4_def)

lemmas vm_eval =
  step_def executeInstruction_def readByte_def readInt32_def readFloat32_def read4_def
  operand_at_def le_word32_def decode_opcode_def all_opcodes_def count_instruction_def push_def pop_def
  peek_def error_def fpush_def fpop_def fpeek_def to_size_t_def Let_def
  loadBytecode_def reset_def new_vm_def

lemma sint32_of_int:
  "- (2 ^ 31) \<le> k \<Longrightarrow> k < 2 ^ 31 \<Longrightarrow> sint (word_of_int k :: 32 word) = k"
  by (simp add: sint_sbintrunc' signed_take_bit_int_eq_self)

lemma param_offset_of_int: "param_offset n j = word_of_int (- (int n - int j + 1))"
  by (simp add: param_offset_def)

lemma sint_param_offset:
  assumes "j \<le> n" "n < 2 ^ 31 - 1"
  shows "sint (param_offset n j) = - (int n - int j + 1)"
  unfolding param_offset_of_int using assms by (intro sint32_of_int) auto

text \<open>
  C9. \<^verbatim>\<open>DUP\<close> on an empty integer stack raises no underflow: \<^verbatim>\<open>peek\<close> returns 0, the
  machine pushes 0, the error flag stays unset and the machine is not halted, so
  execution continues with the next instruction.
\<close>

theorem dup_empty_stack_no_underflow:
  assumes "\<not> halted m" "\<not> error_flag m" "instruction_pointer m < length (bytecode m)"
    and "bytecode m ! instruction_pointer m = opcode_byte DUP"
    and "stack m = []"
  shows "peek m = 0
    \<and> stack (step H m) = [0]
    \<and> \<not> error_flag (step H m) \<and> \<not> halted (step H m)
    \<and> error_message (step H m) = error_message m
    \<and> instruction_pointer (step H m) = instruction_pointer m + 1"
  using assms by (simp add: step_exec [OF assms(1-4)] peek_def push_def)

theorem dup_empty_stack_no_underflow_witness:
  "\<forall>H. (let m = loadBytecode [0x08, 0xFF] new_vm in
     \<not> halted m \<and> \<not> error_flag m \<and> instruction_pointer m < length (bytecode m)
     \<and> bytecode m ! instruction_pointer m = opcode_byte DUP \<and> stack m = []
     \<and> peek m = 0 \<and> stack (step H m) = [0]
     \<and> \<not> error_flag (step H m) \<and> \<not> halted (step H m)
     \<and> instruction_pointer (step H m) = 1)"
proof
  fix H
  let ?m = "loadBytecode [0x08, 0xFF] new_vm"
  have h: "\<not> halted ?m" "\<not> error_flag ?m" "instruction_pointer ?m < length (bytecode ?m)"
    "bytecode ?m ! instruction_pointer ?m = opcode_byte DUP" "stack ?m = []"
    "instruction_pointer ?m = 0"
    by (simp_all add: loadBytecode_def reset_def new_vm_def)
  from dup_empty_stack_no_underflow [OF h(1-5), of H] h
  show "let m = ?m in
     \<not> halted m \<and> \<not> error_flag m \<and> instruction_pointer m < length (bytecode m)
     \<and> bytecode m ! instruction_pointer m = opcode_byte DUP \<and> stack m = []
     \<and> peek m = 0 \<and> stack (step H m) = [0]
     \<and> \<not> error_flag (step H m) \<and> \<not> halted (step H m)
     \<and> instruction_pointer (step H m) = 1"
    by (simp add: Let_def)
qed

lemma fpu_idx:
  "Suc (Suc t mod 8) mod 8 = Suc (Suc t) mod 8"
  "(7 + Suc (Suc t) mod 8) mod 8 = Suc t mod 8"
  "t < 8 \<Longrightarrow> Suc t mod 8 \<noteq> t"
  "t < 8 \<Longrightarrow> t \<noteq> Suc t mod 8"
  by presburger+

text \<open>
  C10. \<^verbatim>\<open>FDIV\<close> pops the divisor \<open>b\<close> (the register at the top index), then the dividend
  \<open>a\<close>. When \<open>b\<close> equals \<open>0.0\<close> the machine sets the error flag with the message
  \<open>FPU division by zero\<close> and halts, both registers already popped (zeroed, the top index
  advanced twice); otherwise it pushes the quotient \<open>a / b\<close> of the host's FPU. A zero
  divisor never reaches the division, so no infinity is produced.
\<close>

theorem fdiv_zero_divisor_halts:
  assumes "\<not> halted m" "\<not> error_flag m" "instruction_pointer m < length (bytecode m)"
    and "bytecode m ! instruction_pointer m = opcode_byte FDIV"
    and "length (fpu_regs m) = 8" "fpu_top m < 8"
    and "b = fpu_regs m ! fpu_top m"
    and "a = fpu_regs m ! ((fpu_top m + 1) mod 8)"
  shows "fst (fpop m) = b \<and> fst (fpop (snd (fpop m))) = a \<and>
    (float_is_zero b \<longrightarrow>
        error_flag (step H m) \<and> halted (step H m)
      \<and> error_message (step H m) = ''FPU division by zero''
      \<and> fpu_top (step H m) = (fpu_top m + 2) mod 8
      \<and> fpu_regs (step H m) = (fpu_regs m)[fpu_top m := 0, (fpu_top m + 1) mod 8 := 0]) \<and>
    (\<not> float_is_zero b \<longrightarrow>
        \<not> error_flag (step H m) \<and> \<not> halted (step H m)
      \<and> fpu_top (step H m) = (fpu_top m + 1) mod 8
      \<and> fpeek (step H m) = fdiv H a b
      \<and> fpu_regs (step H m) = (fpu_regs m)[fpu_top m := 0, (fpu_top m + 1) mod 8 := fdiv H a b])"
  using assms(1,2,5-8)
  by (simp add: step_exec [OF assms(1-4)] fpop_def fpush_def fpeek_def error_def fpu_idx Let_def)

theorem fdiv_zero_divisor_halts_witness:
  "\<forall>H. (let m2 = step H (step H (loadBytecode fdiv_demo new_vm)); m3 = step H m2;
            z2 = step H (step H (loadBytecode fdiv_zero_demo new_vm)); z3 = step H z2 in
      \<not> halted m2 \<and> \<not> error_flag m2 \<and> instruction_pointer m2 = 10
    \<and> bytecode m2 ! 10 = opcode_byte FDIV \<and> length (fpu_regs m2) = 8 \<and> fpu_top m2 = 6
    \<and> fpu_regs m2 ! 6 = 0x40000000 \<and> fpu_regs m2 ! 7 = 0x40C00000
    \<and> \<not> float_is_zero 0x40000000
    \<and> \<not> error_flag m3 \<and> \<not> halted m3 \<and> fpu_top m3 = 7
    \<and> fpeek m3 = fdiv H 0x40C00000 0x40000000
    \<and> \<not> halted z2 \<and> \<not> error_flag z2 \<and> instruction_pointer z2 = 10
    \<and> bytecode z2 ! 10 = opcode_byte FDIV \<and> length (fpu_regs z2) = 8 \<and> fpu_top z2 = 6
    \<and> fpu_regs z2 ! 6 = 0x80000000 \<and> fpu_regs z2 ! 7 = 0x40C00000
    \<and> float_is_zero 0x80000000
    \<and> error_flag z3 \<and> halted z3 \<and> error_message z3 = ''FPU division by zero''
    \<and> fpu_top z3 = 0 \<and> fpu_regs z3 ! 6 = 0 \<and> fpu_regs z3 ! 7 = 0)"
proof
  fix H
  define m2 where "m2 = step H (step H (loadBytecode fdiv_demo new_vm))"
  define m3 where "m3 = step H m2"
  define z2 where "z2 = step H (step H (loadBytecode fdiv_zero_demo new_vm))"
  define z3 where "z3 = step H z2"
  have h2: "\<not> halted m2" "\<not> error_flag m2" "instruction_pointer m2 = 10"
    "bytecode m2 = fdiv_demo" "fpu_top m2 = 6"
    "fpu_regs m2 = (replicate 8 0)[7 := 0x40C00000, 6 := 0x40000000]"
    by (simp_all add: m2_def fdiv_demo_def vm_eval)
  have c2: "bytecode m2 ! instruction_pointer m2 = opcode_byte FDIV"
    "instruction_pointer m2 < length (bytecode m2)"
    "length (fpu_regs m2) = 8" "fpu_top m2 < 8"
    "0x40000000 = fpu_regs m2 ! fpu_top m2" "0x40C00000 = fpu_regs m2 ! ((fpu_top m2 + 1) mod 8)"
    by (simp_all add: h2 fdiv_demo_def)
  have nz: "\<not> float_is_zero 0x40000000" "float_is_zero 0x80000000"
    by (simp_all add: float_is_zero_def)
  note t2 = fdiv_zero_divisor_halts [OF h2(1,2) c2(2,1,3,4,5,6), of H, folded m3_def]
  have r3: "\<not> error_flag m3" "\<not> halted m3" "fpu_top m3 = 7"
    "fpeek m3 = fdiv H 0x40C00000 0x40000000"
    using t2 nz by (simp_all add: h2)
  have k2: "\<not> halted z2" "\<not> error_flag z2" "instruction_pointer z2 = 10"
    "bytecode z2 = fdiv_zero_demo" "fpu_top z2 = 6"
    "fpu_regs z2 = (replicate 8 0)[7 := 0x40C00000, 6 := 0x80000000]"
    by (simp_all add: z2_def fdiv_zero_demo_def vm_eval)
  have d2: "bytecode z2 ! instruction_pointer z2 = opcode_byte FDIV"
    "instruction_pointer z2 < length (bytecode z2)"
    "length (fpu_regs z2) = 8" "fpu_top z2 < 8"
    "0x80000000 = fpu_regs z2 ! fpu_top z2" "0x40C00000 = fpu_regs z2 ! ((fpu_top z2 + 1) mod 8)"
    by (simp_all add: k2 fdiv_zero_demo_def)
  note u2 = fdiv_zero_divisor_halts [OF k2(1,2) d2(2,1,3,4,5,6), of H, folded z3_def]
  have q3: "error_flag z3 \<and> halted z3
      \<and> error_message z3 = ''FPU division by zero''
      \<and> fpu_top z3 = (fpu_top z2 + 2) mod 8
      \<and> fpu_regs z3 = (fpu_regs z2)[fpu_top z2 := 0, (fpu_top z2 + 1) mod 8 := 0]"
    using u2 nz(2) by blast
  have g: "fpu_top z3 = 0" "fpu_regs z3 ! 6 = 0" "fpu_regs z3 ! 7 = 0"
    by (simp_all add: q3 k2(5,6))
  show "let m2 = step H (step H (loadBytecode fdiv_demo new_vm)); m3 = step H m2;
            z2 = step H (step H (loadBytecode fdiv_zero_demo new_vm)); z3 = step H z2 in
      \<not> halted m2 \<and> \<not> error_flag m2 \<and> instruction_pointer m2 = 10
    \<and> bytecode m2 ! 10 = opcode_byte FDIV \<and> length (fpu_regs m2) = 8 \<and> fpu_top m2 = 6
    \<and> fpu_regs m2 ! 6 = 0x40000000 \<and> fpu_regs m2 ! 7 = 0x40C00000
    \<and> \<not> float_is_zero 0x40000000
    \<and> \<not> error_flag m3 \<and> \<not> halted m3 \<and> fpu_top m3 = 7
    \<and> fpeek m3 = fdiv H 0x40C00000 0x40000000
    \<and> \<not> halted z2 \<and> \<not> error_flag z2 \<and> instruction_pointer z2 = 10
    \<and> bytecode z2 ! 10 = opcode_byte FDIV \<and> length (fpu_regs z2) = 8 \<and> fpu_top z2 = 6
    \<and> fpu_regs z2 ! 6 = 0x80000000 \<and> fpu_regs z2 ! 7 = 0x40C00000
    \<and> float_is_zero 0x80000000
    \<and> error_flag z3 \<and> halted z3 \<and> error_message z3 = ''FPU division by zero''
    \<and> fpu_top z3 = 0 \<and> fpu_regs z3 ! 6 = 0 \<and> fpu_regs z3 ! 7 = 0"
    unfolding Let_def m2_def [symmetric] m3_def [symmetric] z2_def [symmetric] z3_def [symmetric]
    using h2 nz r3 k2 q3 g by (simp add: fdiv_demo_def fdiv_zero_demo_def)
qed

text \<open>
  C5. \<^verbatim>\<open>CMP\<close> pops \<open>b\<close>, then \<open>a\<close>, and sets the comparison flag to the sign of \<open>a - b\<close>
  (\<open>-1\<close>, \<open>0\<close> or \<open>1\<close>); it only advances past its own byte. \<^verbatim>\<open>JL\<close>, \<^verbatim>\<open>JG\<close>,
  \<^verbatim>\<open>JLE\<close> and \<^verbatim>\<open>JGE\<close> go to the address in their operand exactly when the flag is
  negative, positive, non-positive or non-negative, and to the next instruction
  otherwise; they leave the stack and the flag as they are.
\<close>

theorem cmp_sets_flag_jumps_read_it:
  assumes "\<not> halted m" "\<not> error_flag m"
    and "instruction_pointer m < length (bytecode m)"
    and "ip = instruction_pointer m" "code = bytecode m"
  shows "(code ! ip = opcode_byte CMP \<and> stack m = st @ [a, b] \<longrightarrow>
            cmp_flag (step H m) = word_of_int (sgn (sint a - sint b))
          \<and> sint (cmp_flag (step H m)) \<in> {- 1, 0, 1}
          \<and> stack (step H m) = st
          \<and> instruction_pointer (step H m) = ip + 1
          \<and> \<not> error_flag (step H m) \<and> \<not> halted (step H m))
       \<and> (\<forall>op. op \<in> {JL, JG, JLE, JGE} \<and> code ! ip = opcode_byte op
              \<and> ip + 5 \<le> length code \<longrightarrow>
            instruction_pointer (step H m) =
              (if op = JL \<and> sint (cmp_flag m) < 0 \<or> op = JG \<and> 0 < sint (cmp_flag m)
                  \<or> op = JLE \<and> sint (cmp_flag m) \<le> 0 \<or> op = JGE \<and> 0 \<le> sint (cmp_flag m)
               then to_size_t (operand_at code (ip + 1)) else ip + 5)
          \<and> stack (step H m) = stack m
          \<and> cmp_flag (step H m) = cmp_flag m
          \<and> \<not> error_flag (step H m) \<and> \<not> halted (step H m))"
proof (intro conjI impI allI)
  assume c: "code ! ip = opcode_byte CMP \<and> stack m = st @ [a, b]"
  then have s: "step H m = count_instruction
      (exec_op H CMP (m\<lparr>instruction_pointer := instruction_pointer m + 1\<rparr>))"
    using assms by (intro step_exec) simp_all
  have f: "cmp_result (sint a < sint b) (sint b < sint a) = word_of_int (sgn (sint a - sint b))"
    by (simp add: cmp_result_def sgn_if)
  have p: "pop (m\<lparr>instruction_pointer := instruction_pointer m + 1\<rparr>) =
      (b, m\<lparr>instruction_pointer := instruction_pointer m + 1, stack := st @ [a]\<rparr>)"
    using c by (simp add: pop_snoc2)
  show "cmp_flag (step H m) = word_of_int (sgn (sint a - sint b))"
    using c assms by (simp add: s p pop_snoc f)
  then show "sint (cmp_flag (step H m)) \<in> {- 1, 0, 1}"
    by (simp add: sint_sgn32 sgn_if)
  show "stack (step H m) = st" using c by (simp add: s p pop_snoc)
  show "instruction_pointer (step H m) = ip + 1" using c assms by (simp add: s p pop_snoc)
  show "\<not> error_flag (step H m)" using c assms by (simp add: s p pop_snoc)
  show "\<not> halted (step H m)" using c assms by (simp add: s p pop_snoc)
next
  fix op
  assume j: "op \<in> {JL, JG, JLE, JGE} \<and> code ! ip = opcode_byte op \<and> ip + 5 \<le> length code"
  then have s: "step H m = count_instruction
      (exec_op H op (m\<lparr>instruction_pointer := instruction_pointer m + 1\<rparr>))"
    using assms by (intro step_exec) simp_all
  have r: "readInt32 (m\<lparr>instruction_pointer := Suc (instruction_pointer m)\<rparr>) =
      (operand_at code (Suc ip), m\<lparr>instruction_pointer := ip + 5\<rparr>)"
    using j assms by (simp add: readInt32_operand [where p = ip])
  show "instruction_pointer (step H m) =
              (if op = JL \<and> sint (cmp_flag m) < 0 \<or> op = JG \<and> 0 < sint (cmp_flag m)
                  \<or> op = JLE \<and> sint (cmp_flag m) \<le> 0 \<or> op = JGE \<and> 0 \<le> sint (cmp_flag m)
               then to_size_t (operand_at code (ip + 1)) else ip + 5)"
    using j by (auto simp: s r)
  show "stack (step H m) = stack m" using j by (auto simp: s r)
  show "cmp_flag (step H m) = cmp_flag m" using j by (auto simp: s r)
  show "\<not> error_flag (step H m)" using j assms by (auto simp: s r split: if_splits)
  show "\<not> halted (step H m)" using j assms by (auto simp: s r split: if_splits)
qed


theorem cmp_sets_flag_jumps_read_it_witness:
  "\<forall>H. (let m2 = step H (step H (loadBytecode cmp_demo new_vm)); m3 = step H m2; m4 = step H m3 in
      \<not> halted m2 \<and> \<not> error_flag m2 \<and> instruction_pointer m2 = 10
    \<and> bytecode m2 ! 10 = opcode_byte CMP \<and> stack m2 = [] @ [2, 3]
    \<and> cmp_flag m3 = - 1 \<and> stack m3 = [] \<and> instruction_pointer m3 = 11
    \<and> \<not> halted m3 \<and> \<not> error_flag m3
    \<and> bytecode m3 ! 11 = opcode_byte JL \<and> 11 + 5 \<le> length (bytecode m3)
    \<and> instruction_pointer m4 = 32 \<and> stack m4 = [] \<and> cmp_flag m4 = - 1)"
proof
  fix H
  define m2 where "m2 = step H (step H (loadBytecode cmp_demo new_vm))"
  define m3 where "m3 = step H m2"
  define m4 where "m4 = step H m3"
  have h2: "\<not> halted m2" "\<not> error_flag m2" "instruction_pointer m2 = 10"
    "bytecode m2 = cmp_demo" "stack m2 = [] @ [2, 3]"
    by (simp_all add: m2_def cmp_demo_def vm_eval)
  have c2: "bytecode m2 ! 10 = opcode_byte CMP" "10 < length (bytecode m2)"
    by (simp_all add: h2 cmp_demo_def)
  note t2 = cmp_sets_flag_jumps_read_it [OF h2(1,2), of 10 cmp_demo "[]" 2 3 H,
      unfolded h2(3,4), OF c2(2)[unfolded h2(4)] refl refl, THEN conjunct1, rule_format,
      folded m3_def]
  have r3: "cmp_flag m3 = - 1" "stack m3 = []" "instruction_pointer m3 = 11"
    "\<not> error_flag m3" "\<not> halted m3"
    using t2 c2 h2 by simp_all
  have b3: "bytecode m3 = cmp_demo"
    by (simp add: m3_def m2_def cmp_demo_def vm_eval)
  have c3: "bytecode m3 ! 11 = opcode_byte JL" "11 + 5 \<le> length (bytecode m3)"
    "11 < length (bytecode m3)"
    by (simp_all add: b3 cmp_demo_def)
  note t3 = cmp_sets_flag_jumps_read_it [OF r3(5,4), of 11 cmp_demo _ _ _ H,
      unfolded r3(3) b3, OF c3(3)[unfolded b3] refl refl, THEN conjunct2, rule_format,
      of JL, folded m4_def]
  have r4: "instruction_pointer m4 = 32" "stack m4 = []" "cmp_flag m4 = - 1"
    using t3 c3 r3 by (simp_all add: b3 cmp_demo_def operand_at_def le_word32_def to_size_t_def)
  show "let m2 = step H (step H (loadBytecode cmp_demo new_vm)); m3 = step H m2; m4 = step H m3 in
      \<not> halted m2 \<and> \<not> error_flag m2 \<and> instruction_pointer m2 = 10
    \<and> bytecode m2 ! 10 = opcode_byte CMP \<and> stack m2 = [] @ [2, 3]
    \<and> cmp_flag m3 = - 1 \<and> stack m3 = [] \<and> instruction_pointer m3 = 11
    \<and> \<not> halted m3 \<and> \<not> error_flag m3
    \<and> bytecode m3 ! 11 = opcode_byte JL \<and> 11 + 5 \<le> length (bytecode m3)
    \<and> instruction_pointer m4 = 32 \<and> stack m4 = [] \<and> cmp_flag m4 = - 1"
    unfolding Let_def m2_def [symmetric] m3_def [symmetric] m4_def [symmetric]
    using h2 c2 r3 c3 r4 by simp
qed

text \<open>
  C1, as the specification states it, fails: with one parameter (\<open>n = 1\<close>, \<open>i = 1\<close>,
  \<open>v\<^sub>1 = 7\<close>) the offset \<open>-(n - i + 1) = -1\<close> addresses the saved base pointer, and
  \<^verbatim>\<open>LOAD_BP -1\<close> pushes 0, not 7.
\<close>

theorem load_bp_claimed_offset_counterexample:
  "\<not> (\<forall>H. last (stack (step H (step H (step H (step H (loadBytecode param_demo new_vm)))))) = 7)"
proof
  assume a: "\<forall>H. last (stack (step H (step H (step H (step H (loadBytecode param_demo new_vm)))))) = 7"
  have "last (stack (step H (step H (step H (step H (loadBytecode param_demo new_vm)))))) = 0" for H
    by (simp add: param_demo_def vm_eval)
  with a show False by simp
qed

text \<open>
  C1, amended. Counting parameters from 1, parameter \<open>i\<close> of \<open>n\<close> lies at offset
  \<open>-(n - i + 2)\<close>: the code's \<^verbatim>\<open>-(param_count - i + 1)\<close> with its index counted from 0.
  With the arguments \<open>v\<^sub>1 .. v\<^sub>n\<close> on the stack, after \<^verbatim>\<open>CALL\<close> and the callee's
  \<^verbatim>\<open>PUSH_BP\<close>, \<^verbatim>\<open>LOAD_BP\<close> with that offset pushes \<open>v\<^sub>i\<close>.
\<close>

theorem load_bp_reads_parameter:
  assumes "\<not> halted m" "\<not> error_flag m"
    and "bytecode m = code" "instruction_pointer m = p"
    and "p + 5 \<le> length code" "code ! p = opcode_byte CALL"
    and "to_size_t (operand_at code (Suc p)) = f"
    and "f + 6 \<le> length code" "code ! f = opcode_byte PUSH_BP"
    and "code ! Suc f = opcode_byte LOAD_BP"
    and "operand_at code (Suc (Suc f)) = off"
    and "stack m = S @ vs" "n = length vs" "n < 2 ^ 31 - 1"
    and "1 \<le> i" "i \<le> n"
    and "off = param_offset n (i - 1)"
  shows "sint off = - int (n - i + 2)
    \<and> stack (step H (step H (step H m))) = S @ vs @ [word_of_nat (base_pointer m), vs ! (i - 1)]
    \<and> base_pointer (step H (step H (step H m))) = length S + n + 1
    \<and> \<not> error_flag (step H (step H (step H m)))"
proof -
  define m1 where "m1 = step H m"
  define m2 where "m2 = step H m1"
  have so: "sint off = - (int n - int (i - 1) + 1)"
    using assms by (simp add: sint_param_offset)
  have s1: "m1 = count_instruction
      (exec_op H CALL (m\<lparr>instruction_pointer := instruction_pointer m + 1\<rparr>))"
    unfolding m1_def using assms by (intro step_exec) simp_all
  have r1: "readInt32 (m\<lparr>instruction_pointer := Suc p\<rparr>) =
      (operand_at code (Suc p), m\<lparr>instruction_pointer := p + 5\<rparr>)"
    using assms by (simp add: readInt32_operand [where p = p])
  have f1: "\<not> halted m1" "\<not> error_flag m1" "bytecode m1 = code" "instruction_pointer m1 = f"
    "stack m1 = S @ vs" "base_pointer m1 = base_pointer m"
    using assms by (simp_all add: s1 r1)
  have s2: "m2 = count_instruction
      (exec_op H PUSH_BP (m1\<lparr>instruction_pointer := instruction_pointer m1 + 1\<rparr>))"
    unfolding m2_def using assms f1 by (intro step_exec) simp_all
  have f2: "\<not> halted m2" "\<not> error_flag m2" "bytecode m2 = code" "instruction_pointer m2 = f + 1"
    "stack m2 = S @ vs @ [word_of_nat (base_pointer m)]" "base_pointer m2 = length S + n + 1"
    using assms f1 by (simp_all add: s2 push_def Let_def)
  have s3: "step H m2 = count_instruction
      (exec_op H LOAD_BP (m2\<lparr>instruction_pointer := instruction_pointer m2 + 1\<rparr>))"
    using assms f2 by (intro step_exec) simp_all
  have r3: "readInt32 (m2\<lparr>instruction_pointer := Suc (Suc f)\<rparr>) =
      (off, m2\<lparr>instruction_pointer := f + 6\<rparr>)"
    using assms f2 readInt32_operand [of "m2\<lparr>instruction_pointer := Suc (Suc f)\<rparr>" "Suc f"]
    by simp
  define k where "k = length S + (i - 1)"
  have idx: "nat (int (base_pointer m2) + sint off) = k"
    "\<not> (int (base_pointer m2) + sint off < 0
        \<or> int (length (stack m2)) \<le> int (base_pointer m2) + sint off)"
    using assms so f2 by (auto simp: k_def)
  have "i - 1 < length vs" using assms by auto
  then have nk: "stack m2 ! k = vs ! (i - 1)"
    unfolding k_def f2(5) nth_append_length_plus by (simp add: nth_append)
  have e3: "exec_op H LOAD_BP (m2\<lparr>instruction_pointer := instruction_pointer m2 + 1\<rparr>) =
      push (stack m2 ! k) (m2\<lparr>instruction_pointer := f + 6\<rparr>)"
    using idx f2(4) by (simp add: r3 Let_def)
  note s3' = s3 [unfolded e3]
  have "stack (step H m2) = stack m2 @ [vs ! (i - 1)]"
    by (simp add: s3' nk push_def)
  then have "stack (step H m2) = S @ vs @ [word_of_nat (base_pointer m), vs ! (i - 1)]"
    by (simp add: f2(5))
  moreover have "base_pointer (step H m2) = length S + n + 1" "\<not> error_flag (step H m2)"
    using f2 by (simp_all add: s3' push_def)
  moreover have "sint off = - int (n - i + 2)" using so assms by auto
  ultimately show ?thesis by (simp add: m2_def m1_def)
qed


theorem load_bp_reads_parameter_witness:
  "\<forall>H. (let m = step H (loadBytecode param_demo2 new_vm) in
      \<not> halted m \<and> \<not> error_flag m \<and> instruction_pointer m = 5
    \<and> 5 + 5 \<le> length param_demo2 \<and> param_demo2 ! 5 = opcode_byte CALL
    \<and> to_size_t (operand_at param_demo2 6) = 11 \<and> 11 + 6 \<le> length param_demo2
    \<and> param_demo2 ! 11 = opcode_byte PUSH_BP \<and> param_demo2 ! 12 = opcode_byte LOAD_BP
    \<and> operand_at param_demo2 13 = param_offset 1 0 \<and> stack m = [] @ [7]
    \<and> sint (param_offset 1 0) = - 2
    \<and> stack (step H (step H (step H m))) = [7, 0, 7]
    \<and> \<not> error_flag (step H (step H (step H m))))"
proof
  fix H
  define m where "m = step H (loadBytecode param_demo2 new_vm)"
  have h: "\<not> halted m" "\<not> error_flag m" "bytecode m = param_demo2" "instruction_pointer m = 5"
    "stack m = [] @ [7]" "base_pointer m = 0"
    by (simp_all add: m_def param_demo2_def vm_eval)
  have c: "5 + 5 \<le> length param_demo2" "param_demo2 ! 5 = opcode_byte CALL"
    "to_size_t (operand_at param_demo2 (Suc 5)) = 11" "11 + 6 \<le> length param_demo2"
    "param_demo2 ! 11 = opcode_byte PUSH_BP" "param_demo2 ! Suc 11 = opcode_byte LOAD_BP"
    "operand_at param_demo2 (Suc (Suc 11)) = param_offset 1 0"
    by (simp_all add: param_demo2_def operand_at_def le_word32_def to_size_t_def param_offset_def)
  have n: "(1::nat) = length [7::int32]" "(1::nat) < 2 ^ 31 - 1" "(1::nat) \<le> 1"
    "param_offset 1 0 = param_offset 1 (1 - 1)"
    by simp_all
  note t = load_bp_reads_parameter [OF h(1-4) c(1-7) h(5) n(1,2,3,3,4), of H]
  have e: "Suc 5 = 6" "Suc 11 = 12" "Suc (Suc 11) = 13" by simp_all
  show "let m = step H (loadBytecode param_demo2 new_vm) in
      \<not> halted m \<and> \<not> error_flag m \<and> instruction_pointer m = 5
    \<and> 5 + 5 \<le> length param_demo2 \<and> param_demo2 ! 5 = opcode_byte CALL
    \<and> to_size_t (operand_at param_demo2 6) = 11 \<and> 11 + 6 \<le> length param_demo2
    \<and> param_demo2 ! 11 = opcode_byte PUSH_BP \<and> param_demo2 ! 12 = opcode_byte LOAD_BP
    \<and> operand_at param_demo2 13 = param_offset 1 0 \<and> stack m = [] @ [7]
    \<and> sint (param_offset 1 0) = - 2
    \<and> stack (step H (step H (step H m))) = [7, 0, 7]
    \<and> \<not> error_flag (step H (step H (step H m)))"
    unfolding Let_def m_def [symmetric]
    using h c [unfolded e] t by simp
qed


section \<open>The heap\<close>

lemma contiguous_append:
  "contiguous_from p (bs @ [b]) =
     (contiguous_from p bs \<and> start b = blocks_end p bs \<and> 0 < bsize b)"
  by (induction bs arbitrary: p) simp_all

lemma contiguous_last:
  "contiguous_from p bs \<Longrightarrow> bs \<noteq> [] \<Longrightarrow> start (last bs) + bsize (last bs) = blocks_end p bs"
  by (induction bs arbitrary: p) auto

lemma find_fit_none: "\<forall>b\<in>set bs. allocated b \<Longrightarrow> find_fit n bs = None"
  by (induction bs) auto

lemma contiguous_update_flag:
  "contiguous_from p (bs[i := (bs ! i)\<lparr>allocated := x\<rparr>]) = contiguous_from p bs"
proof (induction bs arbitrary: p i)
  case Nil
  show ?case by simp
next
  case (Cons b bs)
  show ?case
  proof (cases i)
    case 0
    then show ?thesis by simp
  next
    case (Suc k)
    then show ?thesis using Cons.IH [of "p + bsize b" k] by simp
  qed
qed

lemma heap_blocks_push [simp]: "heap_blocks (push v m) = heap_blocks m"
  by (simp add: push_def)

lemma heap_blocks_error [simp]: "heap_blocks (error msg m) = heap_blocks m"
  by (simp add: error_def)

lemma pop_push: "pop (push v m) = (v, m)"
  by (simp add: pop_def push_def)

lemma contiguous_lower:
  "contiguous_from q bs \<Longrightarrow> j < length bs \<Longrightarrow> q \<le> start (bs ! j)"
proof (induction bs arbitrary: q j)
  case Nil
  then show ?case by simp
next
  case (Cons b bs)
  show ?case
  proof (cases j)
    case 0
    with Cons.prems show ?thesis by simp
  next
    case (Suc j')
    with Cons.prems have "q + bsize b \<le> start (bs ! j')"
      by (intro Cons.IH) auto
    with Suc show ?thesis by simp
  qed
qed

lemma contiguous_ordered:
  "contiguous_from p bs \<Longrightarrow> i < j \<Longrightarrow> j < length bs \<Longrightarrow>
     start (bs ! i) + bsize (bs ! i) \<le> start (bs ! j)"
proof (induction bs arbitrary: p i j)
  case Nil
  then show ?case by simp
next
  case (Cons b bs)
  from Cons.prems obtain j' where j: "j = Suc j'" by (cases j) auto
  show ?case
  proof (cases i)
    case 0
    from Cons.prems j have "p + bsize b \<le> start (bs ! j')"
      by (intro contiguous_lower) auto
    with 0 j Cons.prems show ?thesis by simp
  next
    case (Suc i')
    with Cons.prems j have "start (bs ! i') + bsize (bs ! i') \<le> start (bs ! j')"
      by (intro Cons.IH [of "p + bsize b"]) auto
    with Suc j show ?thesis by simp
  qed
qed

lemma blocks_end_ge: "p \<le> blocks_end p bs"
proof (induction bs arbitrary: p)
  case Nil
  show ?case by simp
next
  case (Cons b bs)
  from Cons [of "p + bsize b"] show ?case by simp
qed

lemma contiguous_cells:
  "contiguous_from p bs \<Longrightarrow> (\<Union>b\<in>set bs. block_cells b) = {p ..< blocks_end p bs}"
proof (induction bs arbitrary: p)
  case Nil
  then show ?case by simp
next
  case (Cons b bs)
  then have "(\<Union>x\<in>set bs. block_cells x) = {p + bsize b ..< blocks_end (p + bsize b) bs}"
    by simp
  moreover have "p + bsize b \<le> blocks_end (p + bsize b) bs"
    by (rule blocks_end_ge)
  ultimately show ?case using Cons.prems
    by (auto simp: block_cells_def)
qed

lemma max_end_contiguous:
  "contiguous_from p bs \<Longrightarrow> max_end bs = (if bs = [] then 0 else blocks_end p bs)"
proof (induction bs arbitrary: p)
  case Nil
  then show ?case by (simp add: max_end_def)
next
  case (Cons b bs)
  then have "max_end bs = (if bs = [] then 0 else blocks_end (p + bsize b) bs)"
    by simp
  moreover have "max_end (b # bs) = max (start b + bsize b) (max_end bs)"
    by (simp add: max_end_def)
  moreover have "p + bsize b \<le> blocks_end (p + bsize b) bs"
    by (rule blocks_end_ge)
  ultimately show ?case using Cons.prems
    by (auto simp: max_def)
qed

lemma contiguous_partition:
  assumes "contiguous_from 0 bs"
  shows "heap_partition bs \<and> single_owner bs"
proof -
  have m: "max_end bs = blocks_end 0 bs"
    using max_end_contiguous [OF assms] by (cases bs) auto
  have d: "block_cells (bs ! i) \<inter> block_cells (bs ! j) = {}"
    if "i < length bs" "j < length bs" "i \<noteq> j" for i j
  proof (cases "i < j")
    case True
    from contiguous_ordered [OF assms True that(2)] show ?thesis
      by (auto simp: block_cells_def)
  next
    case False
    with that have "j < i" by simp
    from contiguous_ordered [OF assms this that(1)] show ?thesis
      by (auto simp: block_cells_def)
  qed
  have "heap_partition bs"
    unfolding heap_partition_def using contiguous_cells [OF assms] m d by simp
  moreover have "single_owner bs"
    unfolding single_owner_def
  proof (intro allI impI)
    fix c i j
    assume "c < max_end bs" "i < length bs" "j < length bs"
      and a: "allocated (bs ! i) \<and> c \<in> block_cells (bs ! i) \<and>
        allocated (bs ! j) \<and> c \<in> block_cells (bs ! j)"
    show "i = j"
    proof (rule ccontr)
      assume "i \<noteq> j"
      with d [of i j] \<open>i < length bs\<close> \<open>j < length bs\<close>
      have "block_cells (bs ! i) \<inter> block_cells (bs ! j) = {}" by simp
      with a show False by blast
    qed
  qed
  ultimately show ?thesis ..
qed

lemma op_alloc_inv:
  assumes "all_allocated m" "0 < sint s"
  shows "all_allocated (op_alloc H s m)"
proof (cases "halted m \<or> error_flag m")
  case True
  with assms show ?thesis by (simp add: op_alloc_def)
next
  case False
  let ?bs = "heap_blocks m"
  have f: "find_fit (nat (sint s)) ?bs = None"
    using assms by (intro find_fit_none) (simp add: all_allocated_def)
  have e: "(if ?bs = [] then 0 else start (last ?bs) + bsize (last ?bs)) = blocks_end 0 ?bs"
    using assms contiguous_last [of 0 ?bs] by (auto simp: all_allocated_def)
  have "heap_blocks (op_alloc H s m) =
      ?bs @ [\<lparr>start = blocks_end 0 ?bs, bsize = nat (sint s), allocated = True\<rparr>]"
    using False assms(2) e
    by (simp add: op_alloc_def pop_push allocateHeap_def f Let_def)
  with assms show ?thesis
    by (simp add: all_allocated_def contiguous_append)
qed

lemma op_free_inv:
  assumes "contiguous_from 0 (heap_blocks m)"
  shows "contiguous_from 0 (heap_blocks (op_free H a m))"
proof (cases "halted m \<or> error_flag m")
  case True
  with assms show ?thesis by (simp add: op_free_def)
next
  case False
  then have o: "op_free H a m = (if sint a < 0 then error ''Invalid address for free'' m
      else freeHeap a m)"
    by (simp add: op_free_def pop_push)
  have "contiguous_from 0 (heap_blocks (freeHeap a m))"
  proof (cases "find_allocated (nat (sint a) - heap_start_addr m) (heap_blocks m)")
    case None
    with assms show ?thesis by (simp add: freeHeap_def Let_def)
  next
    case (Some i)
    with assms show ?thesis by (simp add: freeHeap_def Let_def contiguous_update_flag)
  qed
  with assms show ?thesis by (simp add: o)
qed

lemma fold_alloc_inv:
  "all_allocated m \<Longrightarrow> \<forall>s\<in>set sizes. 0 < sint s \<Longrightarrow> all_allocated (fold (op_alloc H) sizes m)"
  by (induction sizes arbitrary: m) (simp_all add: op_alloc_inv)

lemma fold_free_inv:
  "contiguous_from 0 (heap_blocks m) \<Longrightarrow> contiguous_from 0 (heap_blocks (fold (op_free H) addrs m))"
  by (induction addrs arbitrary: m) (simp_all add: op_free_inv)

text \<open>
  C3. Starting from a new machine, after any sequence of \<^verbatim>\<open>ALLOC\<close> operations with
  positive sizes followed by \<^verbatim>\<open>FREE\<close> of any of the returned addresses (the values
  the allocations left on the stack), the block list partitions \<open>[0, max_end)\<close>: the
  blocks cover the range, no two of them overlap, and every cell lies in at most one
  allocated block.
\<close>

theorem heap_blocks_partition:
  assumes "\<forall>s\<in>set sizes. 0 < sint s"
    and "allocd = fold (op_alloc H) sizes new_vm"
    and "set addrs \<subseteq> set (stack allocd)"
    and "final = fold (op_free H) addrs allocd"
  shows "heap_partition (heap_blocks final) \<and> single_owner (heap_blocks final)"
proof -
  have "all_allocated new_vm"
    by (simp add: all_allocated_def new_vm_def)
  then have "all_allocated allocd"
    unfolding assms(2) using assms(1) by (rule fold_alloc_inv)
  then have "contiguous_from 0 (heap_blocks final)"
    unfolding assms(4) by (intro fold_free_inv) (simp add: all_allocated_def)
  then show ?thesis by (rule contiguous_partition)
qed


theorem heap_blocks_partition_witness:
  "\<forall>H. (let allocd = fold (op_alloc H) [3, 2] new_vm; final = fold (op_free H) [10000] allocd in
      0 < sint (3 :: int32) \<and> 0 < sint (2 :: int32)
    \<and> stack allocd = [10000, 10003] \<and> set [10000] \<subseteq> set (stack allocd)
    \<and> heap_blocks final = [\<lparr>start = 0, bsize = 3, allocated = False\<rparr>,
                            \<lparr>start = 3, bsize = 2, allocated = True\<rparr>]
    \<and> heap_partition (heap_blocks final) \<and> single_owner (heap_blocks final))"
proof
  fix H
  define allocd where "allocd = fold (op_alloc H) [3, 2] new_vm"
  define final where "final = fold (op_free H) [10000] allocd"
  have a: "stack allocd = [10000, 10003]"
    "heap_blocks allocd = [\<lparr>start = 0, bsize = 3, allocated = True\<rparr>,
                           \<lparr>start = 3, bsize = 2, allocated = True\<rparr>]"
    "\<not> halted allocd" "\<not> error_flag allocd" "heap_start_addr allocd = 10000"
    by (simp_all add: allocd_def op_alloc_def new_vm_def push_def pop_def allocateHeap_def
        Let_def error_def)
  have f: "heap_blocks final = [\<lparr>start = 0, bsize = 3, allocated = False\<rparr>,
                                \<lparr>start = 3, bsize = 2, allocated = True\<rparr>]"
    by (simp add: final_def op_free_def pop_push freeHeap_def isHeapAddress_def a Let_def)
  have h: "\<forall>s\<in>set [3, 2 :: int32]. 0 < sint s" "set [10000] \<subseteq> set (stack allocd)"
    by (simp_all add: a)
  note t = heap_blocks_partition [OF h(1) allocd_def h(2) final_def]
  show "let allocd = fold (op_alloc H) [3, 2] new_vm; final = fold (op_free H) [10000] allocd in
      0 < sint (3 :: int32) \<and> 0 < sint (2 :: int32)
    \<and> stack allocd = [10000, 10003] \<and> set [10000] \<subseteq> set (stack allocd)
    \<and> heap_blocks final = [\<lparr>start = 0, bsize = 3, allocated = False\<rparr>,
                            \<lparr>start = 3, bsize = 2, allocated = True\<rparr>]
    \<and> heap_partition (heap_blocks final) \<and> single_owner (heap_blocks final)"
    unfolding Let_def allocd_def [symmetric] final_def [symmetric]
    using a(1) f h(2) t by simp
qed

section \<open>Reset\<close>

lemma run_step: "run H (step H m) = run H m"
proof (cases "halted m \<or> error_flag m")
  case True
  then have "step H m = m" by (simp add: step_def)
  then show ?thesis by simp
next
  case False
  then show ?thesis by (subst (2) run.simps) simp
qed

lemma run_halted: "halted m \<or> error_flag m \<Longrightarrow> run H m = Some m"
  by (subst run.simps) simp

text \<open>
  C4. \<^verbatim>\<open>reset\<close> assigns neither \<^verbatim>\<open>heap\<close> nor \<^verbatim>\<open>heap_blocks\<close>: both keep whatever
  the execution left. After the program \<^verbatim>\<open>PUSH 7; PUSH 1; ALLOC; STORE_INDIRECT; HALT\<close>
  and a reset, the block list still holds the allocated block and heap cell 0 still
  holds 7, where a new machine has no block and a zero cell.
\<close>

theorem reset_leaves_heap:
  "heap (reset m') = heap m' \<and> heap_blocks (reset m') = heap_blocks m'
  \<and> (let m = step H (step H (step H (step H (step H (loadBytecode reset_demo new_vm))))) in
      run H (loadBytecode reset_demo new_vm) = Some m \<and> halted m \<and> \<not> error_flag m
    \<and> heap_blocks (reset m) = [\<lparr>start = 0, bsize = 1, allocated = True\<rparr>]
    \<and> heap (reset m) ! 0 = 7
    \<and> heap_blocks new_vm = [] \<and> heap new_vm ! 0 = 0)"
proof -
  define m where "m = step H (step H (step H (step H (step H (loadBytecode reset_demo new_vm)))))"
  have e: "halted m" "\<not> error_flag m"
    "heap_blocks m = [\<lparr>start = 0, bsize = 1, allocated = True\<rparr>]"
    "heap m = (replicate 4096 0)[0 := 7]"
    by (simp_all add: m_def reset_demo_def vm_eval allocateHeap_def storeMemory_def
        isHeapAddress_def)
  have r: "run H (loadBytecode reset_demo new_vm) = Some m"
    using run_halted [of m H] e(1) unfolding m_def by (simp add: run_step)
  have g: "heap (reset m') = heap m'" "heap_blocks (reset m') = heap_blocks m'" for m'
    by (simp_all add: reset_def)
  have n: "heap_blocks new_vm = []" "heap new_vm ! 0 = 0"
    by (simp_all add: new_vm_def)
  show ?thesis
    unfolding Let_def m_def [symmetric] using e r n by (simp add: g)
qed


section \<open>The string table\<close>

lemma le_word32_bytes:
  "le_word32 (ucast v) (ucast (drop_bit 8 v)) (ucast (drop_bit 16 v)) (ucast (drop_bit 24 v)) = v"
  unfolding le_word32_def
proof (rule bit_word_eqI)
  fix n
  assume "n < LENGTH(32)"
  then consider "n < 8" | "8 \<le> n" "n < 16" | "16 \<le> n" "n < 24" | "24 \<le> n" "n < 32"
    by fastforce
  then show "bit (ucast (ucast v :: byte) OR push_bit 8 (ucast (ucast (drop_bit 8 v) :: byte))
               OR push_bit 16 (ucast (ucast (drop_bit 16 v) :: byte))
               OR push_bit 24 (ucast (ucast (drop_bit 24 v) :: byte)) :: 32 word) n = bit v n"
    by cases (auto simp add: bit_simps le_add_diff_inverse)
qed

lemma read_u32_int32_bytes: "read_u32 (int32_bytes v @ rest) = Some (v, rest)"
  by (simp add: read_u32_def int32_bytes_def le_word32_bytes)

lemma char_of_byte_of_char: "char_of_byte (byte_of_char c) = c"
proof -
  have "(of_char c :: 8 word) = word_of_nat (of_char c)"
    by (simp only: of_nat_of_char)
  then have "unat (of_char c :: 8 word) = of_char c mod 256"
    by (simp add: unat_of_nat)
  then show ?thesis
    by (simp add: char_of_byte_def byte_of_char_def)
qed

lemma read_write_string:
  assumes "length s < 2 ^ 32"
  shows "read_strings (Suc n) (write_string s @ rest) tbl = read_strings n rest (tbl @ [s])"
proof -
  have u: "unat (word_of_nat (length s) :: 32 word) = length s"
    using assms by (simp add: unat_of_nat)
  show ?thesis
    by (simp add: write_string_def Let_def read_u32_int32_bytes u comp_def
        char_of_byte_of_char del: read_strings.simps(2))
      (simp add: read_u32_int32_bytes u comp_def char_of_byte_of_char)
qed

lemma read_strings_written:
  "\<forall>s\<in>set ss. length s < 2 ^ 32 \<Longrightarrow>
   read_strings (length ss) (concat (map write_string ss) @ rest) tbl = (tbl @ ss, Inr rest)"
proof (induction ss arbitrary: tbl)
  case Nil
  show ?case by simp
next
  case (Cons s ss)
  have "read_strings (length (s # ss)) (concat (map write_string (s # ss)) @ rest) tbl
      = read_strings (Suc (length ss)) (write_string s @ (concat (map write_string ss) @ rest)) tbl"
    by simp
  also have "\<dots> = read_strings (length ss) (concat (map write_string ss) @ rest) (tbl @ [s])"
    using Cons.prems by (intro read_write_string) simp
  also have "\<dots> = ((tbl @ [s]) @ ss, Inr rest)"
    using Cons.prems by (intro Cons.IH) simp
  finally show ?case by simp
qed

lemma string_table_reset [simp]: "string_table (reset m) = string_table m"
  by (simp add: reset_def)

lemma string_table_error [simp]: "string_table (error msg m) = string_table m"
  by (simp add: error_def)

lemma load_saved_table:
  assumes "length (string_table_cg g) < 2 ^ 32"
    and "\<forall>s\<in>set (string_table_cg g). length s < 2 ^ 32"
  shows "string_table (loadFromFile (saveToFile g) m) = string_table_cg g"
proof -
  have u: "unat (word_of_nat (length (string_table_cg g)) :: 32 word) = length (string_table_cg g)"
    using assms(1) by (simp add: unat_of_nat)
  have r: "read_strings (length (string_table_cg g))
             (concat (map write_string (string_table_cg g))
              @ (int32_bytes (word_of_nat (length (bytecode_cg g))) @ bytecode_cg g)) []
           = ([] @ string_table_cg g,
              Inr (int32_bytes (word_of_nat (length (bytecode_cg g))) @ bytecode_cg g))"
    using assms(2) by (rule read_strings_written)
  show ?thesis
    by (simp add: loadFromFile_def saveToFile_def read_u32_int32_bytes u r Let_def)
qed

lemma find_string_Some:
  "find_string s tbl = Some i \<Longrightarrow> i < length tbl \<and> tbl ! i = s"
  by (induction tbl arbitrary: i) (auto split: if_splits)

lemma find_string_None: "find_string s tbl = None \<longleftrightarrow> s \<notin> set tbl"
  by (induction tbl) auto

lemma find_string_append: "s \<notin> set tbl \<Longrightarrow> find_string s (tbl @ [s]) = Some (length tbl)"
  by (induction tbl) auto

lemma addString_distinct:
  assumes "distinct (string_table_cg g)"
  shows "distinct (string_table_cg (snd (addString s g)))"
proof (cases "find_string s (string_table_cg g)")
  case None
  then have "s \<notin> set (string_table_cg g)"
    by (simp add: find_string_None)
  with None assms show ?thesis
    by (simp add: addString_def)
next
  case (Some i)
  with assms show ?thesis
    by (simp add: addString_def)
qed

lemma distinct_count_list: "distinct xs \<Longrightarrow> count_list xs x \<le> 1"
  by (induction xs) auto

lemma addString_subset:
  "set (string_table_cg (snd (addString s g))) \<subseteq> insert s (set (string_table_cg g))"
  by (cases "find_string s (string_table_cg g)") (auto simp add: addString_def)

lemma addString_length:
  "length (string_table_cg (snd (addString s g))) \<le> Suc (length (string_table_cg g))"
  by (cases "find_string s (string_table_cg g)") (auto simp add: addString_def)

lemma add_strings_table:
  "distinct (string_table_cg g) \<Longrightarrow>
     distinct (string_table_cg (add_strings ss g))
   \<and> set (string_table_cg (add_strings ss g)) \<subseteq> set ss \<union> set (string_table_cg g)
   \<and> length (string_table_cg (add_strings ss g)) \<le> length ss + length (string_table_cg g)"
proof (induction ss arbitrary: g)
  case Nil
  then show ?case by (simp add: add_strings_def)
next
  case (Cons s ss)
  let ?g = "snd (addString s g)"
  have d: "distinct (string_table_cg ?g)"
    using Cons.prems by (rule addString_distinct)
  have e: "add_strings (s # ss) g = add_strings ss ?g"
    by (simp add: add_strings_def)
  from Cons.IH [OF d] addString_subset [of s g] addString_length [of s g]
  show ?case unfolding e by auto
qed

lemma addString_twice:
  "fst (addString s (snd (addString s g))) = fst (addString s g)
   \<and> snd (addString s (snd (addString s g))) = snd (addString s g)
   \<and> (\<exists>k<length (string_table_cg (snd (addString s g))).
         fst (addString s g) = word_of_nat k \<and> string_table_cg (snd (addString s g)) ! k = s)"
proof (cases "find_string s (string_table_cg g)")
  case None
  then have n: "s \<notin> set (string_table_cg g)"
    by (simp add: find_string_None)
  have "length (string_table_cg g) < length (string_table_cg g @ [s])
      \<and> (word_of_nat (length (string_table_cg g)) :: int32) = word_of_nat (length (string_table_cg g))
      \<and> (string_table_cg g @ [s]) ! length (string_table_cg g) = s"
    by simp
  then have "\<exists>k<length (string_table_cg g @ [s]).
      (word_of_nat (length (string_table_cg g)) :: int32) = word_of_nat k
      \<and> (string_table_cg g @ [s]) ! k = s"
    by (rule exI)
  then show ?thesis
    using None find_string_append [OF n] by (simp add: addString_def)
next
  case (Some i)
  then show ?thesis
    using find_string_Some [OF Some] by (auto simp add: addString_def)
qed

text \<open>
  C8. Two calls of \<^verbatim>\<open>addString\<close> with the same string return the same index, which
  is the position of the string in the table, and the second call leaves the generator
  as it is. After any sequence of calls on a generator whose table was empty, no string
  occurs twice in the table; and the table that \<^verbatim>\<open>loadFromFile\<close> reads from the file
  written by \<^verbatim>\<open>saveToFile\<close> is that table (the counts fit the 32-bit fields of the
  file).
\<close>

theorem add_string_dedup:
  assumes "string_table_cg g0 = []"
    and "length ss < 2 ^ 32"
    and "\<forall>x\<in>set ss. length x < 2 ^ 32"
    and "g = add_strings ss g0"
  shows "fst (addString s (snd (addString s g))) = fst (addString s g)
       \<and> snd (addString s (snd (addString s g))) = snd (addString s g)
       \<and> (\<exists>k<length (string_table_cg (snd (addString s g))).
             fst (addString s g) = word_of_nat k \<and> string_table_cg (snd (addString s g)) ! k = s)
       \<and> count_list (string_table_cg g) s \<le> 1
       \<and> count_list (string_table (loadFromFile (saveToFile g) m)) s \<le> 1
       \<and> string_table (loadFromFile (saveToFile g) m) = string_table_cg g"
proof -
  have t: "distinct (string_table_cg g)" "set (string_table_cg g) \<subseteq> set ss"
    "length (string_table_cg g) \<le> length ss"
    using add_strings_table [of g0 ss] assms(1) unfolding assms(4) by simp_all
  have c: "count_list (string_table_cg g) s \<le> 1"
    using t(1) by (rule distinct_count_list)
  have l: "string_table (loadFromFile (saveToFile g) m) = string_table_cg g"
    using t(2,3) assms(2,3) by (intro load_saved_table) auto
  show ?thesis
    using addString_twice [of s g] c l by simp
qed

theorem add_string_dedup_witness:
  "(let g = add_strings [''a'', ''b'', ''a''] new_codegen in
      string_table_cg new_codegen = []
    \<and> string_table_cg g = [''a'', ''b'']
    \<and> fst (addString ''b'' g) = 1
    \<and> fst (addString ''b'' (snd (addString ''b'' g))) = fst (addString ''b'' g)
    \<and> count_list (string_table_cg g) ''b'' \<le> 1
    \<and> string_table (loadFromFile (saveToFile g) new_vm) = [''a'', ''b''])"
proof -
  define g where "g = add_strings [''a'', ''b'', ''a''] new_codegen"
  have h: "string_table_cg new_codegen = []" "length [''a'', ''b'', ''a''] < (2 :: nat) ^ 32"
    "\<forall>x\<in>set [''a'', ''b'', ''a'']. length x < (2 :: nat) ^ 32"
    by (simp_all add: new_codegen_def)
  note t = add_string_dedup [OF h g_def, of "''b''" new_vm]
  have tbl: "string_table_cg g = [''a'', ''b'']"
    by (simp add: g_def add_strings_def addString_def new_codegen_def)
  have i: "fst (addString ''b'' g) = 1"
    by (simp add: addString_def tbl)
  from t tbl i h(1) show ?thesis
    unfolding g_def [symmetric] Let_def by simp
qed


section \<open>The print builtins\<close>

lemma load_saved_file:
  assumes "length (string_table_cg g) < 2 ^ 32"
    and "\<forall>s\<in>set (string_table_cg g). length s < 2 ^ 32"
    and "length (bytecode_cg g) < 2 ^ 32"
  shows "loadFromFile (saveToFile g) m
       = reset (m\<lparr>string_table := string_table_cg g, bytecode := bytecode_cg g\<rparr>)"
proof -
  have u: "unat (word_of_nat (length (string_table_cg g)) :: 32 word) = length (string_table_cg g)"
    "unat (word_of_nat (length (bytecode_cg g)) :: 32 word) = length (bytecode_cg g)"
    using assms(1,3) by (simp_all add: unat_of_nat)
  have r: "read_strings (length (string_table_cg g))
             (concat (map write_string (string_table_cg g))
              @ (int32_bytes (word_of_nat (length (bytecode_cg g))) @ bytecode_cg g)) []
           = ([] @ string_table_cg g,
              Inr (int32_bytes (word_of_nat (length (bytecode_cg g))) @ bytecode_cg g))"
    using assms(2) by (rule read_strings_written)
  show ?thesis
    by (simp add: loadFromFile_def saveToFile_def read_u32_int32_bytes u r Let_def)
qed

lemmas cg_eval =
  generate_def genProgram_def collect_class_names_def bind_params_def emit_def emitInt32_def
  emitInt32At_def emitFloat32_def currentAddress_def get_label_def set_label_def makeLabel_def
  defineLabel_def emitJump_def fixupLabels_def addString_def mangleFunctionName_def
  addVariable_def addParameterSym_def findSymbol_def push_const_def genLiteral_def
  genIdentifier_def push_base_def cmp_tail_def eq_tail_def emit_print_def
  is_string_literal_def is_cout_chain_def int32_bytes_def new_codegen_def new_Label_def
  new_Symbol_def Let_def isFloatLiteralStr_def isFloatType_def

lemma print_demo_code:
  "bytecode_cg (generate H print_demo new_codegen)
     = [0x18, 6, 0, 0, 0,  0xFF,  0x24,  0x26, 0, 0, 0, 0,  0x0A,  0x01, 0, 0, 0, 0,  0x02,
        0x25,  0x19]"
  "string_table_cg (generate H print_demo new_codegen) = [''hi'']"
  by (simp_all add: print_demo_def cg_eval)

lemma addString_fields [simp]:
  "bytecode_cg (snd (addString s g)) = bytecode_cg g"
  "class_names (snd (addString s g)) = class_names g"
  "symbols (snd (addString s g)) = symbols g"
  "labels (snd (addString s g)) = labels g"
  "label_counter (snd (addString s g)) = label_counter g"
  by (simp_all add: addString_def split: option.splits)

lemma addString_update_bytecode [simp]:
  "addString s (g\<lparr>bytecode_cg := b\<rparr>)
     = (fst (addString s g), (snd (addString s g))\<lparr>bytecode_cg := b\<rparr>)"
  by (simp add: addString_def split: option.splits)

lemma println_string_literal_emits_print_str:
  assumes "''println'' \<notin> set (class_names g)"
  shows "bytecode_cg (genExpression H (CallExpr (Identifier ''println'' q) [Literal v STRING r] p) g)
       = bytecode_cg g @ [opcode_byte PUSH_STR] @ int32_bytes (fst (addString v g))
         @ [opcode_byte PRINT_STR] @ [opcode_byte PUSH]
         @ int32_bytes (fst (addString [CHR 0x0A] (snd (addString v g))))
         @ [opcode_byte PRINT_STR] @ [opcode_byte PUSH] @ int32_bytes 0"
  using assms
  by (simp add: emit_print_def genLiteral_def push_const_def emit_def emitInt32_def
      is_string_literal_def split_beta)

lemma print_demo_run:
  "\<exists>m. run H (loadFromFile (saveToFile (generate H print_demo new_codegen)) new_vm) = Some m
      \<and> cout m = ''0'' \<and> halted m \<and> \<not> error_flag m"
proof -
  let ?g = "generate H print_demo new_codegen"
  have l: "loadFromFile (saveToFile ?g) new_vm
         = reset (new_vm\<lparr>string_table := string_table_cg ?g, bytecode := bytecode_cg ?g\<rparr>)"
    by (rule load_saved_file) (simp_all add: print_demo_code)
  define m0 where "m0 = reset (new_vm\<lparr>string_table := [''hi''],
      bytecode := [0x18, 6, 0, 0, 0,  0xFF,  0x24,  0x26, 0, 0, 0, 0,  0x0A,  0x01, 0, 0, 0, 0,
                   0x02, 0x25,  0x19]\<rparr>)"
  define m where "m = step H (step H (step H (step H (step H (step H (step H (step H (step H m0))))))))"
  have e: "halted m" "\<not> error_flag m" "cout m = ''0''"
    by (simp_all add: m_def m0_def vm_eval printValue_def show_int_def digit_char_def)
  have "run H m0 = run H m"
    unfolding m_def by (simp add: run_step)
  then have "run H m0 = Some m"
    using run_halted [of m H] e(1) by simp
  then show ?thesis
    using e unfolding l print_demo_code m0_def by blast
qed

text \<open>
  C6. The claim gives a string literal argument of \<^verbatim>\<open>print\<close> to \<^verbatim>\<open>PRINT_STR\<close>. The
  \<^verbatim>\<open>print\<close> branch of \<^verbatim>\<open>genCall\<close> chooses between \<^verbatim>\<open>FPRINT\<close> and \<^verbatim>\<open>PRINT\<close> only:
  for a string literal it emits \<^verbatim>\<open>PUSH_STR id; PRINT; PUSH 0\<close>, so the machine prints the
  index of the string in the table, not the string. (The \<^verbatim>\<open>println\<close> branch does emit
  \<^verbatim>\<open>PRINT_STR\<close>, see \<open>println_string_literal_emits_print_str\<close>.)
\<close>

theorem print_string_literal_emits_print:
  assumes "''print'' \<notin> set (class_names g)"
  shows "bytecode_cg (genExpression H (CallExpr (Identifier ''print'' q) [Literal v STRING r] p) g)
       = bytecode_cg g @ [opcode_byte PUSH_STR] @ int32_bytes (fst (addString v g))
         @ [opcode_byte PRINT] @ [opcode_byte PUSH] @ int32_bytes 0"
  using assms
  by (simp add: emit_print_def genLiteral_def push_const_def emit_def emitInt32_def
      split_beta)

theorem print_string_literal_emits_print_witness:
  "\<forall>H. bytecode_cg (genExpression H (CallExpr (Identifier ''print'' (1, 13))
                                      [Literal ''hi'' STRING (1, 19)] (1, 18)) new_codegen)
        = [0x26, 0, 0, 0, 0,  0x0A,  0x01, 0, 0, 0, 0]
      \<and> (\<exists>m. run H (loadFromFile (saveToFile (generate H print_demo new_codegen)) new_vm) = Some m
             \<and> cout m = ''0'' \<and> halted m \<and> \<not> error_flag m)"
proof
  fix H
  have h: "''print'' \<notin> set (class_names new_codegen)"
    by (simp add: new_codegen_def)
  note t = print_string_literal_emits_print [OF h, of H "(1, 13)" "''hi''" "(1, 19)" "(1, 18)"]
  have a: "fst (addString ''hi'' new_codegen) = 0" "bytecode_cg new_codegen = []"
    by (simp_all add: addString_def new_codegen_def)
  have b: "bytecode_cg (genExpression H (CallExpr (Identifier ''print'' (1, 13))
                                      [Literal ''hi'' STRING (1, 19)] (1, 18)) new_codegen)
        = [0x26, 0, 0, 0, 0,  0x0A,  0x01, 0, 0, 0, 0]"
    unfolding t a by (simp add: int32_bytes_def)
  show "bytecode_cg (genExpression H (CallExpr (Identifier ''print'' (1, 13))
                                      [Literal ''hi'' STRING (1, 19)] (1, 18)) new_codegen)
        = [0x26, 0, 0, 0, 0,  0x0A,  0x01, 0, 0, 0, 0]
      \<and> (\<exists>m. run H (loadFromFile (saveToFile (generate H print_demo new_codegen)) new_vm) = Some m
             \<and> cout m = ''0'' \<and> halted m \<and> \<not> error_flag m)"
    using b print_demo_run [of H] by blast
qed


section \<open>Lines and columns\<close>

lemma tokenize_two_lines:
  "tokenize (new_lexer [CHR ''a'', CHR 0x0A, CHR ''b''] [])
     = Some ([Token IDENTIFIER ''a'' 1 1, Token IDENTIFIER ''b'' 2 2, Token END_OF_FILE [] 2 3],
             \<lparr>source = [CHR ''a'', CHR 0x0A, CHR ''b''], position = 3, line = 2, column = 3,
              tokens = [Token IDENTIFIER ''a'' 1 1, Token IDENTIFIER ''b'' 2 2,
                        Token END_OF_FILE [] 2 3],
              lex_error_flag = False, filename = []\<rparr>)"
  by code_simp

lemma token_column:
  "tcolumn (fst (getNextToken lx)) = column lx \<and> tline (fst (getNextToken lx)) = line lx"
  by (simp add: getNextToken_def readPunctuation_def readOperator_def readPreprocessor_def
      readMultiLineComment_def readSingleLineComment_def readCharacter_def readString_def
      read_quoted_def readIdentifier_def readNumber_def categorizeKeyword_def Let_def
      split_beta)

text \<open>
  C7. The claim puts the first character after a line feed at column 1. \<^verbatim>\<open>skipWhitespace\<close>
  sets the column to 1 at the line feed and then calls \<^verbatim>\<open>advance\<close>, which adds 1 for the
  line feed itself: the character after it, and the token that starts there, is at
  column 2. For the two lines \<^verbatim>\<open>a\<close> and \<^verbatim>\<open>b\<close> the token \<^verbatim>\<open>b\<close> is recorded at line 2,
  column 2.
\<close>

theorem column_after_linefeed_is_two:
  assumes "position lx + 1 < length (source lx)"
    and "source lx ! position lx = CHR 0x0A"
    and "source lx ! (position lx + 1) \<notin> {CHR '' '', CHR 0x09, CHR 0x0D, CHR 0x0A}"
  shows "skipWhitespace lx = lx\<lparr>position := position lx + 1, line := line lx + 1, column := 2\<rparr>
       \<and> tline (fst (getNextToken (skipWhitespace lx))) = line lx + 1
       \<and> tcolumn (fst (getNextToken (skipWhitespace lx))) = 2"
proof -
  let ?lx1 = "advance (newline_here lx)"
  have a: "?lx1 = lx\<lparr>position := position lx + 1, line := line lx + 1, column := 2\<rparr>"
    using assms(1) by (simp add: advance_def newline_here_def)
  have "skipWhitespace lx = skipWhitespace ?lx1"
    using assms(1,2) by (subst skipWhitespace.simps) (simp add: peek_at_def)
  also have "\<dots> = ?lx1"
    using assms(1,3) unfolding a by (subst skipWhitespace.simps) (simp add: peek_at_def)
  finally have s: "skipWhitespace lx = lx\<lparr>position := position lx + 1, line := line lx + 1, column := 2\<rparr>"
    unfolding a .
  show ?thesis
    using token_column [of "skipWhitespace lx"] unfolding s by simp
qed

theorem column_after_linefeed_is_two_witness:
  "(let lx = \<lparr>source = [CHR ''a'', CHR 0x0A, CHR ''b''], position = 1, line = 1, column = 2,
              tokens = [Token IDENTIFIER ''a'' 1 1], lex_error_flag = False, filename = []\<rparr>
    in position lx + 1 < length (source lx)
     \<and> source lx ! position lx = CHR 0x0A
     \<and> source lx ! (position lx + 1) = CHR ''b''
     \<and> fst (getNextToken (skipWhitespace lx)) = Token IDENTIFIER ''b'' 2 2
     \<and> tcolumn (fst (getNextToken (skipWhitespace lx))) = 2)
   \<and> map_option fst (tokenize (new_lexer [CHR ''a'', CHR 0x0A, CHR ''b''] []))
       = Some [Token IDENTIFIER ''a'' 1 1, Token IDENTIFIER ''b'' 2 2, Token END_OF_FILE [] 2 3]"
proof -
  define lx where "lx = \<lparr>source = [CHR ''a'', CHR 0x0A, CHR ''b''], position = 1, line = 1,
      column = 2, tokens = [Token IDENTIFIER ''a'' 1 1], lex_error_flag = False, filename = []\<rparr>"
  have h: "position lx + 1 < length (source lx)" "source lx ! position lx = CHR 0x0A"
    "source lx ! (position lx + 1) \<notin> {CHR '' '', CHR 0x09, CHR 0x0D, CHR 0x0A}"
    "source lx ! (position lx + 1) = CHR ''b''"
    by (simp_all add: lx_def)
  note t = column_after_linefeed_is_two [OF h(1,2,3)]
  have g: "fst (getNextToken (skipWhitespace lx)) = Token IDENTIFIER ''b'' 2 2"
    unfolding lx_def by code_simp
  have k: "map_option fst (tokenize (new_lexer [CHR ''a'', CHR 0x0A, CHR ''b''] []))
       = Some [Token IDENTIFIER ''a'' 1 1, Token IDENTIFIER ''b'' 2 2, Token END_OF_FILE [] 2 3]"
    by (simp add: tokenize_two_lines)
  from t h g k show ?thesis
    unfolding lx_def [symmetric] Let_def by simp
qed


section \<open>A whole program\<close>

lemma parse_numeral: "parse (numeral k) nt s = parse_body (parse (pred_numeral k)) nt s"
  by (simp add: numeral_eq_Suc)

lemmas parser_eval =
  pbind_def succeed_def tpos_def peek_tok_def isAtEnd_def check_def check_value_def
  advance_tok_def fail_at_def consume_def take_tok_def new_parser_def collect_values_def
  template_text_def parseType_def type_at_def la_base_name_def is_base_type_token_def
  parseTypeForLookahead_def function_ahead_def parseAccessSpecifier_def include_file_def
  find_char_def parseIncludeDirective_def parseUsingDirective_def template_param_def
  parseTemplateParams_def base_class_def initializer_text_def skip_braces_def node_of_def
  expr_of_def nodes_of_def params_of_def some_node_def push_node_def program_loop_def
  statement_keywords_def parseDeclarationOrStatement_def members_loop_def parseClass_def
  parseStruct_def statements_loop_def parseNamespace_def parseTemplate_def params_loop_def
  parseFunctionParams_def function_head_def parseFunctionDeclaration_def parseClassMember_def
  parse_initializer_def constructor_args_loop_def declarator_init_def declarators_loop_def
  parseVarDeclaration_def parseStatement_def parseBlock_def parseExpressionStatement_def
  opt_expr_def for_init_def for_clauses_def parseFor_def parseIf_def parseWhile_def
  parseReturn_def parseThrow_def parseAssignment_def parseConditional_def binary_level_def
  binary_loop_def is_shift_op_def is_comparison_op_def parseUnary_def parseCallAndPrimary_def
  call_args_loop_def member_access_def postfix_loop_def parse_body_def parseProgram_def
  skip_comments.simps skip_leading.simps token_loop.simps type_name_loop.simps
  pointer_loop.simps la_collect.simps la_qualified.simps la_template.simps la_base.simps
  la_pointers.simps template_params_loop.simps base_classes_loop.simps
  namespace_name_loop.simps scan_function.simps parse_numeral Let_def


lemma add_source_tokens:
  "tokenize (new_lexer add_source []) =
     Some (add_tokens, \<lparr>source = add_source, position = 80, line = 1, column = 81,
                         tokens = add_tokens, lex_error_flag = False, filename = []\<rparr>)"
  by code_simp

lemma add_tokens_program:
  "map_sum id fst (parseProgram 60 (new_parser add_tokens)) = Inr add_program"
  by (simp add: add_tokens_def add_program_def parser_eval)

lemma add_program_code:
  "bytecode_cg (generate H add_program new_codegen) = add_code"
  "string_table_cg (generate H add_program new_codegen) = []"
  by (simp_all add: add_program_def add_code_def cg_eval stoi_def digits_value_def
      digit_value_def isspace_def isdigit_def leftmost.simps param_offset_def show_nat.simps
      digit_char_def)

lemma add_code_run:
  "\<exists>m. run H (reset (new_vm\<lparr>string_table := [], bytecode := add_code\<rparr>)) = Some m
      \<and> cout m = ''5'' \<and> halted m \<and> \<not> error_flag m \<and> instruction_pointer m = 6
      \<and> bytecode m ! 5 = opcode_byte HALT"
proof -
  define m0 where "m0 = reset (new_vm\<lparr>string_table := [], bytecode := add_code\<rparr>)"
  define m where "m = step H (step H (step H (step H (step H (step H (step H (step H (step H (step H (step H (step H (step H (step H (step H (step H (step H (step H (step H (step H (step H (step H (m0))))))))))))))))))))))"
  have e: "halted m" "\<not> error_flag m" "cout m = ''5''" "instruction_pointer m = 6"
    "bytecode m ! 5 = opcode_byte HALT"
    by (simp_all add: m_def m0_def add_code_def vm_eval printValue_def show_int_def digit_char_def)
  have "run H m0 = run H m"
    unfolding m_def by (simp add: run_step)
  then have "run H m0 = Some m"
    using run_halted [of m H] e(1) by simp
  then show ?thesis
    using e unfolding m0_def by blast
qed

lemma print_source_program:
  "map_option fst (tokenize (new_lexer print_source [])) = Some print_tokens"
  "map_sum id fst (parseProgram 60 (new_parser print_tokens)) = Inr print_demo"
  by (code_simp, simp add: print_tokens_def print_demo_def parser_eval)

text \<open>
  C2. The source \<^verbatim>\<open>int add(int a,int b){ return a+b; } int main(){ std::cout<<add(2,3);
  return 0; }\<close> goes through the lexer, the parser (60 nested calls are enough) and the
  code generator; the file written by \<^verbatim>\<open>saveToFile\<close>, loaded into a new machine and run,
  writes exactly \<^verbatim>\<open>5\<close>, and the run ends halted and without error after the \<^verbatim>\<open>HALT\<close> at
  address 5. This holds for every host arithmetic.
\<close>

theorem add_program_prints_5:
  "\<exists>g m. compile H 60 add_source = Some g
       \<and> execute H (saveToFile g) = Some m
       \<and> cout m = ''5'' \<and> halted m \<and> \<not> error_flag m
       \<and> instruction_pointer m = 6 \<and> bytecode m ! 5 = opcode_byte HALT"
proof -
  let ?g = "generate H add_program new_codegen"
  obtain s where p: "parseProgram 60 (new_parser add_tokens) = Inr (add_program, s)"
    using add_tokens_program by (cases "parseProgram 60 (new_parser add_tokens)") auto
  have c: "compile H 60 add_source = Some ?g"
    by (simp add: compile_def add_source_tokens p)
  have l: "loadFromFile (saveToFile ?g) new_vm
         = reset (new_vm\<lparr>string_table := string_table_cg ?g, bytecode := bytecode_cg ?g\<rparr>)"
    by (rule load_saved_file) (simp_all add: add_program_code add_code_def)
  obtain m where r: "run H (reset (new_vm\<lparr>string_table := [], bytecode := add_code\<rparr>)) = Some m"
    "cout m = ''5''" "halted m" "\<not> error_flag m" "instruction_pointer m = 6"
    "bytecode m ! 5 = opcode_byte HALT"
    using add_code_run [of H] by blast
  have x: "execute H (saveToFile ?g) = Some m"
    unfolding execute_def l add_program_code by (rule r(1))
  from c x r(2-6) show ?thesis by blast
qed

end
